(* ===== verification/Prelude.thy ===== *)
theory Prelude
  imports Main
begin

text \<open>
  Shared vocabulary of the development: the named collections of evaluation rules the
  component theories contribute to, the error-carrying result type \<open>'e + 'a\<close> with its
  bind (\<open>sbind\<close>), and the list operations of JavaScript that may throw part-way
  (\<open>Array.prototype.filter\<close> and \<open>map\<close> with a callback that throws), with the lemmas
  relating them to the library's \<open>filter\<close> and \<open>map\<close>.
\<close>

named_theorems js_simps "evaluation rules of the JavaScript value model"
named_theorems prog_simps "unfolding rules of the upstream request monad"

section \<open>Results that may throw\<close>

text \<open>A computation that may throw is a value of \<open>'e + 'a\<close>, \<open>Inl\<close> the exception.\<close>

definition sbind :: "'e + 'a \<Rightarrow> ('a \<Rightarrow> 'e + 'b) \<Rightarrow> 'e + 'b" where
  "sbind m f = (case m of Inl e \<Rightarrow> Inl e | Inr a \<Rightarrow> f a)"

lemma sbind_Inl [simp]: "sbind (Inl e) f = Inl e"
  by (simp add: sbind_def)

lemma sbind_Inr [simp]: "sbind (Inr a) f = f a"
  by (simp add: sbind_def)

lemma sbind_eq_Inr: "sbind m f = Inr b \<longleftrightarrow> (\<exists>a. m = Inr a \<and> f a = Inr b)"
  by (cases m) auto

lemma sbind_eq_Inl: "sbind m f = Inl e \<longleftrightarrow> m = Inl e \<or> (\<exists>a. m = Inr a \<and> f a = Inl e)"
  by (cases m) auto

section \<open>Array methods whose callback may throw\<close>

text \<open>
  \<open>xs.filter(p)\<close> calls \<open>p\<close> on the elements from left to right; the first exception
  aborts the whole call.
\<close>

fun filter_sum :: "('a \<Rightarrow> 'e + bool) \<Rightarrow> 'a list \<Rightarrow> 'e + 'a list" where
  "filter_sum p [] = Inr []"
| "filter_sum p (x # xs) =
     sbind (p x) (\<lambda>b. sbind (filter_sum p xs) (\<lambda>ys. Inr (if b then x # ys else ys)))"

text \<open>\<open>xs.map(f)\<close> (and a \<open>forEach\<close> that pushes \<open>f x\<close>), aborted by the first exception.\<close>

fun map_sum :: "('a \<Rightarrow> 'e + 'b) \<Rightarrow> 'a list \<Rightarrow> 'e + 'b list" where
  "map_sum f [] = Inr []"
| "map_sum f (x # xs) = sbind (f x) (\<lambda>y. sbind (map_sum f xs) (\<lambda>ys. Inr (y # ys)))"

lemma filter_sum_Inr:
  "filter_sum p xs = Inr ys \<Longrightarrow>
     ys = filter (\<lambda>x. p x = Inr True) xs \<and> (\<forall>x\<in>set xs. \<exists>b. p x = Inr b)"
proof (induction xs arbitrary: ys)
  case Nil
  then show ?case by simp
next
  case (Cons x xs)
  then show ?case by (auto simp: sbind_eq_Inr)
qed

lemma filter_sum_total:
  "(\<And>x. x \<in> set xs \<Longrightarrow> \<exists>b. p x = Inr b) \<Longrightarrow>
     filter_sum p xs = Inr (filter (\<lambda>x. p x = Inr True) xs)"
proof (induction xs)
  case Nil
  then show ?case by simp
next
  case (Cons x xs)
  then obtain b where "p x = Inr b" by auto
  with Cons show ?case by auto
qed

lemma map_sum_Inr:
  "map_sum f xs = Inr ys \<Longrightarrow> length ys = length xs \<and> (\<forall>i<length xs. f (xs ! i) = Inr (ys ! i))"
proof (induction xs arbitrary: ys)
  case Nil
  then show ?case by simp
next
  case (Cons x xs)
  then show ?case by (auto simp: sbind_eq_Inr nth_Cons split: nat.splits)
qed

lemma map_sum_map:
  "map_sum (\<lambda>x. Inr (g x)) xs = Inr (map g xs)"
  by (induction xs) auto

section \<open>Lists\<close>

lemma set_take_filterD [dest]:
  "x \<in> set (take n (filter P xs)) \<Longrightarrow> P x \<and> x \<in> set xs"
  by (auto dest: in_set_takeD)

lemma length_take_le [simp]: "length (take n xs) \<le> n"
  by simp

lemma concat_map_singleton: "concat (map (\<lambda>x. [f x]) xs) = map f xs"
  by (induction xs) auto

end
