(* ===== verification/JsValue.thy ===== *)
theory JsValue
  imports Prelude
begin

text \<open>
  The JavaScript values the handlers of \<open>src/back/apiRequest\<close> and \<open>src/back/routes\<close>
  compute with, and the few operations of the language they rely on: truthiness
  (\<open>if (x)\<close>, \<open>!x\<close>, \<open>&&\<close>), property and index access (\<open>x.results\<close>,
  \<open>x.results[0]\<close>, \<open>.length\<close>), which throws a \<open>TypeError\<close> on \<open>undefined\<close> and
  \<open>null\<close>, \<open>Array.isArray\<close>, the comparison \<open>x > 0\<close>, string conversion (the
  template literals \<open>`/movie/id/${imdbId}/`\<close>), \<open>encodeURIComponent\<close>,
  \<open>String.prototype.trim\<close>, \<open>parseInt\<close>, the comparison \<open>username.length < 3\<close>,
  the string check of the \<open>validator\<close> library and the UTF-8 bytes bcrypt hashes.

  A JSON document parsed by \<open>JSON.parse\<close> is a \<open>jsval\<close> without \<open>JUndef\<close>.
  Numbers are integers (the upstream's counts and identifiers); strings are lists of
  characters read as Latin-1 code units. An object is the list of its own properties in
  insertion order, keys distinct as in every object \<open>JSON.parse\<close> builds; a key that is
  not an own property reads as \<open>undefined\<close>, which is right for every key the handlers
  read (none is a property of \<open>Object.prototype\<close>).
\<close>

datatype jsval =
    JUndef
  | JNull
  | JBool bool
  | JNum int
  | JStr string
  | JArr "jsval list"
  | JObj "(string \<times> jsval) list"

text \<open>
  What a handler can throw or reject with: a \<open>TypeError\<close> of the language, one of the
  two \<open>Error\<close>s the request wrappers reject with, "communication" (the request's
  \<open>error\<close> event) and "JSON analysis" (a body \<open>JSON.parse\<close> refused), or the
  rejection of a statement by the database (\<open>DbError\<close>).
\<close>

datatype exn = TypeError | NetError | ParseError | DbError

type_synonym 'a js = "exn + 'a"

section \<open>Conversion to string\<close>

definition digit_chars :: string where
  "digit_chars = ''0123456789''"

fun dec_nat :: "nat \<Rightarrow> string" where
  "dec_nat n =
     (if n < 10 then [digit_chars ! n] else dec_nat (n div 10) @ [digit_chars ! (n mod 10)])"

declare dec_nat.simps [simp del]

definition dec_int :: "int \<Rightarrow> string" where
  "dec_int i = (if i < 0 then CHR ''-'' # dec_nat (nat (- i)) else dec_nat (nat i))"

fun js_join :: "string list \<Rightarrow> string" where
  "js_join [] = []"
| "js_join [s] = s"
| "js_join (s # ss) = s @ '','' @ js_join ss"

text \<open>
  \<open>String(v)\<close>, as a template literal applies it: an array is joined with commas,
  \<open>undefined\<close> and \<open>null\<close> elements giving the empty string.
\<close>

fun js_to_string :: "jsval \<Rightarrow> string" where
  "js_to_string JUndef = ''undefined''"
| "js_to_string JNull = ''null''"
| "js_to_string (JBool b) = (if b then ''true'' else ''false'')"
| "js_to_string (JNum n) = dec_int n"
| "js_to_string (JStr s) = s"
| "js_to_string (JArr vs) =
     js_join (map (\<lambda>v. if v = JUndef \<or> v = JNull then [] else js_to_string v) vs)"
| "js_to_string (JObj kvs) = ''[object Object]''"

section \<open>Truthiness\<close>

fun js_truthy :: "jsval \<Rightarrow> bool" where
  "js_truthy JUndef = False"
| "js_truthy JNull = False"
| "js_truthy (JBool b) = b"
| "js_truthy (JNum n) = (n \<noteq> 0)"
| "js_truthy (JStr s) = (s \<noteq> [])"
| "js_truthy (JArr vs) = True"
| "js_truthy (JObj kvs) = True"

section \<open>Property and index access\<close>

definition is_digit :: "char \<Rightarrow> bool" where
  "is_digit c \<longleftrightarrow> 48 \<le> (of_char c :: nat) \<and> (of_char c :: nat) \<le> 57"

fun digits_val :: "nat \<Rightarrow> string \<Rightarrow> nat" where
  "digits_val acc [] = acc"
| "digits_val acc (c # cs) = digits_val (10 * acc + (of_char c - 48)) cs"

text \<open>The array index a property key denotes: a canonical decimal numeral.\<close>

definition array_index :: "string \<Rightarrow> nat option" where
  "array_index k =
     (if k \<noteq> [] \<and> list_all is_digit k \<and> (k = ''0'' \<or> hd k \<noteq> CHR ''0'')
      then Some (digits_val 0 k) else None)"

text \<open>\<open>v.k\<close> and \<open>v[k]\<close>: a \<open>TypeError\<close> on \<open>undefined\<close> and \<open>null\<close>.\<close>

fun js_get :: "jsval \<Rightarrow> string \<Rightarrow> jsval js" where
  "js_get JUndef k = Inl TypeError"
| "js_get JNull k = Inl TypeError"
| "js_get (JBool b) k = Inr JUndef"
| "js_get (JNum n) k = Inr JUndef"
| "js_get (JStr s) k =
     Inr (if k = ''length'' then JNum (int (length s))
          else case array_index k of
                 Some i \<Rightarrow> if i < length s then JStr [s ! i] else JUndef
               | None \<Rightarrow> JUndef)"
| "js_get (JArr vs) k =
     Inr (if k = ''length'' then JNum (int (length vs))
          else case array_index k of
                 Some i \<Rightarrow> if i < length vs then vs ! i else JUndef
               | None \<Rightarrow> JUndef)"
| "js_get (JObj kvs) k = Inr (case map_of kvs k of Some v \<Rightarrow> v | None \<Rightarrow> JUndef)"

text \<open>\<open>v[i]\<close> for a number \<open>i\<close>: the key is \<open>String(i)\<close>.\<close>

definition js_idx :: "jsval \<Rightarrow> nat \<Rightarrow> jsval js" where
  "js_idx v i = js_get v (dec_nat i)"

fun js_is_array :: "jsval \<Rightarrow> bool" where
  "js_is_array (JArr vs) = True"
| "js_is_array v = False"

section \<open>Whitespace, trimming and the comparison with zero\<close>

text \<open>The WhiteSpace and LineTerminator code units below 256.\<close>

definition js_space :: "char \<Rightarrow> bool" where
  "js_space c \<longleftrightarrow> (of_char c :: nat) \<in> {9, 10, 11, 12, 13, 32, 160}"

definition js_trim :: "string \<Rightarrow> string" where
  "js_trim s = rev (dropWhile js_space (rev (dropWhile js_space s)))"

text \<open>
  \<open>Number(s)\<close> on the decimal integer literals (with sign and surrounding whitespace;
  the empty string is 0); the fraction, exponent, hexadecimal and \<open>Infinity\<close> forms of
  the language are not modelled and read as \<open>NaN\<close>, i.e. \<open>None\<close>.
\<close>

definition js_string_to_int :: "string \<Rightarrow> int option" where
  "js_string_to_int s =
     (let t = js_trim s in
      if t = [] then Some 0
      else if hd t = CHR ''-'' \<and> tl t \<noteq> [] \<and> list_all is_digit (tl t)
        then Some (- int (digits_val 0 (tl t)))
      else if hd t = CHR ''+'' \<and> tl t \<noteq> [] \<and> list_all is_digit (tl t)
        then Some (int (digits_val 0 (tl t)))
      else if list_all is_digit t then Some (int (digits_val 0 t))
      else None)"

text \<open>\<open>v > 0\<close>: \<open>undefined\<close> and objects compare as \<open>NaN\<close>, \<open>null\<close> as 0.\<close>

fun js_gt0 :: "jsval \<Rightarrow> bool" where
  "js_gt0 JUndef = False"
| "js_gt0 JNull = False"
| "js_gt0 (JBool b) = b"
| "js_gt0 (JNum n) = (0 < n)"
| "js_gt0 (JStr s) = (case js_string_to_int s of Some n \<Rightarrow> 0 < n | None \<Rightarrow> False)"
| "js_gt0 (JArr vs) =
     (case js_string_to_int (js_to_string (JArr vs)) of Some n \<Rightarrow> 0 < n | None \<Rightarrow> False)"
| "js_gt0 (JObj kvs) = False"

section \<open>Percent-encoding of path segments\<close>

text \<open>
  \<open>encodeURIComponent\<close>: the unreserved characters stay, every other code unit is
  written as the percent-encoded bytes of its UTF-8 form (one byte below 128, two bytes
  for the code units 128 to 255), in upper-case hexadecimal.
\<close>

definition hex_chars :: string where
  "hex_chars = ''0123456789ABCDEF''"

definition pct_byte :: "nat \<Rightarrow> string" where
  "pct_byte b = [CHR ''%'', hex_chars ! (b div 16), hex_chars ! (b mod 16)]"

definition is_alnum :: "char \<Rightarrow> bool" where
  "is_alnum c \<longleftrightarrow> is_digit c \<or> (65 \<le> (of_char c :: nat) \<and> (of_char c :: nat) \<le> 90)
                  \<or> (97 \<le> (of_char c :: nat) \<and> (of_char c :: nat) \<le> 122)"

text \<open>\<open>A-Z a-z 0-9 - _ . ! ~ * ' ( )\<close>.\<close>

definition uri_unreserved :: "char \<Rightarrow> bool" where
  "uri_unreserved c \<longleftrightarrow> is_alnum c \<or> (of_char c :: nat) \<in> {45, 95, 46, 33, 126, 42, 39, 40, 41}"

definition encode_char :: "char \<Rightarrow> string" where
  "encode_char c =
     (let b = (of_char c :: nat) in
      if uri_unreserved c then [c]
      else if b < 128 then pct_byte b
      else pct_byte (192 + b div 64) @ pct_byte (128 + b mod 64))"

definition encodeURIComponent :: "string \<Rightarrow> string" where
  "encodeURIComponent s = concat (map encode_char s)"

text \<open>
  The receiving side's \<open>decodeURIComponent\<close>, used to state that encoding loses
  nothing. A percent triple is a byte, any other character stands for itself; bytes are
  then read as UTF-8. Sequences for code points beyond 255 lie outside the character
  model and decode to \<open>None\<close>, as malformed sequences do.
\<close>

datatype uri_unit = Lit char | Byte nat

definition hex_digit_val :: "char \<Rightarrow> nat option" where
  "hex_digit_val c =
     (let b = (of_char c :: nat) in
      if 48 \<le> b \<and> b \<le> 57 then Some (b - 48)
      else if 65 \<le> b \<and> b \<le> 70 then Some (b - 55)
      else if 97 \<le> b \<and> b \<le> 102 then Some (b - 87)
      else None)"

fun uri_units :: "string \<Rightarrow> uri_unit list option" where
  "uri_units [] = Some []"
| "uri_units (c # cs) =
     (if c = CHR ''%'' then
        (case cs of
           h1 # h2 # rest \<Rightarrow>
             (case (hex_digit_val h1, hex_digit_val h2) of
                (Some a, Some b) \<Rightarrow> map_option (Cons (Byte (16 * a + b))) (uri_units rest)
              | _ \<Rightarrow> None)
         | _ \<Rightarrow> None)
      else map_option (Cons (Lit c)) (uri_units cs))"

fun utf8_units :: "uri_unit list \<Rightarrow> string option" where
  "utf8_units [] = Some []"
| "utf8_units (Lit c # us) = map_option (Cons c) (utf8_units us)"
| "utf8_units (Byte b # us) =
     (if b < 128 then map_option (Cons (char_of b)) (utf8_units us)
      else case us of
             Byte b2 # rest \<Rightarrow>
               if 194 \<le> b \<and> b \<le> 195 \<and> 128 \<le> b2 \<and> b2 < 192
               then map_option (Cons (char_of ((b - 192) * 64 + (b2 - 128)))) (utf8_units rest)
               else None
           | _ \<Rightarrow> None)"

definition decodeURIComponent :: "string \<Rightarrow> string option" where
  "decodeURIComponent s = (case uri_units s of None \<Rightarrow> None | Some us \<Rightarrow> utf8_units us)"

section \<open>parseInt\<close>

text \<open>
  \<open>parseInt(v)\<close> without a radix: leading whitespace skipped, an optional sign, the
  prefix \<open>0x\<close> or \<open>0X\<close> selecting base 16, then the longest run of digits; no digit
  is \<open>NaN\<close> (\<open>None\<close>). Trailing characters are ignored.
\<close>

definition dec_digit_val :: "char \<Rightarrow> nat option" where
  "dec_digit_val c = (if is_digit c then Some (of_char c - 48) else None)"

fun take_digits :: "(char \<Rightarrow> nat option) \<Rightarrow> string \<Rightarrow> nat list" where
  "take_digits dv [] = []"
| "take_digits dv (c # cs) = (case dv c of Some d \<Rightarrow> d # take_digits dv cs | None \<Rightarrow> [])"

definition horner :: "nat \<Rightarrow> nat list \<Rightarrow> nat" where
  "horner r ds = foldl (\<lambda>acc d. r * acc + d) 0 ds"

definition parse_unsigned :: "string \<Rightarrow> nat option" where
  "parse_unsigned s =
     (let (r, body) = (if take 2 s = ''0x'' \<or> take 2 s = ''0X'' then (16, drop 2 s) else (10, s));
          ds = take_digits (if r = 16 then hex_digit_val else dec_digit_val) body
      in if ds = [] then None else Some (horner r ds))"

definition js_parseInt :: "jsval \<Rightarrow> int option" where
  "js_parseInt v =
     (let s = dropWhile js_space (js_to_string v) in
      if s \<noteq> [] \<and> hd s = CHR ''-'' then map_option (\<lambda>n. - int n) (parse_unsigned (tl s))
      else if s \<noteq> [] \<and> hd s = CHR ''+'' then map_option int (parse_unsigned (tl s))
      else map_option int (parse_unsigned s))"

section \<open>Numbers, comparisons and string arguments\<close>

text \<open>
  \<open>Number(v)\<close> on the integer subset: \<open>undefined\<close> and objects are \<open>NaN\<close>,
  \<open>null\<close> is 0, an array goes through its string.
\<close>

fun js_to_number :: "jsval \<Rightarrow> int option" where
  "js_to_number JUndef = None"
| "js_to_number JNull = Some 0"
| "js_to_number (JBool b) = Some (if b then 1 else 0)"
| "js_to_number (JNum n) = Some n"
| "js_to_number (JStr s) = js_string_to_int s"
| "js_to_number (JArr vs) = js_string_to_int (js_to_string (JArr vs))"
| "js_to_number (JObj kvs) = None"

text \<open>\<open>v < k\<close> for an integer literal \<open>k\<close>: false when \<open>v\<close> is \<open>NaN\<close>.\<close>

definition js_lt_int :: "jsval \<Rightarrow> int \<Rightarrow> bool" where
  "js_lt_int v k = (case js_to_number v of Some n \<Rightarrow> n < k | None \<Rightarrow> False)"

text \<open>
  The argument check of the \<open>validator\<close> library (\<open>assertString\<close>): anything but a
  string is a \<open>TypeError\<close>.
\<close>

fun js_string :: "jsval \<Rightarrow> string js" where
  "js_string (JStr s) = Inr s"
| "js_string v = Inl TypeError"

text \<open>The UTF-8 bytes of a string of Latin-1 code units.\<close>

definition utf8_char :: "char \<Rightarrow> nat list" where
  "utf8_char c =
     (let b = (of_char c :: nat) in if b < 128 then [b] else [192 + b div 64, 128 + b mod 64])"

definition utf8_bytes :: "string \<Rightarrow> nat list" where
  "utf8_bytes s = concat (map utf8_char s)"

section \<open>Lemmas: decimal keys\<close>

text \<open>
  \<open>String(i)\<close> is the canonical numeral of \<open>i\<close>, so \<open>v[i]\<close> on an array reads its
  \<open>i\<close>-th element (or \<open>undefined\<close> past the end).
\<close>

lemma digit_chars_is_digit: "d < 10 \<Longrightarrow> is_digit (digit_chars ! d)"
  by (auto simp: digit_chars_def is_digit_def less_Suc_eq numeral_eq_Suc)

lemma digit_chars_val: "d < 10 \<Longrightarrow> of_char (digit_chars ! d) - 48 = (d::nat)"
  by (auto simp: digit_chars_def less_Suc_eq numeral_eq_Suc)

lemma digit_chars_nonzero: "0 < d \<Longrightarrow> d < 10 \<Longrightarrow> digit_chars ! d \<noteq> CHR ''0''"
  by (auto simp: digit_chars_def less_Suc_eq numeral_eq_Suc)

lemma digits_val_append: "digits_val acc (xs @ ys) = digits_val (digits_val acc xs) ys"
  by (induction xs arbitrary: acc) auto

lemma dec_nat_small: "n < 10 \<Longrightarrow> dec_nat n = [digit_chars ! n]"
  by (simp add: dec_nat.simps)

lemma dec_nat_large: "\<not> n < 10 \<Longrightarrow> dec_nat n = dec_nat (n div 10) @ [digit_chars ! (n mod 10)]"
  by (subst dec_nat.simps) simp

lemma dec_nat_digits: "list_all is_digit (dec_nat n)"
proof (induction n rule: dec_nat.induct)
  case (1 n)
  then show ?case
    by (cases "n < 10") (simp_all add: dec_nat_small dec_nat_large digit_chars_is_digit)
qed

lemma dec_nat_ne: "dec_nat n \<noteq> []"
  by (cases "n < 10") (simp_all add: dec_nat_small dec_nat_large)

lemma digits_val_dec_nat: "digits_val 0 (dec_nat n) = n"
proof (induction n rule: dec_nat.induct)
  case (1 n)
  show ?case
  proof (cases "n < 10")
    case True
    then show ?thesis by (simp add: dec_nat_small digit_chars_val)
  next
    case False
    with "1" have "digits_val 0 (dec_nat (n div 10)) = n div 10" by simp
    with False show ?thesis
      by (simp add: dec_nat_large digits_val_append digit_chars_val)
  qed
qed

lemma dec_nat_hd: "0 < n \<Longrightarrow> hd (dec_nat n) \<noteq> CHR ''0''"
proof (induction n rule: dec_nat.induct)
  case (1 n)
  show ?case
  proof (cases "n < 10")
    case True
    with "1.prems" show ?thesis by (simp add: dec_nat_small digit_chars_nonzero)
  next
    case False
    with "1" have "hd (dec_nat (n div 10)) \<noteq> CHR ''0''" by simp
    with False show ?thesis by (simp add: dec_nat_large dec_nat_ne)
  qed
qed

lemma dec_nat_zero: "dec_nat 0 = ''0''"
  by (simp add: dec_nat_small digit_chars_def)

lemma array_index_dec_nat: "array_index (dec_nat n) = Some n"
proof (cases "n = 0")
  case True
  then show ?thesis by (simp add: array_index_def dec_nat_zero is_digit_def)
next
  case False
  then show ?thesis
    by (simp add: array_index_def dec_nat_ne dec_nat_digits dec_nat_hd digits_val_dec_nat)
qed

lemma dec_nat_not_length: "dec_nat n \<noteq> ''length''"
  using dec_nat_digits [of n] by (auto simp: is_digit_def)

lemma js_idx_JArr: "js_idx (JArr vs) i = Inr (if i < length vs then vs ! i else JUndef)"
  by (simp add: js_idx_def dec_nat_not_length array_index_dec_nat)

lemmas js_idx_simps [js_simps] = js_idx_JArr dec_nat_zero

section \<open>Lemmas: percent-encoding\<close>

text \<open>
  Decoding recovers what was encoded, and an encoded segment holds only unreserved
  characters, \<open>%\<close> and hexadecimal digits: in particular no \<open>/\<close>, so a name cannot add
  or remove segments of the upstream path it is placed in.
\<close>

lemma hex_digit_val_hex_chars: "d < 16 \<Longrightarrow> hex_digit_val (hex_chars ! d) = Some d"
  by (auto simp: hex_chars_def hex_digit_val_def less_Suc_eq numeral_eq_Suc)

lemma uri_units_pct_byte:
  assumes "b < 256"
  shows "uri_units (pct_byte b @ rest) = map_option (Cons (Byte b)) (uri_units rest)"
proof -
  have "b div 16 < 16" "b mod 16 < 16" using assms by auto
  then show ?thesis by (simp add: pct_byte_def hex_digit_val_hex_chars)
qed

lemma of_char_lt_256: "(of_char c :: nat) < 256"
  by simp

lemma unreserved_not_pct: "uri_unreserved c \<Longrightarrow> c \<noteq> CHR ''%''"
  by (auto simp: uri_unreserved_def is_alnum_def is_digit_def)

lemma encode_char_units:
  "\<exists>us. (\<forall>rest. uri_units (encode_char c @ rest) = map_option (\<lambda>r. us @ r) (uri_units rest))
        \<and> (\<forall>ys. utf8_units (us @ ys) = map_option (Cons c) (utf8_units ys))"
proof -
  define b where "b = (of_char c :: nat)"
  have b256: "b < 256" by (simp add: b_def of_char_lt_256)
  have cb: "char_of b = c" by (simp add: b_def)
  consider "uri_unreserved c" | "\<not> uri_unreserved c" "b < 128" | "\<not> uri_unreserved c" "\<not> b < 128"
    by blast
  then show ?thesis
  proof cases
    case 1
    then show ?thesis
      by (intro exI [of _ "[Lit c]"]) (simp add: encode_char_def unreserved_not_pct)
  next
    case 2
    with b256 cb show ?thesis
      by (intro exI [of _ "[Byte b]"])
        (simp add: encode_char_def b_def [symmetric] uri_units_pct_byte)
  next
    case 3
    have hi: "192 + b div 64 < 256" "194 \<le> 192 + b div 64" "192 + b div 64 \<le> 195"
      using 3 b256 by auto
    have lo: "128 + b mod 64 < 256" "128 \<le> 128 + b mod 64" "128 + b mod 64 < 192" by auto
    have val: "(192 + b div 64 - 192) * 64 + (128 + b mod 64 - 128) = b" by simp
    from 3 hi lo val cb show ?thesis
      by (intro exI [of _ "[Byte (192 + b div 64), Byte (128 + b mod 64)]"])
        (simp add: encode_char_def b_def [symmetric] uri_units_pct_byte option.map_comp comp_def)
  qed
qed

lemma encode_units:
  "\<exists>us. uri_units (encodeURIComponent s) = Some us
        \<and> (\<forall>ys. utf8_units (us @ ys) = map_option (\<lambda>r. s @ r) (utf8_units ys))"
proof (induction s)
  case Nil
  then show ?case by (simp add: encodeURIComponent_def option.map_ident)
next
  case (Cons c s)
  then obtain us where us: "uri_units (encodeURIComponent s) = Some us"
    and dec: "\<forall>ys. utf8_units (us @ ys) = map_option (\<lambda>r. s @ r) (utf8_units ys)" by blast
  obtain vs where
    vs1: "\<forall>rest. uri_units (encode_char c @ rest) = map_option ((@) vs) (uri_units rest)"
    and vs2: "\<forall>ys. utf8_units (vs @ ys) = map_option (Cons c) (utf8_units ys)"
    using encode_char_units by blast
  have "uri_units (encodeURIComponent (c # s)) = Some (vs @ us)"
    using vs1 us by (simp add: encodeURIComponent_def)
  moreover have "\<forall>ys. utf8_units ((vs @ us) @ ys) = map_option (\<lambda>r. (c # s) @ r) (utf8_units ys)"
    using vs2 dec by (simp add: option.map_comp comp_def)
  ultimately show ?case by blast
qed

lemma decode_encode: "decodeURIComponent (encodeURIComponent s) = Some s"
proof -
  obtain us where us: "uri_units (encodeURIComponent s) = Some us"
    and dec: "\<forall>ys. utf8_units (us @ ys) = map_option (\<lambda>r. s @ r) (utf8_units ys)"
    using encode_units by blast
  from dec have "utf8_units (us @ []) = map_option (\<lambda>r. s @ r) (utf8_units [])" by (rule spec)
  then have "utf8_units us = Some s" by simp
  with us show ?thesis by (simp add: decodeURIComponent_def)
qed

lemma hex_chars_mem: "d < 16 \<Longrightarrow> hex_chars ! d \<in> set hex_chars"
  by (simp add: hex_chars_def del: set_simps)

lemma pct_byte_chars: "b < 256 \<Longrightarrow> set (pct_byte b) \<subseteq> insert (CHR ''%'') (set hex_chars)"
  by (auto simp: pct_byte_def intro: hex_chars_mem)

lemma encode_char_chars:
  "x \<in> set (encode_char c) \<Longrightarrow> uri_unreserved x \<or> x = CHR ''%'' \<or> x \<in> set hex_chars"
proof -
  assume x: "x \<in> set (encode_char c)"
  define b where "b = (of_char c :: nat)"
  have b256: "b < 256" by (simp add: b_def)
  consider "uri_unreserved c" | "\<not> uri_unreserved c" "b < 128" | "\<not> uri_unreserved c" "\<not> b < 128"
    by blast
  then show ?thesis
  proof cases
    case 1
    with x show ?thesis by (simp add: encode_char_def)
  next
    case 2
    with x b256 pct_byte_chars [of b] show ?thesis
      by (auto simp: encode_char_def b_def [symmetric])
  next
    case 3
    have "192 + b div 64 < 256" "128 + b mod 64 < 256" using b256 by auto
    with x 3 pct_byte_chars [of "192 + b div 64"] pct_byte_chars [of "128 + b mod 64"]
    show ?thesis by (auto simp: encode_char_def b_def [symmetric])
  qed
qed

lemma encode_chars:
  "x \<in> set (encodeURIComponent s) \<Longrightarrow> uri_unreserved x \<or> x = CHR ''%'' \<or> x \<in> set hex_chars"
  by (auto simp: encodeURIComponent_def dest: encode_char_chars)

lemma slash_not_encoded: "CHR ''/'' \<notin> set (encodeURIComponent s)"
proof
  assume "CHR ''/'' \<in> set (encodeURIComponent s)"
  then show False
    by (auto dest!: encode_chars simp: uri_unreserved_def is_alnum_def is_digit_def hex_chars_def)
qed

section \<open>Lemmas: parseInt reads back String(i)\<close>

text \<open>
  \<open>parseInt(String(i)) = i\<close> for every integer \<open>i\<close>: the numeral has no leading
  whitespace, no \<open>0x\<close> prefix and only decimal digits.
\<close>

lemma take_digits_all:
  "list_all is_digit cs \<Longrightarrow> take_digits dec_digit_val cs = map (\<lambda>c. of_char c - 48) cs"
  by (induction cs) (auto simp: dec_digit_val_def)

lemma horner_digits_val:
  "foldl (\<lambda>acc d. 10 * acc + d) a (map (\<lambda>c. of_char c - 48) cs) = digits_val a cs"
  by (induction cs arbitrary: a) auto

lemma dec_nat_not_hex: "take 2 (dec_nat n) \<noteq> ''0x'' \<and> take 2 (dec_nat n) \<noteq> ''0X''"
proof -
  have "list_all is_digit (dec_nat n)" by (rule dec_nat_digits)
  then show ?thesis
    by (cases "dec_nat n" rule: list.exhaust; cases "tl (dec_nat n)")
       (auto simp: is_digit_def)
qed

lemma parse_unsigned_dec_nat: "parse_unsigned (dec_nat n) = Some n"
proof -
  have d: "list_all is_digit (dec_nat n)" by (rule dec_nat_digits)
  have "take_digits dec_digit_val (dec_nat n) \<noteq> []"
    using dec_nat_ne [of n] by (simp add: take_digits_all [OF d])
  then show ?thesis
    using dec_nat_not_hex [of n]
    by (simp add: parse_unsigned_def take_digits_all [OF d] horner_def horner_digits_val
                  digits_val_dec_nat)
qed

lemma dec_nat_no_space: "\<not> js_space (hd (dec_nat n))"
proof -
  have "list_all is_digit (dec_nat n)" by (rule dec_nat_digits)
  with dec_nat_ne [of n] show ?thesis
    by (cases "dec_nat n") (auto simp: is_digit_def js_space_def)
qed

lemma dec_nat_hd_sign: "hd (dec_nat n) \<noteq> CHR ''-'' \<and> hd (dec_nat n) \<noteq> CHR ''+''"
proof -
  have "list_all is_digit (dec_nat n)" by (rule dec_nat_digits)
  with dec_nat_ne [of n] show ?thesis
    by (cases "dec_nat n") (auto simp: is_digit_def)
qed

lemma dropWhile_space_dec_nat: "dropWhile js_space (dec_nat n) = dec_nat n"
  using dec_nat_ne [of n] dec_nat_no_space [of n] by (cases "dec_nat n") auto

lemma parseInt_dec_int: "js_parseInt (JStr (dec_int i)) = Some i"
proof (cases "i < 0")
  case True
  have "\<not> js_space (CHR ''-'')" by (simp add: js_space_def)
  with True show ?thesis
    by (simp add: js_parseInt_def dec_int_def parse_unsigned_dec_nat)
next
  case False
  then show ?thesis
    using dec_nat_hd_sign [of "nat i"] dec_nat_ne [of "nat i"]
    by (simp add: js_parseInt_def dec_int_def dropWhile_space_dec_nat parse_unsigned_dec_nat)
qed

lemma dec_int_ne: "dec_int i \<noteq> []"
  by (simp add: dec_int_def dec_nat_ne)

section \<open>Lemmas: string arguments\<close>

lemma js_string_eq_Inr [js_simps]: "js_string v = Inr x \<longleftrightarrow> v = JStr x"
  by (cases v) auto

end
