(* ===== verification/Upstream.thy ===== *)
theory Upstream
  imports JsValue
begin

text \<open>
  The upstream metadata API and the way the handlers call it. Every handler of
  \<open>src/back/apiRequest\<close> issues \<open>https.request\<close> GETs to
  \<open>moviesminidatabase.p.rapidapi.com\<close>, collects the body and hands it to
  \<open>JSON.parse\<close>. What the handler observes of one request is a \<open>reply\<close>: the
  request's \<open>error\<close> event (\<open>Unreachable\<close>), a body \<open>JSON.parse\<close> refuses
  (\<open>Malformed\<close>), or the parsed document. The upstream is a function \<open>api\<close> from the
  request path to its reply: the same path gets the same reply within one handler run.

  A handler is a program in a writer monad: it returns an outcome and the list of
  upstream paths it requested, in the order it awaited them. The outcomes are those of an
  async JavaScript function: a value (\<open>Done\<close>), a thrown exception or rejected promise
  (\<open>Threw\<close>, which a surrounding \<open>try\<close> can catch), or \<open>Crashed\<close>: an exception
  thrown inside an event listener of the response stream (a \<open>JSON.parse\<close> called in the
  \<open>'end'\<close> callback without a \<open>try\<close>), which no \<open>try\<close> of the handler can catch
  and which terminates the Node process; the request is never answered.
\<close>

datatype reply = Unreachable | Malformed | Parsed jsval

type_synonym api = "string \<Rightarrow> reply"

datatype 'a exec = Done 'a | Threw exn | Crashed

type_synonym 'a prog = "api \<Rightarrow> 'a exec \<times> string list"

text \<open>What a handler sends: \<open>res.status(s).json(body)\<close> or \<open>.send(body)\<close>.\<close>

datatype response = Reply nat jsval

definition message :: "string \<Rightarrow> jsval" where
  "message m = JObj [(''message'', JStr m)]"

text \<open>The letters \<open>e\<close> with acute (Latin-1 233) and circumflex (234) accents.\<close>

abbreviation e_acute :: char where
  "e_acute \<equiv> char_of (233 :: nat)"

abbreviation e_circ :: char where
  "e_circ \<equiv> char_of (234 :: nat)"

section \<open>The monad\<close>

definition ret :: "'a \<Rightarrow> 'a prog" where
  "ret x = (\<lambda>api. (Done x, []))"

definition pbind :: "'a prog \<Rightarrow> ('a \<Rightarrow> 'b prog) \<Rightarrow> 'b prog" where
  "pbind m f =
     (\<lambda>api. case m api of
        (Done a, t1) \<Rightarrow> (case f a api of (r, t2) \<Rightarrow> (r, t1 @ t2))
      | (Threw e, t1) \<Rightarrow> (Threw e, t1)
      | (Crashed, t1) \<Rightarrow> (Crashed, t1))"

definition raise :: "exn \<Rightarrow> 'a prog" where
  "raise e = (\<lambda>api. (Threw e, []))"

text \<open>\<open>try { m } catch (err) { h err }\<close>: a crash is not caught.\<close>

definition try_catch :: "'a prog \<Rightarrow> (exn \<Rightarrow> 'a prog) \<Rightarrow> 'a prog" where
  "try_catch m h =
     (\<lambda>api. case m api of
        (Threw e, t1) \<Rightarrow> (case h e api of (r, t2) \<Rightarrow> (r, t1 @ t2))
      | r \<Rightarrow> r)"

text \<open>A synchronous computation that may throw, inside an async handler.\<close>

definition lift_js :: "'a js \<Rightarrow> 'a prog" where
  "lift_js r = (case r of Inl e \<Rightarrow> raise e | Inr a \<Rightarrow> ret a)"

section \<open>The two request wrappers\<close>

text \<open>
  The promise wrapper with the parse inside a \<open>try\<close> that rejects
  (\<open>getActorId\<close>, \<open>getActorDetails\<close> of \<open>getActorInfo.js\<close>; \<open>getActorId\<close>,
  \<open>movieByActorId\<close>, \<open>getMovieById\<close> of \<open>listFilmByActor.js\<close>): a refused body is a
  rejection like a failed connection.
\<close>

definition fetch_json :: "string \<Rightarrow> jsval prog" where
  "fetch_json path =
     (\<lambda>api. (case api path of
                Unreachable \<Rightarrow> Threw NetError
              | Malformed \<Rightarrow> Threw ParseError
              | Parsed v \<Rightarrow> Done v, [path]))"

text \<open>
  The promise wrapper that calls \<open>JSON.parse\<close> in the \<open>'end'\<close> callback with no
  \<open>try\<close> (\<open>movie.js\<close>, \<open>getActorImage.js\<close>, \<open>listSerieByActor.js\<close>): a refused
  body throws out of the event listener and crashes the process. The continuation
  \<open>k\<close> is what the callback computes from the parsed document before it resolves
  (\<open>JSON.parse(...).results\<close> in \<open>fetchActorDetails\<close>), so an exception it throws is a
  crash as well.
\<close>

definition fetch_json_unguarded_with :: "(jsval \<Rightarrow> jsval js) \<Rightarrow> string \<Rightarrow> jsval prog" where
  "fetch_json_unguarded_with k path =
     (\<lambda>api. (case api path of
                Unreachable \<Rightarrow> Threw NetError
              | Malformed \<Rightarrow> Crashed
              | Parsed v \<Rightarrow> (case k v of Inl e \<Rightarrow> Crashed | Inr w \<Rightarrow> Done w), [path]))"

definition fetch_json_unguarded :: "string \<Rightarrow> jsval prog" where
  "fetch_json_unguarded path = fetch_json_unguarded_with Inr path"

section \<open>Loops over awaited requests\<close>

text \<open>
  \<open>for (const x of xs) { out.push(await f(x)) }\<close>: one element at a time, in order; the
  first exception leaves the loop.
\<close>

fun map_prog :: "('a \<Rightarrow> 'b prog) \<Rightarrow> 'a list \<Rightarrow> 'b list prog" where
  "map_prog f [] = ret []"
| "map_prog f (x # xs) = pbind (f x) (\<lambda>y. pbind (map_prog f xs) (\<lambda>ys. ret (y # ys)))"

text \<open>
  \<open>for (...) { try { out.push(await f(x)) } catch (error) { console.error(...) } }\<close>: an
  element whose request rejects is skipped; a crash still ends everything.
\<close>

fun collect_skip :: "('a \<Rightarrow> 'b prog) \<Rightarrow> 'a list \<Rightarrow> 'b list prog" where
  "collect_skip f [] = ret []"
| "collect_skip f (x # xs) =
     pbind (try_catch (pbind (f x) (\<lambda>y. ret [y])) (\<lambda>e. ret []))
       (\<lambda>ys1. pbind (collect_skip f xs) (\<lambda>ys2. ret (ys1 @ ys2)))"

text \<open>
  The abstract contract of the skipping loop: the results of the elements whose request
  succeeded, in input order, and every request issued once, in input order.
\<close>

definition skip_spec :: "('a \<Rightarrow> 'b prog) \<Rightarrow> 'a list \<Rightarrow> api \<Rightarrow> 'b list" where
  "skip_spec f xs api = concat (map (\<lambda>x. case fst (f x api) of Done y \<Rightarrow> [y] | _ \<Rightarrow> []) xs)"

definition no_crash :: "'a prog \<Rightarrow> api \<Rightarrow> bool" where
  "no_crash m api \<longleftrightarrow> fst (m api) \<noteq> Crashed"

section \<open>Lemmas: evaluation rules\<close>

text \<open>
  How each combinator acts on a given upstream, collected in \<open>prog_simps\<close>; then the
  monad laws, and the two loops: the aborting loop returns one result per element and
  issues the elements' requests in order; the skipping loop implements \<open>skip_spec\<close>
  as long as no element crashes, and crashes as soon as one does.
\<close>

lemma ret_apply [prog_simps]: "ret x api = (Done x, [])"
  by (simp add: ret_def)

lemma raise_apply [prog_simps]: "raise e api = (Threw e, [])"
  by (simp add: raise_def)

lemma pbind_apply [prog_simps]:
  "pbind m f api =
     (case m api of
        (Done a, t1) \<Rightarrow> (fst (f a api), t1 @ snd (f a api))
      | (Threw e, t1) \<Rightarrow> (Threw e, t1)
      | (Crashed, t1) \<Rightarrow> (Crashed, t1))"
  by (simp add: pbind_def split: prod.splits exec.splits)

lemma try_catch_apply [prog_simps]:
  "try_catch m h api =
     (case m api of
        (Threw e, t1) \<Rightarrow> (fst (h e api), t1 @ snd (h e api))
      | r \<Rightarrow> r)"
  by (simp add: try_catch_def split: prod.splits exec.splits)

lemma pbind_Done:
  "m api = (Done a, t1) \<Longrightarrow> pbind m f api = (fst (f a api), t1 @ snd (f a api))"
  by (simp add: pbind_def split: prod.splits)

lemma pbind_Threw: "m api = (Threw e, t1) \<Longrightarrow> pbind m f api = (Threw e, t1)"
  by (simp add: pbind_def)

lemma pbind_Crashed: "m api = (Crashed, t1) \<Longrightarrow> pbind m f api = (Crashed, t1)"
  by (simp add: pbind_def)

lemma try_catch_Threw:
  "m api = (Threw e, t1) \<Longrightarrow> try_catch m h api = (fst (h e api), t1 @ snd (h e api))"
  by (simp add: try_catch_def split: prod.splits)

lemma try_catch_Done: "m api = (Done a, t1) \<Longrightarrow> try_catch m h api = (Done a, t1)"
  by (simp add: try_catch_def)

lemma try_catch_Crashed: "m api = (Crashed, t1) \<Longrightarrow> try_catch m h api = (Crashed, t1)"
  by (simp add: try_catch_def)

lemma lift_js_Inl [prog_simps]: "lift_js (Inl e) = raise e"
  by (simp add: lift_js_def)

lemma lift_js_Inr [prog_simps]: "lift_js (Inr a) = ret a"
  by (simp add: lift_js_def)

lemma fetch_json_apply [prog_simps]:
  "fetch_json p api =
     (case api p of Unreachable \<Rightarrow> Threw NetError | Malformed \<Rightarrow> Threw ParseError
      | Parsed v \<Rightarrow> Done v, [p])"
  by (simp add: fetch_json_def)

lemma fetch_json_unguarded_apply [prog_simps]:
  "fetch_json_unguarded p api =
     (case api p of Unreachable \<Rightarrow> Threw NetError | Malformed \<Rightarrow> Crashed
      | Parsed v \<Rightarrow> Done v, [p])"
  by (simp add: fetch_json_unguarded_def fetch_json_unguarded_with_def split: reply.split)

subsection \<open>Monad laws\<close>

lemma ret_pbind: "pbind (ret x) f = f x"
  by (simp add: pbind_def ret_def fun_eq_iff split: prod.splits)

lemma pbind_ret: "pbind m ret = m"
  by (auto simp: pbind_def ret_def fun_eq_iff split: prod.splits exec.splits)

lemma pbind_assoc: "pbind (pbind m f) g = pbind m (\<lambda>x. pbind (f x) g)"
  by (auto simp: pbind_def fun_eq_iff split: prod.splits exec.splits)

subsection \<open>Loops\<close>

lemma map_prog_Done:
  assumes "\<And>x. x \<in> set xs \<Longrightarrow> fst (f x api) = Done (g x)"
  shows "map_prog f xs api = (Done (map g xs), concat (map (\<lambda>x. snd (f x api)) xs))"
  using assms
proof (induction xs)
  case Nil
  then show ?case by (simp add: ret_apply)
next
  case (Cons x xs)
  then have hx: "f x api = (Done (g x), snd (f x api))" by (metis prod.collapse list.set_intros(1))
  from Cons have "map_prog f xs api = (Done (map g xs), concat (map (\<lambda>x. snd (f x api)) xs))"
    by simp
  with hx show ?case by (simp add: pbind_Done ret_apply)
qed

lemma map_prog_length:
  "fst (map_prog f xs api) = Done ys \<Longrightarrow> length ys = length xs"
proof (induction xs arbitrary: ys)
  case Nil
  then show ?case by (simp add: ret_apply)
next
  case (Cons x xs)
  then show ?case
    by (auto simp: pbind_def ret_apply split: prod.splits exec.splits)
qed

lemma collect_skip_refines:
  assumes "\<And>x. x \<in> set xs \<Longrightarrow> no_crash (f x) api"
  shows "collect_skip f xs api = (Done (skip_spec f xs api), concat (map (\<lambda>x. snd (f x api)) xs))"
  using assms
proof (induction xs)
  case Nil
  then show ?case by (simp add: ret_apply skip_spec_def)
next
  case (Cons x xs)
  have IH: "collect_skip f xs api = (Done (skip_spec f xs api), concat (map (\<lambda>x. snd (f x api)) xs))"
    using Cons by simp
  have nc: "fst (f x api) \<noteq> Crashed" using Cons.prems by (simp add: no_crash_def)
  have head: "try_catch (pbind (f x) (\<lambda>y. ret [y])) (\<lambda>e. ret []) api =
      (Done (case fst (f x api) of Done y \<Rightarrow> [y] | _ \<Rightarrow> []), snd (f x api))"
    using nc
    by (cases "f x api" rule: prod.exhaust, rename_tac r t, case_tac r)
       (simp_all add: pbind_Done pbind_Threw try_catch_Done try_catch_Threw ret_apply)
  show ?case
    by (simp add: head IH pbind_Done ret_apply skip_spec_def)
qed

lemma collect_skip_crash:
  assumes "x \<in> set xs" and "\<not> no_crash (f x) api"
  shows "fst (collect_skip f xs api) = Crashed"
  using assms
proof (induction xs)
  case Nil
  then show ?case by simp
next
  case (Cons y xs)
  show ?case
  proof (cases "fst (f y api) = Crashed")
    case True
    then have "f y api = (Crashed, snd (f y api))" by (metis prod.collapse)
    then show ?thesis by (simp add: pbind_Crashed try_catch_Crashed)
  next
    case False
    with Cons.prems have "x \<in> set xs" by (auto simp: no_crash_def)
    with Cons have IH: "fst (collect_skip f xs api) = Crashed" by simp
    then show ?thesis
      by (auto simp: pbind_def try_catch_def ret_apply split: prod.splits exec.splits)
  qed
qed

subsection \<open>Results and traces separately\<close>

lemma pbind_fst:
  "fst (pbind m f api) =
     (case fst (m api) of Done a \<Rightarrow> fst (f a api) | Threw e \<Rightarrow> Threw e | Crashed \<Rightarrow> Crashed)"
  by (simp add: pbind_def split: prod.split exec.split)

lemma pbind_snd:
  "snd (pbind m f api) = snd (m api) @ (case fst (m api) of Done a \<Rightarrow> snd (f a api) | _ \<Rightarrow> [])"
  by (simp add: pbind_def split: prod.split exec.split)

lemma try_catch_fst:
  "fst (try_catch m h api) = (case fst (m api) of Threw e \<Rightarrow> fst (h e api) | r \<Rightarrow> r)"
  by (simp add: try_catch_def split: prod.split exec.split)

lemma try_catch_snd:
  "snd (try_catch m h api) = snd (m api) @ (case fst (m api) of Threw e \<Rightarrow> snd (h e api) | _ \<Rightarrow> [])"
  by (simp add: try_catch_def split: prod.split exec.split)

lemma lift_js_apply:
  "lift_js r api = (case r of Inl e \<Rightarrow> (Threw e, []) | Inr a \<Rightarrow> (Done a, []))"
  by (simp add: lift_js_def raise_def ret_def split: sum.split)

lemma lift_js_snd [simp]: "snd (lift_js r api) = []"
  by (simp add: lift_js_apply split: sum.split)

lemma lift_js_fst: "fst (lift_js r api) = (case r of Inl e \<Rightarrow> Threw e | Inr a \<Rightarrow> Done a)"
  by (simp add: lift_js_apply split: sum.split)

lemma map_prog_trace_bound:
  assumes "\<And>x. x \<in> set xs \<Longrightarrow> length (snd (f x api)) \<le> 1"
  shows "length (snd (map_prog f xs api)) \<le> length xs"
  using assms
proof (induction xs)
  case Nil
  then show ?case by (simp add: prog_simps)
next
  case (Cons x xs)
  have hx: "length (snd (f x api)) \<le> 1" using Cons.prems by simp
  have IH: "length (snd (map_prog f xs api)) \<le> length xs" using Cons by simp
  show ?case
    using hx IH by (auto simp: pbind_snd ret_apply split: exec.split)
qed

subsection \<open>Aborting, skipping and crashing loops\<close>

lemma map_prog_abort:
  assumes "\<And>y. y \<in> set pre \<Longrightarrow> fst (f y api) = Done (g y)" and "fst (f x api) = Threw e"
  shows "map_prog f (pre @ x # post) api =
           (Threw e, concat (map (\<lambda>y. snd (f y api)) pre) @ snd (f x api))"
  using assms
proof (induction pre)
  case Nil
  then have "f x api = (Threw e, snd (f x api))" by (metis prod.collapse)
  from pbind_Threw [where m = "f x" and api = api, OF this] show ?case by simp
next
  case (Cons y pre)
  then have hy: "f y api = (Done (g y), snd (f y api))" by (metis list.set_intros(1) prod.collapse)
  from Cons have IH: "map_prog f (pre @ x # post) api =
      (Threw e, concat (map (\<lambda>y. snd (f y api)) pre) @ snd (f x api))" by simp
  have "pbind (map_prog f (pre @ x # post)) (\<lambda>ys. ret (g y # ys)) api =
      (Threw e, concat (map (\<lambda>y. snd (f y api)) pre) @ snd (f x api))"
    by (rule pbind_Threw [where m = "map_prog f (pre @ x # post)" and api = api, OF IH])
  then show ?case
    using pbind_Done [where m = "f y" and api = api
        and f = "\<lambda>z. pbind (map_prog f (pre @ x # post)) (\<lambda>ys. ret (z # ys))", OF hy]
    by simp
qed

lemma fetch_json_no_crash: "no_crash (fetch_json p) api"
  by (simp add: no_crash_def fetch_json_apply split: reply.split)

lemma skip_spec_fetch_json:
  "skip_spec (\<lambda>x. fetch_json (g x)) xs api = [d. Parsed d \<leftarrow> map (\<lambda>x. api (g x)) xs]"
  by (induction xs) (simp_all add: skip_spec_def fetch_json_apply split: reply.split)

lemma fetch_json_unguarded_crash:
  "api p = Malformed \<Longrightarrow> fetch_json_unguarded p api = (Crashed, [p])"
  by (simp add: fetch_json_unguarded_apply)

end
