(* ===== verification/Accounts.thy ===== *)
theory Accounts
  imports Upstream
begin

text \<open>
  The account routes of \<open>src/back/routes/users.js\<close>. The process-wide state is the
  \<open>users\<close> table of the database and the in-memory object \<open>twoFA\<close> (line 12),
  whose properties map a user name to the pending two-factor code and its expiry time;
  the table, the own properties of \<open>twoFA\<close> and its prototype are fields of the record
  \<open>accounts\<close>, and \<open>twoFA_get\<close>, \<open>twoFA_assign\<close>, \<open>twoFA_delete\<close> read and
  write a property with JavaScript's semantics. Each route is one function from the request, the environment of
  the call (\<open>env\<close>: whether \<open>connectToDb()\<close> gave a connection, \<open>Date.now()\<close>, the
  value \<open>crypto.randomInt\<close> drew, whether \<open>sendMail\<close> succeeded) and the state to the
  response and the new state. \<open>validator.isEmail\<close> is a parameter \<open>is_email\<close>: the
  properties hold for every e-mail predicate.

  A \<open>SELECT ... WHERE col = ?\<close> is the list of rows whose column equals the bound value,
  in table order (\<open>results[0]\<close> is its head); the comparison is the equality of the
  stored and the bound values, which is MySQL's under a binary collation.
  \<open>bcrypt.hash\<close> is modelled by what \<open>bcrypt.compare\<close> can observe of it, the first
  72 UTF-8 bytes of the password (bcrypt ignores the rest); the salt is not modelled.
  A signed JWT is represented by its payload. The \<open>error\<close> field of a 500 body is not
  modelled.
\<close>

section \<open>Messages\<close>

text \<open>The letters \<open>a\<close> and \<open>e\<close> with grave accents (Latin-1 224 and 232).\<close>

abbreviation a_grave :: char where
  "a_grave \<equiv> char_of (224 :: nat)"

abbreviation e_grave :: char where
  "e_grave \<equiv> char_of (232 :: nat)"

definition msg_db_connection :: string where
  "msg_db_connection = ''Erreur de connexion '' @ [a_grave] @ '' la base de donn'' @ [e_acute] @ ''es''"

definition msg_db_error :: string where
  "msg_db_error = ''Erreur '' @ [a_grave] @ '' la base de donn'' @ [e_acute] @ ''es''"

definition msg_missing_field :: "string \<Rightarrow> string" where
  "msg_missing_field champ = ''Le champ '' @ champ @ '' est manquant''"

definition msg_username_length :: string where
  "msg_username_length =
     ''La longueur du username doit '' @ [e_circ] @ ''tre '' @ [e_acute] @ ''gale ou sup''
     @ [e_acute] @ ''rieure '' @ [a_grave] @ '' 3''"

definition msg_email_format :: string where
  "msg_email_format = ''Le format de l'email est invalide''"

definition msg_email_used :: string where
  "msg_email_used = ''Cet email est d'' @ [e_acute] @ ''j'' @ [a_grave] @ '' utilis'' @ [e_acute] @ ''.''"

definition msg_username_used :: string where
  "msg_username_used = ''Ce username est d'' @ [e_acute] @ ''j'' @ [a_grave] @ '' utilis'' @ [e_acute] @ ''.''"

definition msg_password_length :: string where
  "msg_password_length = ''Le mot de passe doit contenir au moins 12 caract'' @ [e_grave] @ ''res.''"

definition msg_password_classes :: string where
  "msg_password_classes =
     ''Le mot de passe doit contenir au moins une majuscule, une minuscule, un chiffre et un caract''
     @ [e_grave] @ ''re sp'' @ [e_acute] @ ''cial.''"

definition msg_user_created :: string where
  "msg_user_created = ''Utilisateur cr'' @ [e_acute, e_acute]"

definition msg_login_required :: string where
  "msg_login_required = ''Nom d'utilisateur et mot de passe sont requis.''"

definition msg_bad_credentials :: string where
  "msg_bad_credentials = ''Nom d'utilisateur ou mot de passe incorrect''"

definition msg_code_sent :: string where
  "msg_code_sent =
     ''Code de v'' @ [e_acute] @ ''rification envoy'' @ [e_acute] @ ''. Veuillez v'' @ [e_acute]
     @ ''rifier votre email.''"

definition msg_mail_error :: string where
  "msg_mail_error = ''Erreur lors de l'envoi de l'email.''"

definition msg_code_expired :: string where
  "msg_code_expired = ''Le code 2FA a expir'' @ [e_acute] @ '' ou est invalide''"

definition msg_code_wrong :: string where
  "msg_code_wrong = ''Code 2FA incorrect''"

definition msg_user_unknown :: string where
  "msg_user_unknown = ''Utilisateur introuvable''"

definition msg_auth_ok :: string where
  "msg_auth_ok = ''Authentification r'' @ [e_acute] @ ''ussie''"

definition msg_invalid_id :: string where
  "msg_invalid_id = ''L'ID utilisateur fourni est invalide.''"

definition msg_user_not_found :: string where
  "msg_user_not_found = ''Utilisateur non trouv'' @ [e_acute] @ '' !''"

definition msg_profile_missing :: string where
  "msg_profile_missing = ''Le nom d'utilisateur ou l'email est manquant.''"

definition msg_username_used_profile :: string where
  "msg_username_used_profile =
     ''Ce nom d'utilisateur est d'' @ [e_acute] @ ''j'' @ [a_grave] @ '' utilis'' @ [e_acute] @ ''.''"

definition msg_profile_updated :: string where
  "msg_profile_updated = ''Profil mis '' @ [a_grave] @ '' jour avec succ'' @ [e_grave] @ ''s !''"

definition msg_profile_error :: string where
  "msg_profile_error = ''Erreur lors de la mise '' @ [a_grave] @ '' jour du profil.''"

definition msg_password_missing :: string where
  "msg_password_missing = ''L'ancien ou le nouveau mot de passe est manquant.''"

definition msg_old_password :: string where
  "msg_old_password = ''Ancien mot de passe incorrect !''"

definition msg_password_updated :: string where
  "msg_password_updated = ''Mot de passe mis '' @ [a_grave] @ '' jour avec succ'' @ [e_grave] @ ''s''"

definition msg_server_error :: string where
  "msg_server_error = ''Erreur serveur''"

definition msg_account_deleted :: string where
  "msg_account_deleted = ''Compte supprim'' @ [e_acute] @ '' avec succ'' @ [e_grave] @ ''s''"

section \<open>Libraries: bcrypt and the password policy\<close>

text \<open>What a bcrypt hash determines of the password: its first 72 UTF-8 bytes.\<close>

datatype secret = Bcrypt "nat list"

definition bcrypt_hash :: "string \<Rightarrow> secret" where
  "bcrypt_hash pw = Bcrypt (take 72 (utf8_bytes pw))"

text \<open>\<open>bcrypt.hash(v, 10)\<close> and \<open>bcrypt.compare(v, h)\<close> reject a \<open>v\<close> that is not a string.\<close>

definition bcrypt_hash_js :: "jsval \<Rightarrow> secret js" where
  "bcrypt_hash_js v = sbind (js_string v) (\<lambda>pw. Inr (bcrypt_hash pw))"

definition bcrypt_compare :: "jsval \<Rightarrow> secret \<Rightarrow> bool js" where
  "bcrypt_compare v h = sbind (js_string v) (\<lambda>pw. Inr (bcrypt_hash pw = h))"

text \<open>The character classes of \<open>/[A-Z]/\<close>, \<open>/[a-z]/\<close>, \<open>/\d/\<close> and \<open>\w\<close>.\<close>

definition is_upper :: "char \<Rightarrow> bool" where
  "is_upper c \<longleftrightarrow> 65 \<le> (of_char c :: nat) \<and> (of_char c :: nat) \<le> 90"

definition is_lower :: "char \<Rightarrow> bool" where
  "is_lower c \<longleftrightarrow> 97 \<le> (of_char c :: nat) \<and> (of_char c :: nat) \<le> 122"

definition is_word_char :: "char \<Rightarrow> bool" where
  "is_word_char c \<longleftrightarrow> is_alnum c \<or> c = CHR ''_''"

text \<open>\<open>hasUpperCase && hasLowerCase && hasNumber && hasSpecialChar\<close>; \<open>/[^\w\s]/\<close>.\<close>

definition password_classes :: "string \<Rightarrow> bool" where
  "password_classes pw \<longleftrightarrow>
     list_ex is_upper pw \<and> list_ex is_lower pw \<and> list_ex is_digit pw
     \<and> list_ex (\<lambda>c. \<not> is_word_char c \<and> \<not> js_space c) pw"

text \<open>
  \<open>validator.isLength(v, {min: 12})\<close> (a \<open>TypeError\<close> on a non-string; on Latin-1
  strings the length it counts is the string's), then the four classes: the message of
  the first rule that fails, or \<open>None\<close>.
\<close>

definition password_policy :: "jsval \<Rightarrow> string option js" where
  "password_policy v =
     sbind (js_string v) (\<lambda>pw.
       Inr (if length pw < 12 then Some msg_password_length
            else if \<not> password_classes pw then Some msg_password_classes
            else None))"

section \<open>State\<close>

text \<open>A row of \<open>users\<close>: the columns the statements of \<open>users.js\<close> name.\<close>

record user_row =
  u_id :: int
  u_username :: jsval
  u_prenom :: jsval
  u_nom :: jsval
  u_age :: jsval
  u_email :: jsval
  u_mdp :: secret
  u_edited_at :: "int option"

text \<open>A pending two-factor code: \<open>{ code, expiresIn }\<close>.\<close>

record auth_info =
  ai_code :: int
  ai_expires :: int

text \<open>
  The state: the users table with its \<open>AUTO_INCREMENT\<close> counter, and the object
  \<open>const twoFA = {}\<close> of line 12, a plain JavaScript object: \<open>twoFA\<close> holds its own
  properties and \<open>twoFA_proto\<close> its prototype (\<open>None\<close>: \<open>Object.prototype\<close>;
  \<open>Some ai\<close>: an authInfo object installed by an assignment to the key \<open>__proto__\<close>).
\<close>

record accounts =
  users :: "user_row list"
  next_id :: int
  twoFA :: "string \<Rightarrow> auth_info option"
  twoFA_proto :: "auth_info option"

record env =
  db_up :: bool
  now :: int
  rand_code :: int
  mail_ok :: bool

section \<open>Statements on the users table\<close>

text \<open>\<open>SELECT * FROM users WHERE col = ?\<close> and \<open>... WHERE id = ?\<close>.\<close>

definition users_where :: "(user_row \<Rightarrow> jsval) \<Rightarrow> jsval \<Rightarrow> accounts \<Rightarrow> user_row list" where
  "users_where col v s = filter (\<lambda>u. col u = v) (users s)"

definition users_with_id :: "int \<Rightarrow> accounts \<Rightarrow> user_row list" where
  "users_with_id i s = filter (\<lambda>u. u_id u = i) (users s)"

text \<open>\<open>SELECT * FROM users WHERE col = ? AND id != ?\<close> is non-empty.\<close>

definition used_by_other :: "(user_row \<Rightarrow> jsval) \<Rightarrow> jsval \<Rightarrow> int \<Rightarrow> accounts \<Rightarrow> bool" where
  "used_by_other col v i s = list_ex (\<lambda>u. col u = v \<and> u_id u \<noteq> i) (users s)"

text \<open>\<open>INSERT INTO users (username, prenom, nom, age, email, mdp) VALUES (...)\<close>.\<close>

definition insert_user ::
  "jsval \<Rightarrow> jsval \<Rightarrow> jsval \<Rightarrow> jsval \<Rightarrow> jsval \<Rightarrow> secret \<Rightarrow> accounts \<Rightarrow> accounts" where
  "insert_user un pr nm ag em h s =
     s\<lparr>users := users s @ [\<lparr>u_id = next_id s, u_username = un, u_prenom = pr, u_nom = nm,
                              u_age = ag, u_email = em, u_mdp = h, u_edited_at = None\<rparr>],
       next_id := next_id s + 1\<rparr>"

text \<open>\<open>UPDATE users SET ... WHERE id = ?\<close>.\<close>

definition update_row :: "int \<Rightarrow> (user_row \<Rightarrow> user_row) \<Rightarrow> accounts \<Rightarrow> accounts" where
  "update_row i f s = s\<lparr>users := map (\<lambda>u. if u_id u = i then f u else u) (users s)\<rparr>"

text \<open>
  The columns a \<open>WHERE\<close> of \<open>users.js\<close> may test against an identifier, by name:
  \<open>id\<close> and the columns of the \<open>INSERT\<close>. A statement naming any other column is
  refused by the database (\<open>ER_BAD_FIELD_ERROR\<close>). The schema is not in the repository: this list is
  an assumption, written from the columns the statements of \<open>users.js\<close> name (the
  \<open>INSERT\<close> of line 128, the \<open>SELECT\<close>s and \<open>UPDATE\<close>s on \<open>id\<close>).
\<close>

definition users_columns :: "(string \<times> (user_row \<Rightarrow> jsval)) list" where
  "users_columns =
     [(''id'', \<lambda>u. JNum (u_id u)), (''username'', u_username), (''prenom'', u_prenom),
      (''nom'', u_nom), (''age'', u_age), (''email'', u_email)]"

text \<open>\<open>DELETE FROM users WHERE col = ?\<close>.\<close>

definition sql_delete_users :: "string \<Rightarrow> int \<Rightarrow> accounts \<Rightarrow> accounts js" where
  "sql_delete_users col i s =
     (case map_of users_columns col of
        None \<Rightarrow> Inl DbError
      | Some get \<Rightarrow> Inr (s\<lparr>users := filter (\<lambda>u. get u \<noteq> JNum i) (users s)\<rparr>))"

section \<open>Request helpers\<close>

text \<open>A \<open>try\<close> whose \<open>catch\<close> sends a 500 built from the error.\<close>

definition catch_with ::
  "(exn \<Rightarrow> response) \<Rightarrow> accounts \<Rightarrow> (response \<times> accounts) js \<Rightarrow> response \<times> accounts" where
  "catch_with h s r = (case r of Inl err \<Rightarrow> (h err, s) | Inr x \<Rightarrow> x)"

text \<open>
  A handler whose only write to the database is its last statement decides, from the
  state its queries read, either an answer with no write or an answer together with the
  write it performs when it resumes. Between the two, its awaits (\<open>bcrypt.hash\<close>, the
  query itself) let other requests run; run without interruption, the handler is
  \<open>atomically\<close> of its decision.
\<close>

datatype 's handled = Answer response | Commit response "'s \<Rightarrow> 's"

definition atomically :: "'s handled \<Rightarrow> 's \<Rightarrow> response \<times> 's" where
  "atomically h s = (case h of Answer r \<Rightarrow> (r, s) | Commit r w \<Rightarrow> (r, w s))"

text \<open>A \<open>try\<close> whose \<open>catch\<close> answers 500 before the write.\<close>

definition catch_answer :: "(exn \<Rightarrow> response) \<Rightarrow> 's handled js \<Rightarrow> 's handled" where
  "catch_answer h m = (case m of Inl err \<Rightarrow> Answer (h err) | Inr x \<Rightarrow> x)"

text \<open>\<open>res.status(500).send(err)\<close>: the serialised error object (its fields not modelled).\<close>

definition error_body :: "exn \<Rightarrow> jsval" where
  "error_body err = JObj []"

text \<open>The first of the required fields whose value is falsy.\<close>

definition first_missing :: "(string \<times> jsval) list \<Rightarrow> string option" where
  "first_missing fs = map_option fst (find (\<lambda>(k, v). \<not> js_truthy v) fs)"

text \<open>\<open>userId = parseInt(req.params.id)\<close>, rejected when \<open>isNaN(userId) || userId <= 0\<close>.\<close>

definition parse_user_id :: "string \<Rightarrow> int option" where
  "parse_user_id p =
     (case js_parseInt (JStr p) of Some n \<Rightarrow> if n \<le> 0 then None else Some n | None \<Rightarrow> None)"

definition jwt_token :: "user_row \<Rightarrow> jsval" where
  "jwt_token u = JObj [(''id'', JNum (u_id u)), (''username'', u_username u)]"

definition profile_json :: "user_row \<Rightarrow> jsval" where
  "profile_json u =
     JObj [(''username'', u_username u), (''prenom'', u_prenom u), (''nom'', u_nom u),
           (''age'', u_age u), (''email'', u_email u)]"

definition two_fa_ttl :: int where
  "two_fa_ttl = 10 * 60 * 1000"

section \<open>The object \<open>twoFA\<close>\<close>

text \<open>The properties every object inherits from \<open>Object.prototype\<close> (Node.js).\<close>

definition object_proto_keys :: "string list" where
  "object_proto_keys =
     [''constructor'', ''__defineGetter__'', ''__defineSetter__'', ''hasOwnProperty'',
      ''__lookupGetter__'', ''__lookupSetter__'', ''isPrototypeOf'', ''propertyIsEnumerable'',
      ''toString'', ''valueOf'', ''__proto__'', ''toLocaleString'']"

text \<open>
  What \<open>twoFA[k]\<close> yields: \<open>undefined\<close>, an authInfo object, a number (the
  \<open>code\<close> or \<open>expiresIn\<close> of an authInfo object installed as prototype), or another
  object (a method of \<open>Object.prototype\<close>, or the prototype itself), which is truthy and
  has neither \<open>code\<close> nor \<open>expiresIn\<close>.
\<close>

datatype prop_val = PUndef | PAuth auth_info | PNum int | PObj

text \<open>
  \<open>twoFA[k]\<close> (line 337): an own property, else the prototype chain. \<open>__proto__\<close> is
  the accessor of \<open>Object.prototype\<close>, which returns the prototype (the code never
  creates an own property of that name).
\<close>

definition twoFA_get :: "accounts \<Rightarrow> string \<Rightarrow> prop_val" where
  "twoFA_get s k =
     (if k = ''__proto__'' then (case twoFA_proto s of Some ai \<Rightarrow> PAuth ai | None \<Rightarrow> PObj)
      else case twoFA s k of
        Some ai \<Rightarrow> PAuth ai
      | None \<Rightarrow>
          (case twoFA_proto s of
             Some ai \<Rightarrow> if k = ''code'' then PNum (ai_code ai)
                        else if k = ''expiresIn'' then PNum (ai_expires ai)
                        else if k \<in> set object_proto_keys then PObj else PUndef
           | None \<Rightarrow> if k \<in> set object_proto_keys then PObj else PUndef))"

text \<open>
  \<open>twoFA[k] = ai\<close> (line 250): for the key \<open>__proto__\<close> the setter of
  \<open>Object.prototype\<close> makes \<open>ai\<close> the object's prototype; any other key becomes an own
  property.
\<close>

definition twoFA_assign :: "string \<Rightarrow> auth_info \<Rightarrow> accounts \<Rightarrow> accounts" where
  "twoFA_assign k ai s =
     (if k = ''__proto__'' then s\<lparr>twoFA_proto := Some ai\<rparr> else s\<lparr>twoFA := (twoFA s)(k \<mapsto> ai)\<rparr>)"

text \<open>\<open>delete twoFA[k]\<close> (line 368) removes an own property only.\<close>

definition twoFA_delete :: "string \<Rightarrow> accounts \<Rightarrow> accounts" where
  "twoFA_delete k s = s\<lparr>twoFA := (twoFA s)(k := None)\<rparr>"

section \<open>Routes\<close>

text \<open>\<open>POST /register\<close> (lines 68-136).\<close>

definition register_decide :: "(string \<Rightarrow> bool) \<Rightarrow> env \<Rightarrow> jsval \<Rightarrow> accounts \<Rightarrow> accounts handled" where
  "register_decide is_email e body s =
     (if \<not> db_up e then Answer (Reply 500 (message msg_db_connection))
      else catch_answer (\<lambda>err. Reply 500 (error_body err)) (
        sbind (js_get body ''username'') (\<lambda>username.
        sbind (js_get body ''nom'') (\<lambda>nom.
        sbind (js_get body ''prenom'') (\<lambda>prenom.
        sbind (js_get body ''age'') (\<lambda>age.
        sbind (js_get body ''email'') (\<lambda>email.
        sbind (js_get body ''mdp'') (\<lambda>mdp.
        case first_missing [(''username'', username), (''nom'', nom), (''prenom'', prenom),
                            (''age'', age), (''email'', email), (''mdp'', mdp)] of
          Some champ \<Rightarrow> Inr (Answer (Reply 400 (message (msg_missing_field champ))))
        | None \<Rightarrow>
          sbind (js_get username ''length'') (\<lambda>len.
          if js_lt_int len 3 then Inr (Answer (Reply 400 (message msg_username_length))) else
          sbind (js_string email) (\<lambda>em.
          if \<not> is_email em then Inr (Answer (Reply 400 (message msg_email_format)))
          else if users_where u_email email s \<noteq> [] then Inr (Answer (Reply 400 (message msg_email_used)))
          else if users_where u_username username s \<noteq> []
            then Inr (Answer (Reply 400 (message msg_username_used)))
          else sbind (password_policy mdp) (\<lambda>rejected.
            case rejected of
              Some m \<Rightarrow> Inr (Answer (Reply 400 (message m)))
            | None \<Rightarrow> sbind (bcrypt_hash_js mdp) (\<lambda>h.
                Inr (Commit (Reply 201 (message msg_user_created))
                            (insert_user username prenom nom age email h))))))))))))))"

definition register :: "(string \<Rightarrow> bool) \<Rightarrow> env \<Rightarrow> jsval \<Rightarrow> accounts \<Rightarrow> response \<times> accounts" where
  "register is_email e body s = atomically (register_decide is_email e body s) s"

text \<open>
  \<open>POST /login\<close> (lines 196-282). The code is stored before the mail is sent: when
  \<open>sendMail\<close> rejects, the \<open>catch\<close> answers 500 and the code stays.
\<close>

definition login :: "env \<Rightarrow> jsval \<Rightarrow> accounts \<Rightarrow> response \<times> accounts" where
  "login e body s =
     (if \<not> db_up e then (Reply 500 (message msg_db_connection), s)
      else catch_with (\<lambda>err. Reply 500 (message msg_mail_error)) s (
        sbind (js_get body ''username'') (\<lambda>username.
        sbind (js_get body ''mdp'') (\<lambda>mdp.
        if \<not> js_truthy username \<or> \<not> js_truthy mdp
          then Inr (Reply 400 (message msg_login_required), s) else
        sbind (js_get username ''length'') (\<lambda>len.
        if js_lt_int len 3 then Inr (Reply 400 (message msg_username_length), s) else
        sbind (password_policy mdp) (\<lambda>rejected.
        case rejected of
          Some m \<Rightarrow> Inr (Reply 400 (message m), s)
        | None \<Rightarrow>
          (case users_where u_username username s of
             [] \<Rightarrow> Inr (Reply 401 (message msg_bad_credentials), s)
           | user # _ \<Rightarrow>
               sbind (bcrypt_compare mdp (u_mdp user)) (\<lambda>ok.
               if \<not> ok then Inr (Reply 401 (message msg_bad_credentials), s) else
               (let s' = twoFA_assign (js_to_string (u_username user))
                             \<lparr>ai_code = rand_code e, ai_expires = now e + two_fa_ttl\<rparr> s
                in Inr (if mail_ok e then Reply 200 (message msg_code_sent)
                        else Reply 500 (message msg_mail_error), s'))))))))))"

text \<open>
  \<open>POST /verify-2fa\<close> (lines 333-369), which has no \<open>try\<close>: an exception rejects the
  handler's promise and no response is sent (\<open>None\<close>). A value of \<open>twoFA[username]\<close>
  that is not an authInfo object is either falsy (\<open>undefined\<close>, the number 0: "expired")
  or has no \<open>code\<close> (\<open>undefined !== parseInt(code)\<close>: "incorrect"). The own
  property is deleted only after a successful verification.
\<close>

definition verify_2fa :: "env \<Rightarrow> jsval \<Rightarrow> accounts \<Rightarrow> response option \<times> accounts" where
  "verify_2fa e body s =
     (case sbind (js_get body ''username'') (\<lambda>username.
             sbind (js_get body ''code'') (\<lambda>code. Inr (username, code))) of
        Inl err \<Rightarrow> (None, s)
      | Inr (username, code) \<Rightarrow>
          (case twoFA_get s (js_to_string username) of
             PUndef \<Rightarrow> (Some (Reply 401 (message msg_code_expired)), s)
           | PNum n \<Rightarrow>
               if n = 0 then (Some (Reply 401 (message msg_code_expired)), s)
               else (Some (Reply 401 (message msg_code_wrong)), s)
           | PObj \<Rightarrow> (Some (Reply 401 (message msg_code_wrong)), s)
           | PAuth ai \<Rightarrow>
               if ai_expires ai < now e then (Some (Reply 401 (message msg_code_expired)), s)
               else if js_parseInt code \<noteq> Some (ai_code ai)
                 then (Some (Reply 401 (message msg_code_wrong)), s)
               else if \<not> db_up e then (None, s)
               else (case users_where u_username username s of
                       [] \<Rightarrow> (Some (Reply 401 (message msg_user_unknown)), s)
                     | user # _ \<Rightarrow>
                         (Some (Reply 200 (JObj [(''message'', JStr msg_auth_ok),
                                                 (''token'', jwt_token user),
                                                 (''userId'', JNum (u_id user))])),
                          twoFA_delete (js_to_string username) s))))"

text \<open>\<open>GET /profile/:id\<close> (lines 415-440), which changes nothing.\<close>

definition get_profile :: "env \<Rightarrow> string \<Rightarrow> accounts \<Rightarrow> response" where
  "get_profile e p s =
     (if \<not> db_up e then Reply 500 (message msg_db_error)
      else case parse_user_id p of
        None \<Rightarrow> Reply 400 (message msg_invalid_id)
      | Some i \<Rightarrow> (case users_with_id i s of
                    [] \<Rightarrow> Reply 404 (message msg_user_not_found)
                  | u # _ \<Rightarrow> Reply 200 (profile_json u)))"

text \<open>\<open>PUT /profile/:id\<close> (lines 498-542).\<close>

definition update_profile_decide :: "env \<Rightarrow> string \<Rightarrow> jsval \<Rightarrow> accounts \<Rightarrow> accounts handled" where
  "update_profile_decide e p body s =
     (if \<not> db_up e then Answer (Reply 500 (message msg_db_connection))
      else case parse_user_id p of
        None \<Rightarrow> Answer (Reply 400 (message msg_invalid_id))
      | Some i \<Rightarrow> catch_answer (\<lambda>err. Reply 500 (message msg_profile_error)) (
          sbind (js_get body ''username'') (\<lambda>username.
          sbind (js_get body ''email'') (\<lambda>email.
          if \<not> js_truthy username \<or> \<not> js_truthy email
            then Inr (Answer (Reply 400 (message msg_profile_missing)))
          else if used_by_other u_email email i s then Inr (Answer (Reply 400 (message msg_email_used)))
          else if used_by_other u_username username i s
            then Inr (Answer (Reply 400 (message msg_username_used_profile)))
          else Inr (Commit (Reply 200 (message msg_profile_updated))
                      (update_row i (\<lambda>u. u\<lparr>u_username := username, u_email := email\<rparr>)))))))"

definition update_profile :: "env \<Rightarrow> string \<Rightarrow> jsval \<Rightarrow> accounts \<Rightarrow> response \<times> accounts" where
  "update_profile e p body s = atomically (update_profile_decide e p body s) s"

text \<open>\<open>PUT /profile/mdp/:id\<close> (lines 621-686).\<close>

definition update_password :: "env \<Rightarrow> string \<Rightarrow> jsval \<Rightarrow> accounts \<Rightarrow> response \<times> accounts" where
  "update_password e p body s =
     (if \<not> db_up e then (Reply 500 (message msg_db_error), s)
      else case parse_user_id p of
        None \<Rightarrow> (Reply 400 (message msg_invalid_id), s)
      | Some i \<Rightarrow> catch_with (\<lambda>err. Reply 500 (message msg_server_error)) s (
          sbind (js_get body ''oldmdp'') (\<lambda>oldmdp.
          sbind (js_get body ''newmdp'') (\<lambda>newmdp.
          if \<not> js_truthy oldmdp \<or> \<not> js_truthy newmdp
            then Inr (Reply 400 (message msg_password_missing), s) else
          case users_with_id i s of
            [] \<Rightarrow> Inr (Reply 404 (message msg_user_not_found), s)
          | user # _ \<Rightarrow>
              sbind (bcrypt_compare oldmdp (u_mdp user)) (\<lambda>ok.
              if \<not> ok then Inr (Reply 400 (message msg_old_password), s) else
              sbind (password_policy newmdp) (\<lambda>rejected.
              case rejected of
                Some m \<Rightarrow> Inr (Reply 400 (message m), s)
              | None \<Rightarrow> sbind (bcrypt_hash_js newmdp) (\<lambda>h.
                  Inr (Reply 200 (message msg_password_updated),
                       update_row i (\<lambda>u. u\<lparr>u_mdp := h, u_edited_at := Some (now e)\<rparr>) s))))))))"

text \<open>
  \<open>DELETE /profile/supprimerCompte/:id\<close> (lines 740-764): the statement tests the
  column \<open>id_user\<close>.
\<close>

definition delete_account :: "env \<Rightarrow> string \<Rightarrow> accounts \<Rightarrow> response \<times> accounts" where
  "delete_account e p s =
     (if \<not> db_up e then (Reply 500 (message msg_db_error), s)
      else case parse_user_id p of
        None \<Rightarrow> (Reply 400 (message msg_invalid_id), s)
      | Some i \<Rightarrow> catch_with (\<lambda>err. Reply 500 (message msg_server_error)) s (
          sbind (sql_delete_users ''id_user'' i s) (\<lambda>s'.
            Inr (Reply 200 (message msg_account_deleted), s'))))"

text \<open>\<open>GET /test\<close> (lines 766-780).\<close>

definition test_route :: "env \<Rightarrow> response" where
  "test_route e =
     (if \<not> db_up e then Reply 500 (message msg_db_error) else Reply 200 (message ''a''))"

section \<open>The router\<close>

datatype users_request =
    Register jsval
  | Login jsval
  | Verify2fa jsval
  | GetProfile string
  | UpdateProfile string jsval
  | UpdatePassword string jsval
  | DeleteAccount string
  | TestRoute

fun users_route ::
  "(string \<Rightarrow> bool) \<Rightarrow> env \<Rightarrow> users_request \<Rightarrow> accounts \<Rightarrow> response option \<times> accounts" where
  "users_route is_email e (Register b) s = map_prod Some id (register is_email e b s)"
| "users_route is_email e (Login b) s = map_prod Some id (login e b s)"
| "users_route is_email e (Verify2fa b) s = verify_2fa e b s"
| "users_route is_email e (GetProfile p) s = (Some (get_profile e p s), s)"
| "users_route is_email e (UpdateProfile p b) s = map_prod Some id (update_profile e p b s)"
| "users_route is_email e (UpdatePassword p b) s = map_prod Some id (update_password e p b s)"
| "users_route is_email e (DeleteAccount p) s = map_prod Some id (delete_account e p s)"
| "users_route is_email e TestRoute s = (Some (test_route e), s)"

section \<open>Well-formedness of the users table\<close>

text \<open>
  Identifiers are distinct and below the next \<open>AUTO_INCREMENT\<close> value; no two rows share
  an e-mail or a user name (what the checks of \<open>/register\<close> and \<open>PUT /profile/:id\<close>
  are for).
\<close>

definition accounts_ok :: "accounts \<Rightarrow> bool" where
  "accounts_ok s \<longleftrightarrow>
     distinct (map u_id (users s)) \<and> list_all (\<lambda>u. u_id u < next_id s) (users s)
     \<and> distinct (map u_email (users s)) \<and> distinct (map u_username (users s))"

section \<open>An example state\<close>

text \<open>One account, \<open>alice\<close>, with a password that meets the policy; the environment of a
  call at time \<open>t\<close> with the database up, the mail sent and the code 123456 drawn.\<close>

definition alice_row :: user_row where
  "alice_row =
     \<lparr>u_id = 1, u_username = JStr ''alice'', u_prenom = JStr ''Alice'', u_nom = JStr ''Martin'',
      u_age = JNum 30, u_email = JStr ''alice@example.com'', u_mdp = bcrypt_hash ''Secret-Pass1'',
      u_edited_at = None\<rparr>"

definition accounts0 :: accounts where
  "accounts0 = \<lparr>users = [alice_row], next_id = 2, twoFA = Map.empty, twoFA_proto = None\<rparr>"

definition env_at :: "int \<Rightarrow> env" where
  "env_at t = \<lparr>db_up = True, now = t, rand_code = 123456, mail_ok = True\<rparr>"

text \<open>A registration request for a second account, \<open>bob\<close>.\<close>

definition bob_body :: jsval where
  "bob_body =
     JObj [(''username'', JStr ''bob''), (''nom'', JStr ''Durand''), (''prenom'', JStr ''Bob''),
           (''age'', JNum 41), (''email'', JStr ''bob@example.com''), (''mdp'', JStr ''Another#Pass9'')]"



section \<open>Lemmas: the request helpers\<close>

lemma catch_with_Inl [simp]: "catch_with h s (Inl err) = (h err, s)"
  by (simp add: catch_with_def)

lemma catch_with_Inr [simp]: "catch_with h s (Inr x) = x"
  by (simp add: catch_with_def)

lemma catch_answer_Inl [simp]: "catch_answer h (Inl err) = Answer (h err)"
  by (simp add: catch_answer_def)

lemma catch_answer_Inr [simp]: "catch_answer h (Inr x) = x"
  by (simp add: catch_answer_def)

lemma atomically_Answer [simp]: "atomically (Answer r) s = (r, s)"
  by (simp add: atomically_def)

lemma atomically_Commit [simp]: "atomically (Commit r w) s = (r, w s)"
  by (simp add: atomically_def)

lemma users_where_Cons_mem: "users_where col v s = u # us \<Longrightarrow> u \<in> set (users s) \<and> col u = v"
proof -
  assume "users_where col v s = u # us"
  then have "u \<in> set (users_where col v s)" by simp
  then show ?thesis by (simp add: users_where_def)
qed

section \<open>Lemmas: what each route does to the state\<close>

text \<open>
  Each route either leaves the state as it was or performs its one update, and then only
  after every check of the source has passed.
\<close>

lemma register_step:
  assumes "register ie e body s = (r, s')"
  shows "s' = s \<or>
    (\<exists>un nm pr ag em pw. js_get body ''username'' = Inr un \<and> js_get body ''nom'' = Inr nm
       \<and> js_get body ''prenom'' = Inr pr \<and> js_get body ''age'' = Inr ag
       \<and> js_get body ''email'' = Inr (JStr em) \<and> js_get body ''mdp'' = Inr (JStr pw)
       \<and> db_up e \<and> list_all js_truthy [un, nm, pr, ag] \<and> ie em \<and> 12 \<le> length pw \<and> password_classes pw
       \<and> users_where u_email (JStr em) s = [] \<and> users_where u_username un s = []
       \<and> r = Reply 201 (message msg_user_created)
       \<and> s' = insert_user un pr nm ag (JStr em) (bcrypt_hash pw) s)"
  using assms
  by (auto simp: register_def register_decide_def atomically_def catch_answer_def catch_with_def sbind_def first_missing_def password_policy_def
                 bcrypt_hash_js_def js_string_eq_Inr
           split: if_splits sum.splits option.splits jsval.splits handled.splits)

lemma login_step:
  assumes "login e body s = (r, s')"
  shows "s' = s \<or>
    (\<exists>un pw user rest. js_get body ''username'' = Inr un \<and> js_get body ''mdp'' = Inr (JStr pw)
       \<and> db_up e \<and> 12 \<le> length pw \<and> password_classes pw
       \<and> users_where u_username un s = user # rest \<and> bcrypt_hash pw = u_mdp user
       \<and> r = (if mail_ok e then Reply 200 (message msg_code_sent) else Reply 500 (message msg_mail_error))
       \<and> s' = twoFA_assign (js_to_string (u_username user))
                  \<lparr>ai_code = rand_code e, ai_expires = now e + two_fa_ttl\<rparr> s)"
  using assms
  by (auto simp: login_def catch_with_def sbind_def password_policy_def bcrypt_compare_def
                 js_string_eq_Inr Let_def
           split: if_splits sum.splits option.splits list.splits)

lemma verify_2fa_step:
  assumes "verify_2fa e body s = (r, s')"
  shows "s' = s \<or>
    (\<exists>un code ai user rest. js_get body ''username'' = Inr un \<and> js_get body ''code'' = Inr code
       \<and> twoFA_get s (js_to_string un) = PAuth ai \<and> now e \<le> ai_expires ai
       \<and> js_parseInt code = Some (ai_code ai) \<and> db_up e
       \<and> users_where u_username un s = user # rest
       \<and> r = Some (Reply 200 (JObj [(''message'', JStr msg_auth_ok), (''token'', jwt_token user),
                                    (''userId'', JNum (u_id user))]))
       \<and> s' = twoFA_delete (js_to_string un) s)"
  using assms
  by (auto simp: verify_2fa_def sbind_def not_less
           split: if_splits sum.splits prop_val.splits list.splits prod.splits)

lemma update_profile_step:
  assumes "update_profile e p body s = (r, s')"
  shows "s' = s \<or>
    (\<exists>i un em. parse_user_id p = Some i \<and> js_get body ''username'' = Inr un
       \<and> js_get body ''email'' = Inr em \<and> db_up e \<and> js_truthy un \<and> js_truthy em
       \<and> \<not> used_by_other u_email em i s \<and> \<not> used_by_other u_username un i s
       \<and> r = Reply 200 (message msg_profile_updated)
       \<and> s' = update_row i (\<lambda>u. u\<lparr>u_username := un, u_email := em\<rparr>) s)"
  using assms
  by (auto simp: update_profile_def update_profile_decide_def atomically_def catch_answer_def catch_with_def sbind_def
           split: if_splits sum.splits option.splits handled.splits)

lemma update_password_step:
  assumes "update_password e p body s = (r, s')"
  shows "s' = s \<or>
    (\<exists>i user rest oldpw pw. parse_user_id p = Some i \<and> db_up e
       \<and> users_with_id i s = user # rest
       \<and> js_get body ''oldmdp'' = Inr (JStr oldpw) \<and> bcrypt_hash oldpw = u_mdp user
       \<and> js_get body ''newmdp'' = Inr (JStr pw) \<and> 12 \<le> length pw \<and> password_classes pw
       \<and> r = Reply 200 (message msg_password_updated)
       \<and> s' = update_row i (\<lambda>u. u\<lparr>u_mdp := bcrypt_hash pw, u_edited_at := Some (now e)\<rparr>) s)"
  using assms
  by (auto simp: update_password_def catch_with_def sbind_def password_policy_def
                 bcrypt_compare_def bcrypt_hash_js_def js_string_eq_Inr
           split: if_splits sum.splits option.splits list.splits)

lemma delete_account_state: "snd (delete_account e p s) = s"
  by (simp add: delete_account_def catch_with_def sql_delete_users_def users_columns_def
           split: option.splits)

text \<open>A decision to write is the INSERT of the request's row, after every check.\<close>

lemma register_decide_commit:
  assumes "register_decide ie e body s = Commit r w"
  shows "\<exists>un nm pr ag em pw. js_get body ''username'' = Inr un \<and> js_get body ''nom'' = Inr nm
       \<and> js_get body ''prenom'' = Inr pr \<and> js_get body ''age'' = Inr ag
       \<and> js_get body ''email'' = Inr (JStr em) \<and> js_get body ''mdp'' = Inr (JStr pw)
       \<and> r = Reply 201 (message msg_user_created)
       \<and> w = insert_user un pr nm ag (JStr em) (bcrypt_hash pw)"
  using assms
  by (auto simp: register_decide_def catch_answer_def sbind_def first_missing_def password_policy_def
                 bcrypt_hash_js_def js_string_eq_Inr
           split: if_splits sum.splits option.splits)

section \<open>Lemmas: the well-formedness invariant\<close>

lemma users_where_Nil: "users_where col v s = [] \<longleftrightarrow> v \<notin> col ` set (users s)"
  by (auto simp: users_where_def filter_empty_conv)

lemma accounts_ok_insert:
  assumes "accounts_ok s" "users_where u_email em s = []" "users_where u_username un s = []"
  shows "accounts_ok (insert_user un pr nm ag em h s)"
proof -
  have "next_id s \<notin> u_id ` set (users s)"
    using assms(1) by (auto simp: accounts_ok_def list_all_iff)
  with assms show ?thesis
    by (auto simp: accounts_ok_def insert_user_def users_where_Nil list_all_iff)
qed

lemma distinct_update_col:
  assumes "distinct (map u_id us)" "distinct (map col us)"
    and "\<not> list_ex (\<lambda>u. col u = v \<and> u_id u \<noteq> i) us"
    and "\<And>u. col (f u) = v"
  shows "distinct (map col (map (\<lambda>u. if u_id u = i then f u else u) us))"
  using assms(1-3)
proof (induction us)
  case Nil
  then show ?case by simp
next
  case (Cons x us)
  let ?g = "\<lambda>u. if u_id u = i then f u else u"
  have IH: "distinct (map col (map ?g us))"
    using Cons by simp
  have "col (?g x) \<notin> set (map col (map ?g us))"
  proof
    assume "col (?g x) \<in> set (map col (map ?g us))"
    then obtain u where u: "u \<in> set us" "col (?g u) = col (?g x)" by auto
    show False
    proof (cases "u_id x = i")
      case True
      then have "u_id u \<noteq> i" using Cons.prems(1) u(1) by (auto simp: image_iff)
      then show False using True u Cons.prems(3) assms(4) by (auto simp: list_ex_iff)
    next
      case False
      show False
      proof (cases "u_id u = i")
        case True
        then show False using False u Cons.prems(3) assms(4) by (auto simp: list_ex_iff)
      next
        case False': False
        then show False using False u Cons.prems(2) by (auto simp: image_iff)
      qed
    qed
  qed
  with IH show ?case by (simp only: list.map(2) distinct.simps(2)) blast
qed

lemma map_update_keep:
  "(\<And>u. col (f u) = col u) \<Longrightarrow>
     map col (map (\<lambda>u. if u_id u = i then f u else u) us) = map col us"
  by (induction us) auto

lemma accounts_ok_update_profile:
  assumes "accounts_ok s" "\<not> used_by_other u_email em i s" "\<not> used_by_other u_username un i s"
  shows "accounts_ok (update_row i (\<lambda>u. u\<lparr>u_username := un, u_email := em\<rparr>) s)"
proof -
  let ?f = "\<lambda>u. u\<lparr>u_username := un, u_email := em\<rparr>"
  let ?us = "map (\<lambda>u. if u_id u = i then ?f u else u) (users s)"
  have upd: "users (update_row i ?f s) = ?us" and nid: "next_id (update_row i ?f s) = next_id s"
    by (simp_all add: update_row_def)
  have ids: "map u_id ?us = map u_id (users s)"
    by (rule map_update_keep) simp
  have em: "distinct (map u_email ?us)"
    using assms by (intro distinct_update_col) (simp_all add: accounts_ok_def used_by_other_def)
  have un: "distinct (map u_username ?us)"
    using assms by (intro distinct_update_col) (simp_all add: accounts_ok_def used_by_other_def)
  have lt: "list_all (\<lambda>u. u_id u < next_id s) ?us"
    using assms(1) by (auto simp: accounts_ok_def list_all_iff)
  have "distinct (map u_id (users s))"
    using assms(1) by (simp add: accounts_ok_def)
  with em un lt show ?thesis
    unfolding accounts_ok_def upd nid ids by blast
qed

lemma accounts_ok_update_keep:
  assumes "accounts_ok s" "\<And>u. u_id (f u) = u_id u" "\<And>u. u_email (f u) = u_email u"
    and "\<And>u. u_username (f u) = u_username u"
  shows "accounts_ok (update_row i f s)"
proof -
  let ?us = "map (\<lambda>u. if u_id u = i then f u else u) (users s)"
  have upd: "users (update_row i f s) = ?us" and nid: "next_id (update_row i f s) = next_id s"
    by (simp_all add: update_row_def)
  have ids: "map u_id ?us = map u_id (users s)" by (rule map_update_keep) (rule assms(2))
  have em: "map u_email ?us = map u_email (users s)" by (rule map_update_keep) (rule assms(3))
  have un: "map u_username ?us = map u_username (users s)" by (rule map_update_keep) (rule assms(4))
  have lt: "list_all (\<lambda>u. u_id u < next_id s) ?us"
    using assms(1,2) by (auto simp: accounts_ok_def list_all_iff)
  show ?thesis
    using assms(1) lt unfolding accounts_ok_def upd nid ids em un by blast
qed

lemma accounts_ok_update_secret:
  "accounts_ok s \<Longrightarrow> accounts_ok (update_row i (\<lambda>u. u\<lparr>u_mdp := h, u_edited_at := t\<rparr>) s)"
  by (rule accounts_ok_update_keep) simp_all

lemma accounts_ok_twoFA_assign: "accounts_ok (twoFA_assign k ai s) = accounts_ok s"
  by (simp add: accounts_ok_def twoFA_assign_def)

lemma accounts_ok_twoFA_delete: "accounts_ok (twoFA_delete k s) = accounts_ok s"
  by (simp add: accounts_ok_def twoFA_delete_def)

text \<open>C2. Every route of users.js preserves the well-formedness of the users table: identifiers stay
  distinct and below the AUTO_INCREMENT counter, and no two accounts share an e-mail or a user
  name.\<close>

theorem users_route_preserves:
  assumes "accounts_ok s"
  shows "accounts_ok (snd (users_route ie e rq s))"
proof (cases rq)
  case (Register b)
  obtain r s' where st: "register ie e b s = (r, s')" by fastforce
  from register_step [OF st] have "accounts_ok s'"
    by (elim disjE exE conjE) (simp_all add: assms accounts_ok_insert)
  then show ?thesis by (simp add: Register st)
next
  case (Login b)
  obtain r s' where st: "login e b s = (r, s')" by fastforce
  from login_step [OF st] have "accounts_ok s'"
    by (elim disjE exE conjE) (simp_all add: assms accounts_ok_twoFA_assign accounts_ok_twoFA_delete)
  then show ?thesis by (simp add: Login st)
next
  case (Verify2fa b)
  obtain r s' where st: "verify_2fa e b s = (r, s')" by fastforce
  from verify_2fa_step [OF st] have "accounts_ok s'"
    by (elim disjE exE conjE) (simp_all add: assms accounts_ok_twoFA_assign accounts_ok_twoFA_delete)
  then show ?thesis by (simp add: Verify2fa st)
next
  case (UpdateProfile p b)
  obtain r s' where st: "update_profile e p b s = (r, s')" by fastforce
  from update_profile_step [OF st] have "accounts_ok s'"
    by (elim disjE exE conjE) (simp_all add: assms accounts_ok_update_profile)
  then show ?thesis by (simp add: UpdateProfile st)
next
  case (UpdatePassword p b)
  obtain r s' where st: "update_password e p b s = (r, s')" by fastforce
  from update_password_step [OF st] have "accounts_ok s'"
    by (elim disjE exE conjE) (simp_all add: assms accounts_ok_update_secret)
  then show ?thesis by (simp add: UpdatePassword st)
qed (simp_all add: assms delete_account_state)

lemma users_route_preserves_witness:
  "accounts_ok accounts0
   \<and> accounts_ok (snd (users_route (\<lambda>em. CHR ''@'' \<in> set em) (env_at 5) (Register bob_body) accounts0))"
  using users_route_preserves [of accounts0 "\<lambda>em. CHR ''@'' \<in> set em" "env_at 5" "Register bob_body"]
  by (simp add: accounts_ok_def accounts0_def alice_row_def)

section \<open>Properties of the routes\<close>

text \<open>C8. POST /register answers 201 only when every check of the handler passed: the six
  fields are present and truthy, the e-mail is a string the e-mail predicate accepts, neither
  the e-mail nor the user name is in the table, the password has at least 12 characters and
  the four character classes; the state then gains exactly the row built from the request,
  with the bcrypt hash of the password.\<close>

theorem register_created:
  assumes "register ie e body s = (Reply 201 m, s')"
  shows "\<exists>un nm pr ag em pw. js_get body ''username'' = Inr un \<and> js_get body ''nom'' = Inr nm
       \<and> js_get body ''prenom'' = Inr pr \<and> js_get body ''age'' = Inr ag
       \<and> js_get body ''email'' = Inr (JStr em) \<and> js_get body ''mdp'' = Inr (JStr pw)
       \<and> list_all js_truthy [un, nm, pr, ag] \<and> ie em \<and> 12 \<le> length pw \<and> password_classes pw
       \<and> users_where u_email (JStr em) s = [] \<and> users_where u_username un s = []
       \<and> m = message msg_user_created
       \<and> s' = insert_user un pr nm ag (JStr em) (bcrypt_hash pw) s"
  using assms
  by (auto simp: register_def register_decide_def atomically_def catch_answer_def catch_with_def sbind_def first_missing_def password_policy_def
                 bcrypt_hash_js_def js_string_eq_Inr
           split: if_splits sum.splits option.splits jsval.splits handled.splits)

lemma register_created_witness:
  "\<exists>un nm pr ag em pw. js_get bob_body ''username'' = Inr un \<and> js_get bob_body ''nom'' = Inr nm
       \<and> js_get bob_body ''prenom'' = Inr pr \<and> js_get bob_body ''age'' = Inr ag
       \<and> js_get bob_body ''email'' = Inr (JStr em) \<and> js_get bob_body ''mdp'' = Inr (JStr pw)
       \<and> list_all js_truthy [un, nm, pr, ag] \<and> CHR ''@'' \<in> set em \<and> 12 \<le> length pw
       \<and> password_classes pw
       \<and> users_where u_email (JStr em) accounts0 = [] \<and> users_where u_username un accounts0 = []
       \<and> message msg_user_created = message msg_user_created
       \<and> insert_user (JStr ''bob'') (JStr ''Bob'') (JStr ''Durand'') (JNum 41) (JStr ''bob@example.com'')
            (bcrypt_hash ''Another#Pass9'') accounts0
         = insert_user un pr nm ag (JStr em) (bcrypt_hash pw) accounts0"
  by (rule register_created [where ie = "\<lambda>em. CHR ''@'' \<in> set em" and e = "env_at 5"])
     (simp add: register_def register_decide_def atomically_def catch_answer_def bob_body_def env_at_def first_missing_def js_lt_int_def
                js_string_to_int_def users_where_def accounts0_def alice_row_def password_policy_def
                password_classes_def is_upper_def is_lower_def is_digit_def is_word_char_def
                is_alnum_def js_space_def bcrypt_hash_js_def)



section \<open>Lemmas: identifiers, profiles and deletion\<close>

lemma parse_user_id_dec_int: "0 < i \<Longrightarrow> parse_user_id (dec_int i) = Some i"
  by (simp add: parse_user_id_def parseInt_dec_int)

lemma dec_int_one: "dec_int 1 = ''1''"
  by (simp add: dec_int_def dec_nat_small digit_chars_def)

text \<open>C15. GET /profile/:id answers 200 with the profile of account i to any caller who
  names i: no token is consulted, although the route's documentation declares bearer
  authentication with 401 and 403 answers.\<close>

theorem get_profile_no_token:
  assumes "db_up e" "0 < i" "users_with_id i s = u # us"
  shows "get_profile e (dec_int i) s = Reply 200 (profile_json u)"
  using assms by (simp add: get_profile_def parse_user_id_dec_int)

lemma get_profile_no_token_witness:
  "get_profile (env_at 0) ''1'' accounts0 =
     Reply 200 (JObj [(''username'', JStr ''alice''), (''prenom'', JStr ''Alice''),
                      (''nom'', JStr ''Martin''), (''age'', JNum 30),
                      (''email'', JStr ''alice@example.com'')])"
  using get_profile_no_token [of "env_at 0" 1 accounts0 alice_row "[]"]
  by (simp add: dec_int_one env_at_def users_with_id_def accounts0_def alice_row_def profile_json_def)

text \<open>C17. PUT /profile/:id stores any truthy user name and e-mail that no other account uses:
  unlike /register it checks neither the length of the user name nor the format of the
  e-mail (the example stores the user name ab and an e-mail without @).\<close>

theorem update_profile_ok:
  assumes "db_up e" "parse_user_id p = Some i"
    and "js_get body ''username'' = Inr un" "js_get body ''email'' = Inr em"
    and "js_truthy un" "js_truthy em"
    and "\<not> used_by_other u_email em i s" "\<not> used_by_other u_username un i s"
  shows "update_profile e p body s =
           (Reply 200 (message msg_profile_updated),
            update_row i (\<lambda>u. u\<lparr>u_username := un, u_email := em\<rparr>) s)"
  using assms by (simp add: update_profile_def update_profile_decide_def atomically_def catch_answer_def)

lemma update_profile_ok_witness:
  "update_profile (env_at 0) ''1''
      (JObj [(''username'', JStr ''ab''), (''email'', JStr ''not an e-mail'')]) accounts0 =
   (Reply 200 (message msg_profile_updated),
    accounts0\<lparr>users := [alice_row\<lparr>u_username := JStr ''ab'', u_email := JStr ''not an e-mail''\<rparr>]\<rparr>)"
  using update_profile_ok [of "env_at 0" "''1''" 1
      "JObj [(''username'', JStr ''ab''), (''email'', JStr ''not an e-mail'')]" "JStr ''ab''"
      "JStr ''not an e-mail''" accounts0]
  by (simp add: env_at_def parse_user_id_dec_int [of 1, unfolded dec_int_one] used_by_other_def
                accounts0_def alice_row_def update_row_def)

text \<open>C22. The identifier check of the profile routes (parseInt, then isNaN or not positive)
  reads back exactly the positive integers from their decimal form: String(i) is accepted as i
  when i is positive and refused otherwise.\<close>

theorem parse_user_id_roundtrip:
  "parse_user_id (dec_int i) = (if 0 < i then Some i else None)"
  by (simp add: parse_user_id_def parseInt_dec_int)

end
