(* ===== verification/TwoFactor.thy ===== *)
theory TwoFactor
  imports Accounts
begin

text \<open>
  The two-factor protocol of \<open>users.js\<close> across requests. A run is a sequence of
  requests to the account router, each with its own environment (time, drawn code, database
  and mail outcomes); \<open>users_run\<close> threads the state through them in order, as the
  single-threaded server does (the model treats a request as one step).

  \<open>pending s k\<close> is the authInfo object \<open>twoFA[k]\<close> yields, if any: the own property
  \<open>k\<close>, except for the key \<open>__proto__\<close>, where it is the object's prototype.
  \<open>untouched k\<close> says that no request of a run changes it. The lemmas show where a
  pending code comes from: the server starts with \<open>{}\<close> (line 12), and the only request
  that stores a code is a login whose password matches the stored hash
  (\<open>pending_set\<close>), so a pending code is the one drawn by the most recent such login for
  that key (\<open>pending_origin\<close>). The \<open>delete\<close> after an accepted verification removes
  an own property, so for an account named \<open>__proto__\<close> the accepted code stays pending.
\<close>

section \<open>Runs of requests\<close>

fun users_run :: "(string \<Rightarrow> bool) \<Rightarrow> (env \<times> users_request) list \<Rightarrow> accounts \<Rightarrow> accounts" where
  "users_run ie [] s = s"
| "users_run ie ((e, rq) # evs) s = users_run ie evs (snd (users_route ie e rq s))"

text \<open>The authInfo object \<open>twoFA[k]\<close> yields, if any.\<close>

definition pending :: "accounts \<Rightarrow> string \<Rightarrow> auth_info option" where
  "pending s k = (if k = ''__proto__'' then twoFA_proto s else twoFA s k)"

text \<open>No request of the run changes the pending code of the key \<open>k\<close>.\<close>

fun untouched :: "(string \<Rightarrow> bool) \<Rightarrow> string \<Rightarrow> (env \<times> users_request) list \<Rightarrow> accounts \<Rightarrow> bool" where
  "untouched ie k [] s = True"
| "untouched ie k ((e, rq) # evs) s =
     (let s' = snd (users_route ie e rq s) in pending s' k = pending s k \<and> untouched ie k evs s')"

section \<open>Example requests\<close>

definition login_alice :: jsval where
  "login_alice = JObj [(''username'', JStr ''alice''), (''mdp'', JStr ''Secret-Pass1'')]"

definition verify_alice :: "jsval \<Rightarrow> jsval" where
  "verify_alice c = JObj [(''username'', JStr ''alice''), (''code'', c)]"

text \<open>An account whose user name is \<open>__proto__\<close> (three characters or more: \<open>/register\<close> accepts it).\<close>

definition proto_row :: user_row where
  "proto_row = alice_row\<lparr>u_username := JStr ''__proto__'', u_email := JStr ''proto@example.com''\<rparr>"

definition accounts_proto :: accounts where
  "accounts_proto = \<lparr>users = [proto_row], next_id = 2, twoFA = Map.empty, twoFA_proto = None\<rparr>"

definition login_proto :: jsval where
  "login_proto = JObj [(''username'', JStr ''__proto__''), (''mdp'', JStr ''Secret-Pass1'')]"

definition verify_proto :: "jsval \<Rightarrow> jsval" where
  "verify_proto c = JObj [(''username'', JStr ''__proto__''), (''code'', c)]"

section \<open>Lemmas: the object \<open>twoFA\<close>\<close>

lemma twoFA_get_PAuth: "twoFA_get s k = PAuth ai \<longleftrightarrow> pending s k = Some ai"
  by (auto simp: twoFA_get_def pending_def split: option.splits)

lemma pending_assign [simp]:
  "pending (twoFA_assign k' ai s) k = (if k = k' then Some ai else pending s k)"
  by (simp add: pending_def twoFA_assign_def)

lemma pending_delete [simp]:
  "pending (twoFA_delete k' s) k = (if k = k' \<and> k \<noteq> ''__proto__'' then None else pending s k)"
  by (simp add: pending_def twoFA_delete_def)

lemma pending_insert_user [simp]: "pending (insert_user un pr nm ag em h s) = pending s"
  by (simp add: pending_def insert_user_def fun_eq_iff)

lemma pending_update_row [simp]: "pending (update_row i f s) = pending s"
  by (simp add: pending_def update_row_def fun_eq_iff)

lemma twoFA_insert_user [simp]: "twoFA (insert_user un pr nm ag em h s) = twoFA s"
  by (simp add: insert_user_def)

lemma twoFA_update_row [simp]: "twoFA (update_row i f s) = twoFA s"
  by (simp add: update_row_def)

text \<open>No request creates an own property named \<open>__proto__\<close>.\<close>

lemma own_proto_step:
  assumes "twoFA s ''__proto__'' = None"
  shows "twoFA (snd (users_route ie e rq s)) ''__proto__'' = None"
proof (cases rq)
  case (Register b)
  obtain r s' where st: "register ie e b s = (r, s')" by fastforce
  from register_step [OF st] assms show ?thesis
    by (elim disjE exE conjE) (simp_all add: Register st)
next
  case (Login b)
  obtain r s' where st: "login e b s = (r, s')" by fastforce
  from login_step [OF st] assms show ?thesis
    by (elim disjE exE conjE) (simp_all add: Login st twoFA_assign_def)
next
  case (Verify2fa b)
  obtain r s' where st: "verify_2fa e b s = (r, s')" by fastforce
  from verify_2fa_step [OF st] assms show ?thesis
    by (elim disjE exE conjE) (simp_all add: Verify2fa st twoFA_delete_def)
next
  case (UpdateProfile p b)
  obtain r s' where st: "update_profile e p b s = (r, s')" by fastforce
  from update_profile_step [OF st] assms show ?thesis
    by (elim disjE exE conjE) (simp_all add: UpdateProfile st)
next
  case (UpdatePassword p b)
  obtain r s' where st: "update_password e p b s = (r, s')" by fastforce
  from update_password_step [OF st] assms show ?thesis
    by (elim disjE exE conjE) (simp_all add: UpdatePassword st)
qed (insert assms, simp_all add: delete_account_state)

section \<open>Lemmas: runs\<close>

lemma users_run_append:
  "users_run ie (xs @ ys) s = users_run ie ys (users_run ie xs s)"
  by (induction ie xs s rule: users_run.induct) auto

lemma untouched_append:
  "untouched ie k (xs @ ys) s \<longleftrightarrow> untouched ie k xs s \<and> untouched ie k ys (users_run ie xs s)"
  by (induction ie xs s rule: users_run.induct) (auto simp: Let_def)

lemma own_proto_run:
  "twoFA s ''__proto__'' = None \<Longrightarrow> twoFA (users_run ie evs s) ''__proto__'' = None"
  by (induction ie evs s rule: users_run.induct) (simp_all add: own_proto_step)

section \<open>Lemmas: where a pending code comes from\<close>

text \<open>Only a login with the right password sets a code, and it sets the code it drew.\<close>

lemma pending_set:
  assumes "pending (snd (users_route ie e rq s)) k \<noteq> pending s k"
    and "pending (snd (users_route ie e rq s)) k = Some ai"
  shows "\<exists>bl pw user. rq = Login bl \<and> ai = \<lparr>ai_code = rand_code e, ai_expires = now e + two_fa_ttl\<rparr>
           \<and> js_get bl ''mdp'' = Inr (JStr pw) \<and> user \<in> set (users s)
           \<and> js_to_string (u_username user) = k \<and> bcrypt_hash pw = u_mdp user"
proof (cases rq)
  case (Register b)
  obtain r s' where st: "register ie e b s = (r, s')" by fastforce
  from register_step [OF st] assms show ?thesis
    by (elim disjE exE conjE) (simp_all add: Register st)
next
  case (Login b)
  obtain r s' where st: "login e b s = (r, s')" by fastforce
  from login_step [OF st] assms show ?thesis
  proof (elim disjE exE conjE)
    fix un pw user rest
    assume "users_where u_username un s = user # rest" and "js_get b ''mdp'' = Inr (JStr pw)"
      and "bcrypt_hash pw = u_mdp user"
      and "s' = twoFA_assign (js_to_string (u_username user))
                  \<lparr>ai_code = rand_code e, ai_expires = now e + two_fa_ttl\<rparr> s"
    moreover have "user \<in> set (users_where u_username un s)"
      using calculation(1) by simp
    then have "user \<in> set (users s)"
      by (simp add: users_where_def)
    ultimately show ?thesis
      using assms \<open>user \<in> set (users s)\<close> by (auto simp: Login st split: if_splits)
  qed (simp add: Login st)
next
  case (Verify2fa b)
  obtain r s' where st: "verify_2fa e b s = (r, s')" by fastforce
  from verify_2fa_step [OF st] assms show ?thesis
    by (elim disjE exE conjE) (auto simp: Verify2fa st split: if_splits)
next
  case (UpdateProfile p b)
  obtain r s' where st: "update_profile e p b s = (r, s')" by fastforce
  from update_profile_step [OF st] assms show ?thesis
    by (elim disjE exE conjE) (simp_all add: UpdateProfile st)
next
  case (UpdatePassword p b)
  obtain r s' where st: "update_password e p b s = (r, s')" by fastforce
  from update_password_step [OF st] assms show ?thesis
    by (elim disjE exE conjE) (simp_all add: UpdatePassword st)
qed (insert assms, simp_all add: delete_account_state)

lemma pending_origin:
  assumes "twoFA s0 = Map.empty" and "twoFA_proto s0 = None"
    and "pending (users_run ie evs s0) k = Some ai"
  shows "\<exists>pre el bl mid pw user. evs = pre @ (el, Login bl) # mid
      \<and> ai = \<lparr>ai_code = rand_code el, ai_expires = now el + two_fa_ttl\<rparr>
      \<and> pending (users_run ie (pre @ [(el, Login bl)]) s0) k = Some ai
      \<and> untouched ie k mid (users_run ie (pre @ [(el, Login bl)]) s0)
      \<and> js_get bl ''mdp'' = Inr (JStr pw) \<and> user \<in> set (users (users_run ie pre s0))
      \<and> js_to_string (u_username user) = k \<and> bcrypt_hash pw = u_mdp user"
  using assms(3)
proof (induction evs arbitrary: ai rule: rev_induct)
  case Nil
  then show ?case using assms(1,2) by (simp add: pending_def split: if_splits)
next
  case (snoc ev evs)
  obtain e rq where ev: "ev = (e, rq)" by fastforce
  let ?s = "users_run ie evs s0"
  show ?case
  proof (cases "pending (snd (users_route ie e rq ?s)) k = pending ?s k")
    case True
    with snoc.prems ev have "pending ?s k = Some ai" by (simp add: users_run_append)
    from snoc.IH [OF this] obtain pre el bl mid pw user where
      ih: "evs = pre @ (el, Login bl) # mid"
          "ai = \<lparr>ai_code = rand_code el, ai_expires = now el + two_fa_ttl\<rparr>"
          "pending (users_run ie (pre @ [(el, Login bl)]) s0) k = Some ai"
          "untouched ie k mid (users_run ie (pre @ [(el, Login bl)]) s0)"
          "js_get bl ''mdp'' = Inr (JStr pw)" "user \<in> set (users (users_run ie pre s0))"
          "js_to_string (u_username user) = k" "bcrypt_hash pw = u_mdp user"
      by blast
    have "users_run ie mid (users_run ie (pre @ [(el, Login bl)]) s0) = ?s"
      using ih(1) by (simp add: users_run_append)
    then have "untouched ie k (mid @ [ev]) (users_run ie (pre @ [(el, Login bl)]) s0)"
      using ih(4) True ev by (simp add: untouched_append)
    moreover have "evs @ [ev] = pre @ (el, Login bl) # (mid @ [ev])"
      using ih(1) by simp
    ultimately show ?thesis
      using ih(2-8) by blast
  next
    case False
    moreover have "pending (snd (users_route ie e rq ?s)) k = Some ai"
      using snoc.prems ev by (simp add: users_run_append)
    ultimately obtain bl pw user where
      "rq = Login bl" "ai = \<lparr>ai_code = rand_code e, ai_expires = now e + two_fa_ttl\<rparr>"
      "js_get bl ''mdp'' = Inr (JStr pw)" "user \<in> set (users ?s)"
      "js_to_string (u_username user) = k" "bcrypt_hash pw = u_mdp user"
      using pending_set by blast
    moreover have "pending (users_run ie (evs @ [(e, Login bl)]) s0) k = Some ai"
      using snoc.prems ev calculation(1) by simp
    moreover have "evs @ [ev] = evs @ (e, Login bl) # []"
      using ev calculation(1) by simp
    ultimately show ?thesis
      by (metis untouched.simps(1))
  qed
qed

text \<open>An accepted verification found an unexpired pending code equal to the parsed code.\<close>

lemma verify_2fa_ok:
  assumes "verify_2fa e b s = (Some (Reply 200 body), s')"
  shows "\<exists>un code ai. js_get b ''username'' = Inr un \<and> js_get b ''code'' = Inr code
           \<and> pending s (js_to_string un) = Some ai \<and> now e \<le> ai_expires ai
           \<and> js_parseInt code = Some (ai_code ai)
           \<and> s' = twoFA_delete (js_to_string un) s"
  using assms
  by (auto simp: verify_2fa_def sbind_def not_less twoFA_get_PAuth [symmetric]
           split: if_splits sum.splits prop_val.splits list.splits prod.splits)

text \<open>A login that answers 200 stored the drawn code under the name of the account it found.\<close>

lemma login_sent:
  assumes "login e b s = (Reply 200 r, s1)"
  shows "\<exists>un user rest. js_get b ''username'' = Inr un \<and> users_where u_username un s = user # rest
       \<and> s1 = twoFA_assign (js_to_string (u_username user))
                \<lparr>ai_code = rand_code e, ai_expires = now e + two_fa_ttl\<rparr> s"
  using assms
  by (auto simp: login_def catch_with_def sbind_def password_policy_def bcrypt_compare_def
                 js_string_eq_Inr Let_def
           split: if_splits sum.splits option.splits list.splits)

text \<open>The accepting branch of the verification.\<close>

lemma verify_2fa_accept:
  assumes "js_get b ''username'' = Inr un" and "js_get b ''code'' = Inr code"
    and "pending s (js_to_string un) = Some ai" and "now e \<le> ai_expires ai"
    and "js_parseInt code = Some (ai_code ai)" and "db_up e"
    and "users_where u_username un s = user # rest"
  shows "verify_2fa e b s =
           (Some (Reply 200 (JObj [(''message'', JStr msg_auth_ok), (''token'', jwt_token user),
                                   (''userId'', JNum (u_id user))])),
            twoFA_delete (js_to_string un) s)"
proof -
  have "twoFA_get s (js_to_string un) = PAuth ai"
    using assms(3) by (simp add: twoFA_get_PAuth)
  then show ?thesis
    using assms by (simp add: verify_2fa_def sbind_def not_less)
qed

lemma login_sent_user:
  assumes "login e b s = (Reply 200 r, s1)" and "js_get b ''username'' = Inr un"
  shows "\<exists>user rest. users_where u_username un s = user # rest \<and> u_username user = un
     \<and> user \<in> set (users s)
     \<and> s1 = twoFA_assign (js_to_string un) \<lparr>ai_code = rand_code e, ai_expires = now e + two_fa_ttl\<rparr> s"
proof -
  obtain user rest where
    l: "users_where u_username un s = user # rest"
       "s1 = twoFA_assign (js_to_string (u_username user))
               \<lparr>ai_code = rand_code e, ai_expires = now e + two_fa_ttl\<rparr> s"
    using login_sent [OF assms(1)] assms(2) by auto
  have "user \<in> set (users_where u_username un s)"
    using l(1) by simp
  then have "u_username user = un" "user \<in> set (users s)"
    by (simp_all add: users_where_def)
  then show ?thesis using l by auto
qed

lemma users_where_twoFA_assign [simp]:
  "users_where col v (twoFA_assign k ai s) = users_where col v s"
  by (simp add: users_where_def twoFA_assign_def)

lemma users_where_twoFA_delete [simp]:
  "users_where col v (twoFA_delete k s) = users_where col v s"
  by (simp add: users_where_def twoFA_delete_def)

section \<open>Lemmas: the example runs\<close>

text \<open>alice logs in at time 1000 and draws 123456.\<close>

lemma policy_alice: "password_policy (JStr ''Secret-Pass1'') = Inr None"
  by (simp add: password_policy_def password_classes_def is_upper_def is_lower_def is_digit_def
                is_word_char_def is_alnum_def js_space_def)

lemma parseInt_code: "js_parseInt (JStr ''123456'') = Some 123456"
  by (simp add: js_parseInt_def js_space_def parse_unsigned_def dec_digit_val_def is_digit_def
                horner_def)

lemma login_alice_run:
  "login (env_at 1000) login_alice accounts0 = (Reply 200 (message msg_code_sent), accounts0\<lparr>twoFA := [''alice'' \<mapsto> \<lparr>ai_code = 123456, ai_expires = 1000 + two_fa_ttl\<rparr>]\<rparr>)"
  by (simp add: login_def login_alice_def accounts0_def alice_row_def env_at_def policy_alice
                users_where_def js_lt_int_def js_string_to_int_def bcrypt_compare_def twoFA_assign_def)

lemma run_login_alice:
  "users_run ie [(env_at 1000, Login login_alice)] accounts0 = accounts0\<lparr>twoFA := [''alice'' \<mapsto> \<lparr>ai_code = 123456, ai_expires = 1000 + two_fa_ttl\<rparr>]\<rparr>"
  by (simp add: login_alice_run)

lemma verify_alice_after_login:
  "verify_2fa (env_at t) (verify_alice (JStr ''123456'')) (accounts0\<lparr>twoFA := [''alice'' \<mapsto> \<lparr>ai_code = 123456, ai_expires = 1000 + two_fa_ttl\<rparr>]\<rparr>) =
   (if 1000 + two_fa_ttl < t then (Some (Reply 401 (message msg_code_expired)), accounts0\<lparr>twoFA := [''alice'' \<mapsto> \<lparr>ai_code = 123456, ai_expires = 1000 + two_fa_ttl\<rparr>]\<rparr>)
    else (Some (Reply 200 (JObj [(''message'', JStr msg_auth_ok), (''token'', jwt_token alice_row), (''userId'', JNum 1)])), accounts0))"
  by (simp add: verify_2fa_def verify_alice_def parseInt_code env_at_def users_where_def
                accounts0_def alice_row_def twoFA_get_def twoFA_delete_def)

text \<open>The account \<open>__proto__\<close> logs in at time 1000: the code becomes the object's prototype.\<close>

lemma login_proto_run:
  "login (env_at 1000) login_proto accounts_proto = (Reply 200 (message msg_code_sent), accounts_proto\<lparr>twoFA_proto := Some \<lparr>ai_code = 123456, ai_expires = 1000 + two_fa_ttl\<rparr>\<rparr>)"
  by (simp add: login_def login_proto_def accounts_proto_def proto_row_def alice_row_def env_at_def
                policy_alice users_where_def js_lt_int_def js_string_to_int_def bcrypt_compare_def
                twoFA_assign_def)

lemma verify_proto_after_login:
  "verify_2fa (env_at 1100) (verify_proto (JStr ''123456'')) (accounts_proto\<lparr>twoFA_proto := Some \<lparr>ai_code = 123456, ai_expires = 1000 + two_fa_ttl\<rparr>\<rparr>) = (Some (Reply 200 (JObj [(''message'', JStr msg_auth_ok), (''token'', jwt_token proto_row), (''userId'', JNum 1)])), accounts_proto\<lparr>twoFA_proto := Some \<lparr>ai_code = 123456, ai_expires = 1000 + two_fa_ttl\<rparr>\<rparr>)"
proof -
  have "twoFA_delete ''__proto__'' (accounts_proto\<lparr>twoFA_proto := Some \<lparr>ai_code = 123456, ai_expires = 1000 + two_fa_ttl\<rparr>\<rparr>) = accounts_proto\<lparr>twoFA_proto := Some \<lparr>ai_code = 123456, ai_expires = 1000 + two_fa_ttl\<rparr>\<rparr>"
    by (simp add: twoFA_delete_def accounts_proto_def fun_eq_iff)
  then show ?thesis
    by (simp add: verify_2fa_def verify_proto_def parseInt_code env_at_def users_where_def
                  twoFA_get_def two_fa_ttl_def accounts_proto_def proto_row_def alice_row_def)
qed

section \<open>Properties of the two-factor protocol\<close>

text \<open>C1. A 2FA verification is accepted only with the code drawn by the most recent login for
  that user name that changed the pending code: that login gave the password matching the
  stored hash of an account with that name, the verification happens at most ten minutes
  (600000 ms) after it, and no request in between changed the pending code (in particular no
  earlier verification consumed it). Afterwards no code is pending for that name, except for
  the name \<open>__proto__\<close>, whose code is the object's prototype and is not deleted.\<close>

theorem verify_2fa_accepted:
  assumes "twoFA s0 = Map.empty" and "twoFA_proto s0 = None"
    and "verify_2fa e b (users_run ie evs s0) = (Some (Reply 200 body), s')"
  shows "\<exists>un code pre el bl mid pw user.
           js_get b ''username'' = Inr un \<and> js_get b ''code'' = Inr code
         \<and> evs = pre @ (el, Login bl) # mid
         \<and> js_parseInt code = Some (rand_code el) \<and> now e \<le> now el + two_fa_ttl
         \<and> untouched ie (js_to_string un) mid (users_run ie (pre @ [(el, Login bl)]) s0)
         \<and> js_get bl ''mdp'' = Inr (JStr pw) \<and> user \<in> set (users (users_run ie pre s0))
         \<and> js_to_string (u_username user) = js_to_string un \<and> bcrypt_hash pw = u_mdp user
         \<and> pending s' (js_to_string un) =
             (if js_to_string un = ''__proto__''
              then Some \<lparr>ai_code = rand_code el, ai_expires = now el + two_fa_ttl\<rparr> else None)"
proof -
  obtain un code ai where v: "js_get b ''username'' = Inr un" "js_get b ''code'' = Inr code"
      "pending (users_run ie evs s0) (js_to_string un) = Some ai" "now e \<le> ai_expires ai"
      "js_parseInt code = Some (ai_code ai)"
      "s' = twoFA_delete (js_to_string un) (users_run ie evs s0)"
    using verify_2fa_ok [OF assms(3)] by blast
  from pending_origin [OF assms(1,2) v(3)] obtain pre el bl mid pw user where
    o: "evs = pre @ (el, Login bl) # mid"
       "ai = \<lparr>ai_code = rand_code el, ai_expires = now el + two_fa_ttl\<rparr>"
       "untouched ie (js_to_string un) mid (users_run ie (pre @ [(el, Login bl)]) s0)"
       "js_get bl ''mdp'' = Inr (JStr pw)" "user \<in> set (users (users_run ie pre s0))"
       "js_to_string (u_username user) = js_to_string un" "bcrypt_hash pw = u_mdp user"
    by blast
  have "js_parseInt code = Some (rand_code el)" "now e \<le> now el + two_fa_ttl"
    using v(4,5) o(2) by simp_all
  moreover have "pending s' (js_to_string un) =
      (if js_to_string un = ''__proto__''
       then Some \<lparr>ai_code = rand_code el, ai_expires = now el + two_fa_ttl\<rparr> else None)"
    using v(3,6) o(2) by (cases "js_to_string un = ''__proto__''") simp_all
  ultimately show ?thesis
    using v(1,2) o(1,3-7) by blast
qed

lemma verify_2fa_accepted_witness:
  "\<exists>un code pre el bl mid pw user.
     js_get (verify_alice (JStr ''123456'')) ''username'' = Inr un
   \<and> js_get (verify_alice (JStr ''123456'')) ''code'' = Inr code
   \<and> [(env_at 1000, Login login_alice)] = pre @ (el, Login bl) # mid
   \<and> js_parseInt code = Some (rand_code el) \<and> now (env_at 2000) \<le> now el + two_fa_ttl
   \<and> untouched (\<lambda>em. CHR ''@'' \<in> set em) (js_to_string un) mid
       (users_run (\<lambda>em. CHR ''@'' \<in> set em) (pre @ [(el, Login bl)]) accounts0)
   \<and> js_get bl ''mdp'' = Inr (JStr pw)
   \<and> user \<in> set (users (users_run (\<lambda>em. CHR ''@'' \<in> set em) pre accounts0))
   \<and> js_to_string (u_username user) = js_to_string un \<and> bcrypt_hash pw = u_mdp user
   \<and> pending (snd (verify_2fa (env_at 2000) (verify_alice (JStr ''123456''))
              (users_run (\<lambda>em. CHR ''@'' \<in> set em) [(env_at 1000, Login login_alice)] accounts0)))
         (js_to_string un) =
       (if js_to_string un = ''__proto__''
        then Some \<lparr>ai_code = rand_code el, ai_expires = now el + two_fa_ttl\<rparr> else None)"
  apply (rule verify_2fa_accepted [where body = "(JObj [(''message'', JStr msg_auth_ok), (''token'', jwt_token alice_row), (''userId'', JNum 1)])"])
    apply (simp add: accounts0_def)
   apply (simp add: accounts0_def)
  apply (simp only: run_login_alice verify_alice_after_login)
  apply (simp add: two_fa_ttl_def)
  done

text \<open>C7. For every user name other than \<open>__proto__\<close> a code is accepted once: replaying an
  accepted verification request answers 401, whatever the time ("expired or invalid", or
  "incorrect" for a name inherited from \<open>Object.prototype\<close> such as \<open>constructor\<close>).\<close>

theorem verify_2fa_no_replay:
  assumes "verify_2fa e b s = (Some (Reply 200 body), s')"
    and "js_get b ''username'' = Inr un" and "js_to_string un \<noteq> ''__proto__''"
  shows "\<exists>m. verify_2fa e' b s' = (Some (Reply 401 (message m)), s')
             \<and> (m = msg_code_expired \<or> m = msg_code_wrong)"
proof -
  obtain code where v: "js_get b ''code'' = Inr code"
      "s' = twoFA_delete (js_to_string un) s"
    using verify_2fa_ok [OF assms(1)] assms(2) by auto
  then show ?thesis
    using assms(2,3)
    by (auto simp: verify_2fa_def twoFA_get_def twoFA_delete_def split: option.splits)
qed

lemma verify_2fa_no_replay_witness:
  "\<exists>m. verify_2fa (env_at 2100) (verify_alice (JStr ''123456'')) accounts0 =
         (Some (Reply 401 (message m)), accounts0)
       \<and> (m = msg_code_expired \<or> m = msg_code_wrong)"
  apply (rule verify_2fa_no_replay
        [where e = "env_at 2000" and s = "accounts0\<lparr>twoFA := [''alice'' \<mapsto> \<lparr>ai_code = 123456, ai_expires = 1000 + two_fa_ttl\<rparr>]\<rparr>" and body = "(JObj [(''message'', JStr msg_auth_ok), (''token'', jwt_token alice_row), (''userId'', JNum 1)])" and un = "JStr ''alice''"])
    apply (simp only: verify_alice_after_login)
    apply (simp add: two_fa_ttl_def)
   apply (simp add: verify_alice_def)
  apply simp
  done

text \<open>C14. For an account named \<open>__proto__\<close> a code is accepted again and again: from a
  server start, an accepted verification for that name leaves the state unchanged (the
  login made the code the object's prototype, and \<open>delete twoFA['__proto__']\<close> deletes
  nothing), so replaying the same request is accepted with the same answer.\<close>

theorem verify_2fa_proto_replay:
  assumes "twoFA s0 = Map.empty" and "twoFA_proto s0 = None"
    and "verify_2fa e b (users_run ie evs s0) = (Some (Reply 200 body), s')"
    and "js_get b ''username'' = Inr un" and "js_to_string un = ''__proto__''"
  shows "s' = users_run ie evs s0 \<and> verify_2fa e b s' = (Some (Reply 200 body), s')"
proof -
  have own: "twoFA (users_run ie evs s0) ''__proto__'' = None"
    using assms(1) by (intro own_proto_run) simp
  obtain code ai where "s' = twoFA_delete (js_to_string un) (users_run ie evs s0)"
    using verify_2fa_ok [OF assms(3)] assms(4) by auto
  then have "s' = users_run ie evs s0"
    using own assms(5) by (simp add: twoFA_delete_def fun_upd_idem)
  then show ?thesis using assms(3) by simp
qed

lemma verify_2fa_proto_replay_witness:
  "accounts_proto\<lparr>twoFA_proto := Some \<lparr>ai_code = 123456, ai_expires = 1000 + two_fa_ttl\<rparr>\<rparr> = users_run (\<lambda>em. True) [(env_at 1000, Login login_proto)] accounts_proto
   \<and> verify_2fa (env_at 1100) (verify_proto (JStr ''123456'')) (accounts_proto\<lparr>twoFA_proto := Some \<lparr>ai_code = 123456, ai_expires = 1000 + two_fa_ttl\<rparr>\<rparr>) = (Some (Reply 200 (JObj [(''message'', JStr msg_auth_ok), (''token'', jwt_token proto_row), (''userId'', JNum 1)])), accounts_proto\<lparr>twoFA_proto := Some \<lparr>ai_code = 123456, ai_expires = 1000 + two_fa_ttl\<rparr>\<rparr>)"
  apply (rule verify_2fa_proto_replay [where un = "JStr ''__proto__''"])
      apply (simp add: accounts_proto_def)
     apply (simp add: accounts_proto_def)
    apply (simp add: login_proto_run verify_proto_after_login)
   apply (simp add: verify_proto_def)
  apply simp
  done

text \<open>A wrong code is refused without changing anything.\<close>

lemma verify_2fa_wrong_code:
  assumes "pending s (js_to_string un) = Some ai" "js_parseInt c \<noteq> Some (ai_code ai)"
  shows "snd (verify_2fa e (JObj [(''username'', un), (''code'', c)]) s) = s"
proof -
  have "twoFA_get s (js_to_string un) = PAuth ai"
    using assms(1) by (simp add: twoFA_get_PAuth)
  then show ?thesis using assms(2) by (simp add: verify_2fa_def)
qed

text \<open>C16. Wrong guesses never invalidate a pending code: any sequence of verification requests
  with wrong codes leaves the state unchanged, so the number of attempts within the ten
  minutes is not limited.\<close>

theorem verify_2fa_unlimited_guesses:
  assumes "pending s (js_to_string un) = Some ai"
    and "list_all (\<lambda>c. js_parseInt c \<noteq> Some (ai_code ai)) cs"
  shows "users_run ie (map (\<lambda>c. (e, Verify2fa (JObj [(''username'', un), (''code'', c)]))) cs) s = s"
  using assms(2)
proof (induction cs)
  case Nil
  then show ?case by simp
next
  case (Cons c cs)
  then show ?case
    using verify_2fa_wrong_code [OF assms(1), of c e] by simp
qed

lemma verify_2fa_unlimited_guesses_witness:
  "users_run (\<lambda>em. CHR ''@'' \<in> set em)
      (map (\<lambda>c. (env_at 1500, Verify2fa (JObj [(''username'', JStr ''alice''), (''code'', c)])))
           [JStr ''000000'', JStr ''654321'', JStr ''abc''])
      (accounts0\<lparr>twoFA := [''alice'' \<mapsto> \<lparr>ai_code = 123456, ai_expires = 1000 + two_fa_ttl\<rparr>]\<rparr>)
   = accounts0\<lparr>twoFA := [''alice'' \<mapsto> \<lparr>ai_code = 123456, ai_expires = 1000 + two_fa_ttl\<rparr>]\<rparr>"
  by (rule verify_2fa_unlimited_guesses [where un = "JStr ''alice''" and ai = "\<lparr>ai_code = 123456, ai_expires = 1000 + two_fa_ttl\<rparr>"])
     (simp_all add: pending_def js_parseInt_def js_space_def parse_unsigned_def dec_digit_val_def
                    is_digit_def horner_def hex_digit_val_def)

text \<open>C31. The two-factor protocol can complete: after a login that answers 200 (code
  mailed), a verification for the same user name with the drawn code, at most ten minutes
  later and with the database up, is accepted with a token for the account that logged in,
  and the own property of that name is deleted from \<open>twoFA\<close> (for the name
  \<open>__proto__\<close> this deletes nothing).\<close>

theorem login_then_verify_succeeds:
  assumes "login e b s = (Reply 200 r, s1)"
    and "js_get b ''username'' = Inr un"
    and "js_get b2 ''username'' = Inr un" and "js_get b2 ''code'' = Inr code"
    and "js_parseInt code = Some (rand_code e)"
    and "now e2 \<le> now e + two_fa_ttl" and "db_up e2"
  shows "\<exists>user. user \<in> set (users s) \<and> u_username user = un \<and>
           verify_2fa e2 b2 s1 =
             (Some (Reply 200 (JObj [(''message'', JStr msg_auth_ok), (''token'', jwt_token user),
                                     (''userId'', JNum (u_id user))])),
              twoFA_delete (js_to_string un) s1)"
proof -
  obtain user rest where u: "users_where u_username un s = user # rest" "u_username user = un"
      "user \<in> set (users s)"
      "s1 = twoFA_assign (js_to_string un) \<lparr>ai_code = rand_code e, ai_expires = now e + two_fa_ttl\<rparr> s"
    using login_sent_user [OF assms(1,2)] by blast
  have "users_where u_username un s1 = user # rest"
    using u(1,4) by simp
  then have "verify_2fa e2 b2 s1 =
           (Some (Reply 200 (JObj [(''message'', JStr msg_auth_ok), (''token'', jwt_token user),
                                   (''userId'', JNum (u_id user))])),
            twoFA_delete (js_to_string un) s1)"
    using assms(3-7) u(4)
    by (intro verify_2fa_accept [where ai = "\<lparr>ai_code = rand_code e, ai_expires = now e + two_fa_ttl\<rparr>"])
       simp_all
  then show ?thesis using u by auto
qed

lemma login_then_verify_succeeds_witness:
  "\<exists>user. user \<in> set (users accounts0) \<and> u_username user = JStr ''alice'' \<and>
     verify_2fa (env_at 1100) (verify_alice (JStr ''123456'')) (accounts0\<lparr>twoFA := [''alice'' \<mapsto> \<lparr>ai_code = 123456, ai_expires = 1000 + two_fa_ttl\<rparr>]\<rparr>) =
     (Some (Reply 200 (JObj [(''message'', JStr msg_auth_ok), (''token'', jwt_token user),
                             (''userId'', JNum (u_id user))])),
      twoFA_delete (js_to_string (JStr ''alice'')) (accounts0\<lparr>twoFA := [''alice'' \<mapsto> \<lparr>ai_code = 123456, ai_expires = 1000 + two_fa_ttl\<rparr>]\<rparr>))"
  apply (rule login_then_verify_succeeds [OF login_alice_run])
       apply (simp_all add: login_alice_def verify_alice_def env_at_def two_fa_ttl_def)
  using parseInt_code apply (simp add: env_at_def)
  done

end
