(* ===== verification/Aggregation.thy ===== *)
theory Aggregation
  imports Upstream
begin

text \<open>
  The steps the aggregating handlers of \<open>src/back/apiRequest\<close> share, each written
  once here as the handlers repeat it inline: the upstream paths they request, the
  resolver that turns a name/title lookup into an identifier ("first candidate wins"),
  the cast extractor of \<open>getActorImage.js\<close> (drop \<open>Director\<close> and \<open>Writer\<close>, keep
  ten), the per-actor enrichment of its fan-out, and the identifier list the filmography
  handlers build with \<open>forEach\<close>.
\<close>

section \<open>Upstream paths\<close>

text \<open>Names and titles are percent-encoded; identifiers are inserted with \<open>String(v)\<close>.\<close>

definition actor_id_by_name_path :: "string \<Rightarrow> string" where
  "actor_id_by_name_path name = ''/actor/imdb_id_byName/'' @ encodeURIComponent name @ ''/''"

definition actor_by_id_path :: "jsval \<Rightarrow> string" where
  "actor_by_id_path imdbId = ''/actor/id/'' @ js_to_string imdbId @ ''/''"

definition movie_id_by_title_path :: "string \<Rightarrow> string" where
  "movie_id_by_title_path film = ''/movie/imdb_id/byTitle/'' @ encodeURIComponent film @ ''/''"

definition movie_by_id_path :: "jsval \<Rightarrow> string" where
  "movie_by_id_path imdbId = ''/movie/id/'' @ js_to_string imdbId @ ''/''"

definition movie_cast_path :: "jsval \<Rightarrow> string" where
  "movie_cast_path imdbId = ''/movie/id/'' @ js_to_string imdbId @ ''/cast/''"

definition movie_by_actor_path :: "jsval \<Rightarrow> string" where
  "movie_by_actor_path imdbId = ''/movie/byActor/'' @ js_to_string imdbId @ ''/''"

definition series_by_actor_path :: "jsval \<Rightarrow> string" where
  "series_by_actor_path imdbId = ''/series/byActor/'' @ js_to_string imdbId @ ''/''"

definition series_by_id_path :: "jsval \<Rightarrow> string" where
  "series_by_id_path imdbId = ''/series/id/'' @ js_to_string imdbId @ ''/''"

section \<open>Resolver\<close>

text \<open>
  \<^verbatim>\<open>let imdbId;
if (r.results && r.results.length > 0) { imdbId = r.results[0].imdb_id; }\<close>
  The first candidate is the match; \<open>undefined\<close> when there is none. Reading
  \<open>.imdb_id\<close> of a first candidate that is \<open>null\<close> throws.
\<close>

definition first_result_id :: "jsval \<Rightarrow> jsval js" where
  "first_result_id resp =
     sbind (js_get resp ''results'') (\<lambda>results.
       if \<not> js_truthy results then Inr JUndef
       else sbind (js_get results ''length'') (\<lambda>len.
         if \<not> js_gt0 len then Inr JUndef
         else sbind (js_idx results 0) (\<lambda>first. js_get first ''imdb_id'')))"

section \<open>Cast extraction\<close>

text \<open>
  \<open>responseCast && responseCast.results && Array.isArray(responseCast.results.roles)\<close>:
  the roles array, or \<open>None\<close> when the payload has none.
\<close>

definition cast_roles :: "jsval \<Rightarrow> jsval list option js" where
  "cast_roles rc =
     (if \<not> js_truthy rc then Inr None
      else sbind (js_get rc ''results'') (\<lambda>results.
        if \<not> js_truthy results then Inr None
        else sbind (js_get results ''roles'') (\<lambda>roles.
          case roles of JArr rs \<Rightarrow> Inr (Some rs) | _ \<Rightarrow> Inr None)))"

text \<open>\<open>role => role.role !== 'Director' && role.role !== 'Writer'\<close>\<close>

definition performer_role :: "jsval \<Rightarrow> bool js" where
  "performer_role role =
     sbind (js_get role ''role'') (\<lambda>r. Inr (r \<noteq> JStr ''Director'' \<and> r \<noteq> JStr ''Writer''))"

text \<open>\<open>roles.filter(performer_role).slice(0, 10)\<close>\<close>

definition actor_roles :: "jsval list \<Rightarrow> jsval list js" where
  "actor_roles roles = sbind (filter_sum performer_role roles) (\<lambda>rs. Inr (take 10 rs))"

section \<open>Fan-out enrichment\<close>

text \<open>
  \<open>fetchActorDetails(actorId)\<close> of \<open>getActorImage.js\<close>: the callback resolves with
  \<open>JSON.parse(body).results\<close>, so a body that does not parse, or parses to \<open>null\<close>,
  throws inside the event listener.
\<close>

definition fetch_actor_details :: "jsval \<Rightarrow> jsval prog" where
  "fetch_actor_details actorId =
     fetch_json_unguarded_with (\<lambda>v. js_get v ''results'') (actor_by_id_path actorId)"

definition role_actor_id :: "jsval \<Rightarrow> jsval js" where
  "role_actor_id role = sbind (js_get role ''actor'') (\<lambda>a. js_get a ''imdb_id'')"

text \<open>\<open>{ name: actorDetails.name, image: actorDetails.image_url }\<close>\<close>

definition cast_entry :: "jsval \<Rightarrow> jsval js" where
  "cast_entry d =
     sbind (js_get d ''name'') (\<lambda>n. sbind (js_get d ''image_url'') (\<lambda>i.
       Inr (JObj [(''name'', n), (''image'', i)])))"

text \<open>One iteration of \<open>for (const role of actorRoles)\<close>.\<close>

definition enrich_role :: "jsval \<Rightarrow> jsval prog" where
  "enrich_role role =
     pbind (lift_js (role_actor_id role)) (\<lambda>actorId.
     pbind (fetch_actor_details actorId) (\<lambda>actorDetails.
     lift_js (cast_entry actorDetails)))"

definition enrich_cast :: "jsval list \<Rightarrow> jsval list prog" where
  "enrich_cast roles = map_prog enrich_role roles"

section \<open>Filmography identifiers\<close>

text \<open>\<open>x && Array.isArray(x.results)\<close>: the results array, if there is one.\<close>

definition results_array :: "jsval \<Rightarrow> jsval list option" where
  "results_array v =
     (if \<not> js_truthy v then None
      else case js_get v ''results'' of Inr (JArr rs) \<Rightarrow> Some rs | _ \<Rightarrow> None)"

text \<open>
  \<open>results.forEach((d) => { const m = d[0]; ids.push(m.imdb_id) })\<close>: the identifier of
  the first entry of each result, in order; a result without entries throws.
\<close>

definition first_ids :: "jsval list \<Rightarrow> jsval list js" where
  "first_ids results = map_sum (\<lambda>d. sbind (js_idx d 0) (\<lambda>m. js_get m ''imdb_id'')) results"

section \<open>Lemmas: resolver\<close>

lemma first_result_id_no_results:
  "js_get resp ''results'' = Inr (JArr []) \<Longrightarrow> first_result_id resp = Inr JUndef"
  by (simp add: first_result_id_def)

lemma first_result_id_first:
  "js_get resp ''results'' = Inr (JArr (c # cs)) \<Longrightarrow> first_result_id resp = js_get c ''imdb_id''"
  by (simp add: first_result_id_def js_idx_JArr)

section \<open>Lemmas: cast extraction\<close>

lemma actor_roles_Inr:
  "actor_roles roles = Inr out \<Longrightarrow> out = take 10 (filter (\<lambda>r. performer_role r = Inr True) roles)"
  by (auto simp: actor_roles_def sbind_eq_Inr dest: filter_sum_Inr)

lemma performer_role_True:
  "performer_role r = Inr True \<longleftrightarrow>
     (\<exists>v. js_get r ''role'' = Inr v \<and> v \<noteq> JStr ''Director'' \<and> v \<noteq> JStr ''Writer'')"
  by (cases "js_get r ''role''") (auto simp: performer_role_def)

text \<open>
  C3. Cast extraction: when the extractor of \<open>getActorImage.js\<close> succeeds, its output
  is the first ten performer roles of the payload, in the payload's order: at most ten
  entries, each one of the input's roles, none whose \<open>role\<close> is exactly
  \<open>Director\<close> or \<open>Writer\<close>.
\<close>

theorem actor_roles_performers:
  assumes "actor_roles roles = Inr out"
  shows "out = take 10 (filter (\<lambda>r. performer_role r = Inr True) roles)
         \<and> length out \<le> 10
         \<and> (\<forall>r\<in>set out. r \<in> set roles \<and>
              js_get r ''role'' \<noteq> Inr (JStr ''Director'') \<and> js_get r ''role'' \<noteq> Inr (JStr ''Writer''))"
proof -
  have out: "out = take 10 (filter (\<lambda>r. performer_role r = Inr True) roles)"
    using assms by (rule actor_roles_Inr)
  have role: "r \<in> set roles \<and>
      js_get r ''role'' \<noteq> Inr (JStr ''Director'') \<and> js_get r ''role'' \<noteq> Inr (JStr ''Writer'')"
    if "r \<in> set out" for r
  proof -
    from that out have "r \<in> set roles" and p: "performer_role r = Inr True"
      by (blast dest: set_take_filterD)+
    from p obtain v where "js_get r ''role'' = Inr v" "v \<noteq> JStr ''Director''" "v \<noteq> JStr ''Writer''"
      unfolding performer_role_True by blast
    with \<open>r \<in> set roles\<close> show ?thesis by simp
  qed
  have "length out \<le> 10" using out by simp
  with out role show ?thesis by blast
qed

theorem actor_roles_performers_witness:
  "actor_roles [JObj [(''role'', JStr ''Director'')], JObj [(''role'', JStr ''Actor'')],
                JObj [(''role'', JStr ''Writer'')]] = Inr [JObj [(''role'', JStr ''Actor'')]]
   \<and> length [JObj [(''role'', JStr ''Actor'')]] \<le> 10"
proof -
  have h: "actor_roles [JObj [(''role'', JStr ''Director'')], JObj [(''role'', JStr ''Actor'')],
                JObj [(''role'', JStr ''Writer'')]] = Inr [JObj [(''role'', JStr ''Actor'')]]"
    by (simp add: actor_roles_def performer_role_def)
  show ?thesis using actor_roles_performers [OF h] h by simp
qed

section \<open>Lemmas: fan-out\<close>

lemma fetch_actor_details_snd: "snd (fetch_actor_details a api) = [actor_by_id_path a]"
  by (simp add: fetch_actor_details_def fetch_json_unguarded_with_def)

lemma enrich_role_trace: "length (snd (enrich_role r api)) \<le> 1"
  by (cases "role_actor_id r")
     (simp_all add: enrich_role_def pbind_snd lift_js_fst fetch_actor_details_snd
        split: exec.split)

lemma enrich_cast_bound:
  "length (snd (pbind (lift_js (actor_roles rs)) enrich_cast api)) \<le> 10"
proof (cases "actor_roles rs")
  case (Inl e)
  then show ?thesis by (simp add: pbind_snd lift_js_fst)
next
  case (Inr out)
  then have "length out \<le> 10" using actor_roles_Inr [OF Inr] by simp
  moreover have "length (snd (map_prog enrich_role out api)) \<le> length out"
    by (rule map_prog_trace_bound) (rule enrich_role_trace)
  ultimately show ?thesis
    using Inr by (simp add: pbind_snd lift_js_fst enrich_cast_def)
qed

lemma enrich_role_ok:
  assumes "role_actor_id r = Inr a" and "api (actor_by_id_path a) = Parsed doc"
    and "js_get doc ''results'' = Inr det" and "cast_entry det = Inr e"
  shows "enrich_role r api = (Done e, [actor_by_id_path a])"
  using assms
  by (simp add: enrich_role_def fetch_actor_details_def fetch_json_unguarded_with_def
                prog_simps lift_js_apply)

lemma enrich_role_unreachable:
  assumes "role_actor_id r = Inr a" and "api (actor_by_id_path a) = Unreachable"
  shows "enrich_role r api = (Threw NetError, [actor_by_id_path a])"
  using assms
  by (simp add: enrich_role_def fetch_actor_details_def fetch_json_unguarded_with_def
                prog_simps lift_js_apply)

section \<open>Lemmas: upstream paths\<close>

text \<open>
  C20. Encoding round trip: the name lookup path is the fixed prefix, one segment and a closing slash; the segment contains no slash, so the name cannot add or remove path segments, and decoding it gives back exactly the name the client sent.
\<close>

theorem actor_id_by_name_path_segment:
  "\<exists>seg. actor_id_by_name_path name = ''/actor/imdb_id_byName/'' @ seg @ ''/''
         \<and> CHR ''/'' \<notin> set seg \<and> decodeURIComponent seg = Some name"
  by (intro exI [of _ "encodeURIComponent name"])
     (simp add: actor_id_by_name_path_def slash_not_encoded decode_encode)


end
