(* ===== verification/SearchRoutes.thy ===== *)
theory SearchRoutes
  imports Aggregation
begin

text \<open>
  The handlers of \<open>src/back/apiRequest\<close>, mounted by \<open>server.js\<close> under
  \<open>/api/search\<close>: one definition per \<open>router.get\<close>, each a \<open>response prog\<close> over the
  upstream. The aggregators resolve a name or title, then fetch the dependent
  resources: \<open>getActorInfo\<close> (actor details), \<open>listFilmByActor\<close> and
  \<open>listSerieByActor\<close> (filmography, one request per film or series, failures skipped),
  \<open>castByMovie\<close> (movie details and raw cast), \<open>castInfoByMovie\<close> (cast extraction
  and one request per actor, a failure aborts). The relays forward one request and send
  its document back.
\<close>

section \<open>Messages\<close>

definition msg_actor_not_found :: string where
  "msg_actor_not_found = ''Acteur non trouv'' @ [e_acute] @ ''.''"

definition msg_actor_not_found_serie :: string where
  "msg_actor_not_found_serie = ''Acteur non trouv'' @ [e_acute]"

definition msg_treat_request :: string where
  "msg_treat_request = ''Erreur lors du traitement de la requ'' @ [e_circ] @ ''te.''"

definition msg_treat_response :: string where
  "msg_treat_response = ''Erreur lors du traitement de la r'' @ [e_acute] @ ''ponse.''"

definition msg_fetch_data :: string where
  "msg_fetch_data = ''Erreur lors de la r'' @ [e_acute] @ ''cup'' @ [e_acute] @ ''ration des donn''
     @ [e_acute] @ ''es''"

definition msg_no_film :: string where
  "msg_no_film = ''Aucun film trouv'' @ [e_acute] @ '' pour cet acteur.''"

definition msg_no_serie :: string where
  "msg_no_serie = ''Aucune s'' @ [e_acute] @ ''rie trouv'' @ [e_acute] @ ''e pour cet acteur.''"

definition msg_film_not_found :: string where
  "msg_film_not_found = ''Film non trouv'' @ [e_acute]"

definition msg_internal :: string where
  "msg_internal = ''Erreur interne du serveur''"

definition msg_comm :: string where
  "msg_comm = ''Erreur lors de la communication avec l'API externe''"

definition msg_parse_api :: string where
  "msg_parse_api = ''Erreur lors de l'analyse de la r'' @ [e_acute] @ ''ponse de l'API.''"

section \<open>Relays\<close>

text \<open>
  A handler that answers from inside the request's callbacks: the \<open>'error'\<close> event
  sends 500, the \<open>'end'\<close> event parses and sends 200. With \<open>Some m\<close> the parse is in a
  \<open>try\<close> whose \<open>catch\<close> sends 500 with message \<open>m\<close>; with \<open>None\<close> it is not, and a
  body that does not parse crashes the process. The handlers' outer \<open>try\<close> only guards
  the construction of the request, which cannot throw.
\<close>

definition relay :: "string option \<Rightarrow> string \<Rightarrow> response prog" where
  "relay on_parse_error path =
     (\<lambda>api. (case api path of
                Unreachable \<Rightarrow> Done (Reply 500 (message msg_comm))
              | Malformed \<Rightarrow>
                  (case on_parse_error of
                     None \<Rightarrow> Crashed
                   | Some m \<Rightarrow> Done (Reply 500 (message m)))
              | Parsed v \<Rightarrow> Done (Reply 200 v), [path]))"

text \<open>\<open>GET /search/film/:film\<close> (\<open>retrievegetMovieIdByTitle.js\<close>).\<close>

definition movieIdByTitle :: "string \<Rightarrow> response prog" where
  "movieIdByTitle film = relay None (movie_id_by_title_path film)"

text \<open>\<open>GET /search/film/idFilm/:id\<close>: \<open>req.params.id.trim()\<close>, not encoded.\<close>

definition movieById :: "string \<Rightarrow> response prog" where
  "movieById param_id = relay None (''/movie/id/'' @ js_trim param_id @ ''/'')"

text \<open>\<open>GET /search/serie/:serie\<close> (\<open>retrievegetSeriesIdByTitle.js\<close>).\<close>

definition seriesIdByTitle :: "string \<Rightarrow> response prog" where
  "seriesIdByTitle serie = relay None (''/series/idbyTitle/'' @ encodeURIComponent serie @ ''/'')"

text \<open>\<open>GET /search/serie/idSerie/:id\<close>: the code requests the movie resource.\<close>

definition seriesById :: "string \<Rightarrow> response prog" where
  "seriesById param_id = relay None (''/movie/id/'' @ js_trim param_id @ ''/'')"

text \<open>\<open>GET /search/genre\<close> and \<open>GET /search/genre/:genre\<close> (\<open>listGetGenre.js\<close>).\<close>

definition genres :: "response prog" where
  "genres = relay (Some msg_parse_api) ''/genres/''"

definition moviesByGenre :: "string \<Rightarrow> response prog" where
  "moviesByGenre genre = relay (Some msg_parse_api) (''/movie/byGen/'' @ encodeURIComponent genre @ ''/'')"

text \<open>\<open>GET /search/seriebyrating\<close> (\<open>listgetSeriesOrderByRatings.js\<close>).\<close>

definition seriesByRating :: "response prog" where
  "seriesByRating = relay (Some msg_parse_api) ''/series/order/byRating/''"

text \<open>\<open>GET /search/filmbyactorname/id/:id\<close> (\<open>listFilmByActor.js\<close>): actor details.\<close>

definition actorById :: "string \<Rightarrow> response prog" where
  "actorById param_id =
     relay (Some msg_treat_response) (''/actor/id/'' @ encodeURIComponent param_id @ ''/'')"

section \<open>Aggregators\<close>

text \<open>\<open>GET /search/actorDetail/:name\<close> (\<open>getActorInfo.js\<close>).\<close>

definition getActorInfo :: "string \<Rightarrow> response prog" where
  "getActorInfo name =
     try_catch
       (pbind (fetch_json (actor_id_by_name_path name)) (\<lambda>actorId.
        pbind (lift_js (first_result_id actorId)) (\<lambda>imdbId.
        if \<not> js_truthy imdbId then ret (Reply 404 (message msg_actor_not_found))
        else pbind (fetch_json (actor_by_id_path imdbId)) (\<lambda>actorDetail.
             ret (Reply 200 actorDetail)))))
       (\<lambda>err. ret (Reply 500 (message msg_treat_request)))"

text \<open>\<open>GET /search/filmbyactorname/:name\<close> (\<open>listFilmByActor.js\<close>).\<close>

definition listFilmByActor :: "string \<Rightarrow> response prog" where
  "listFilmByActor name =
     try_catch
       (pbind (fetch_json (actor_id_by_name_path name)) (\<lambda>actorId.
        pbind (lift_js (first_result_id actorId)) (\<lambda>imdbId.
        if \<not> js_truthy imdbId then ret (Reply 404 (message msg_actor_not_found))
        else pbind (fetch_json (movie_by_actor_path imdbId)) (\<lambda>filmByActor.
          case results_array filmByActor of
            None \<Rightarrow> ret (Reply 404 (message msg_no_film))
          | Some results \<Rightarrow>
              pbind (lift_js (first_ids results)) (\<lambda>idFilm.
              pbind (collect_skip (\<lambda>i. fetch_json (movie_by_id_path i)) idFilm) (\<lambda>films.
              ret (Reply 200 (JObj [(''resultat'',
                     JObj [(''film'', JArr films), (''idActor'', imdbId)])]))))))))
       (\<lambda>err. ret (Reply 500 (message msg_fetch_data)))"

text \<open>\<open>GET /search/seriebyactorname/:name\<close> (\<open>listSerieByActor.js\<close>): every parse unguarded.\<close>

definition listSerieByActor :: "string \<Rightarrow> response prog" where
  "listSerieByActor name =
     try_catch
       (pbind (fetch_json_unguarded (actor_id_by_name_path name)) (\<lambda>actorId.
        pbind (lift_js (first_result_id actorId)) (\<lambda>imdbId.
        if \<not> js_truthy imdbId then ret (Reply 404 (message msg_actor_not_found_serie))
        else pbind (fetch_json_unguarded (series_by_actor_path imdbId)) (\<lambda>serieByActor.
          case results_array serieByActor of
            None \<Rightarrow> ret (Reply 404 (message msg_no_serie))
          | Some results \<Rightarrow>
              pbind (lift_js (first_ids results)) (\<lambda>idSerie.
              pbind (collect_skip (\<lambda>i. fetch_json_unguarded (series_by_id_path i)) idSerie)
                (\<lambda>series. ret (Reply 200 (JObj [(''resultat'', JArr series)]))))))))
       (\<lambda>err. ret (Reply 500 (message msg_fetch_data)))"

text \<open>\<open>GET /search/castByMovie/:film\<close> (\<open>movie.js\<close>): details and the raw cast payload.\<close>

definition castByMovie :: "string \<Rightarrow> response prog" where
  "castByMovie film =
     try_catch
       (pbind (fetch_json_unguarded (movie_id_by_title_path film)) (\<lambda>responseFilm.
        pbind (lift_js (first_result_id responseFilm)) (\<lambda>imdbId.
        if js_truthy imdbId then
          pbind (fetch_json_unguarded (movie_by_id_path imdbId)) (\<lambda>responseId.
          pbind (fetch_json_unguarded (movie_cast_path imdbId)) (\<lambda>responseCast.
          ret (Reply 200 (JObj [(''imdb_id'', imdbId), (''filmDetails'', responseId),
                                (''cast'', responseCast)]))))
        else ret (Reply 404 (message msg_film_not_found)))))
       (\<lambda>err. ret (Reply 500 (message msg_internal)))"

text \<open>
  \<open>GET /search/castInfoByMovie/:imdbId\<close> (\<open>getActorImage.js\<close>): the cast payload,
  its performers (at most ten), one actor request per performer in order.
\<close>

definition castInfoByMovie :: "string \<Rightarrow> response prog" where
  "castInfoByMovie imdbId =
     try_catch
       (pbind (fetch_json_unguarded (movie_cast_path (JStr imdbId))) (\<lambda>responseCast.
        pbind (lift_js (cast_roles responseCast)) (\<lambda>roles.
        pbind (case roles of
                 None \<Rightarrow> ret []
               | Some rs \<Rightarrow> pbind (lift_js (actor_roles rs)) enrich_cast) (\<lambda>castDetails.
        ret (Reply 200 (JObj [(''imdb_id'', JStr imdbId), (''cast'', JArr castDetails)]))))))
       (\<lambda>err. ret (Reply 500 (message msg_internal)))"

section \<open>Lemmas: resolving aggregators\<close>

text \<open>
  C4. Not found short-circuits: when the name lookup of GET /search/actorDetail/:name yields no identifier (no candidate, or a first candidate without imdb_id), the handler answers 404 with the message "Acteur non trouve." and issues no request after the lookup.
\<close>

theorem getActorInfo_not_found:
  assumes "api (actor_id_by_name_path name) = Parsed v"
    and "first_result_id v = Inr i" and "\<not> js_truthy i"
  shows "getActorInfo name api =
           (Done (Reply 404 (message msg_actor_not_found)), [actor_id_by_name_path name])"
  using assms by (simp add: getActorInfo_def prog_simps)

theorem getActorInfo_not_found_witness:
  "(\<lambda>p. if p = actor_id_by_name_path ''xqzv'' then Parsed (JObj [(''results'', JArr [])])
        else Unreachable) (actor_id_by_name_path ''xqzv'') = Parsed (JObj [(''results'', JArr [])])
   \<and> first_result_id (JObj [(''results'', JArr [])]) = Inr JUndef \<and> \<not> js_truthy JUndef
   \<and> getActorInfo ''xqzv''
       (\<lambda>p. if p = actor_id_by_name_path ''xqzv'' then Parsed (JObj [(''results'', JArr [])])
            else Unreachable)
     = (Done (Reply 404 (message msg_actor_not_found)), [actor_id_by_name_path ''xqzv''])"
proof -
  have r: "first_result_id (JObj [(''results'', JArr [])]) = Inr JUndef"
    by (simp add: first_result_id_def)
  show ?thesis
    using getActorInfo_not_found [of "\<lambda>p. if p = actor_id_by_name_path ''xqzv''
        then Parsed (JObj [(''results'', JArr [])]) else Unreachable" "''xqzv''"
        "JObj [(''results'', JArr [])]" JUndef] r
    by simp
qed

text \<open>
  C11. Transport failure: when the first upstream request of GET /search/actorDetail/:name fails at the transport level, the handler answers 500 with the generic message "Erreur lors du traitement de la requete." and issues no further request.
\<close>

theorem getActorInfo_unreachable:
  assumes "api (actor_id_by_name_path name) = Unreachable"
  shows "getActorInfo name api =
           (Done (Reply 500 (message msg_treat_request)), [actor_id_by_name_path name])"
  using assms by (simp add: getActorInfo_def prog_simps)

theorem getActorInfo_unreachable_witness:
  "getActorInfo ''x'' (\<lambda>p. Unreachable) =
     (Done (Reply 500 (message msg_treat_request)), [actor_id_by_name_path ''x''])"
  by (rule getActorInfo_unreachable) simp

lemma getActorInfo_found:
  assumes "api (actor_id_by_name_path name) = Parsed v"
    and "first_result_id v = Inr i" and "js_truthy i"
    and "api (actor_by_id_path i) = Parsed d"
  shows "getActorInfo name api =
           (Done (Reply 200 d), [actor_id_by_name_path name, actor_by_id_path i])"
  using assms by (simp add: getActorInfo_def prog_simps)

text \<open>
  C18. Movie with cast: when the title lookup of GET /search/castByMovie/:film finds an identifier and the detail and cast requests return documents, the handler answers 200 with {imdb_id, filmDetails, cast} built from exactly those documents, after exactly the three requests lookup, details, cast.
\<close>

theorem castByMovie_found:
  assumes "api (movie_id_by_title_path film) = Parsed v"
    and "first_result_id v = Inr i" and "js_truthy i"
    and "api (movie_by_id_path i) = Parsed d" and "api (movie_cast_path i) = Parsed c"
  shows "castByMovie film api =
           (Done (Reply 200 (JObj [(''imdb_id'', i), (''filmDetails'', d), (''cast'', c)])),
            [movie_id_by_title_path film, movie_by_id_path i, movie_cast_path i])"
  using assms by (simp add: castByMovie_def prog_simps lift_js_apply)

theorem castByMovie_found_witness:
  "castByMovie ''scream''
     (\<lambda>p. if p = movie_id_by_title_path ''scream''
          then Parsed (JObj [(''results'', JArr [JObj [(''imdb_id'', JStr ''tt0117571'')]])])
          else if p = movie_by_id_path (JStr ''tt0117571'')
          then Parsed (JObj [(''title'', JStr ''Scream'')])
          else if p = movie_cast_path (JStr ''tt0117571'')
          then Parsed (JObj [(''results'', JObj [(''roles'', JArr [])])])
          else Unreachable)
   = (Done (Reply 200 (JObj [(''imdb_id'', JStr ''tt0117571''),
                            (''filmDetails'', JObj [(''title'', JStr ''Scream'')]),
                            (''cast'', JObj [(''results'', JObj [(''roles'', JArr [])])])])),
      [movie_id_by_title_path ''scream'', movie_by_id_path (JStr ''tt0117571''),
       movie_cast_path (JStr ''tt0117571'')])"
proof -
  have r: "first_result_id (JObj [(''results'', JArr [JObj [(''imdb_id'', JStr ''tt0117571'')]])])
           = Inr (JStr ''tt0117571'')"
    by (simp add: first_result_id_def js_idx_JArr)
  have n1: "movie_by_id_path (JStr ''tt0117571'') \<noteq> movie_id_by_title_path ''scream''"
    by (simp add: movie_by_id_path_def movie_id_by_title_path_def)
  have n2: "movie_cast_path (JStr ''tt0117571'') \<noteq> movie_id_by_title_path ''scream''"
    by (simp add: movie_cast_path_def movie_id_by_title_path_def)
  have n3: "movie_cast_path (JStr ''tt0117571'') \<noteq> movie_by_id_path (JStr ''tt0117571'')"
    by (simp add: movie_cast_path_def movie_by_id_path_def)
  show ?thesis
    using castByMovie_found [OF _ r] n1 n2 n3 by simp
qed

text \<open>
  C12. Malformed upstream body in movie.js: when the title lookup of GET /search/castByMovie/:film returns a body that JSON.parse refuses, the parse throws inside the response stream callback and the process crashes; the request is never answered (the spec asks for a 500).
\<close>

theorem castByMovie_malformed:
  assumes "api (movie_id_by_title_path film) = Malformed"
  shows "castByMovie film api = (Crashed, [movie_id_by_title_path film])"
  using assms by (simp add: castByMovie_def prog_simps)

theorem castByMovie_malformed_witness:
  "castByMovie ''x'' (\<lambda>p. Malformed) = (Crashed, [movie_id_by_title_path ''x''])"
  by (rule castByMovie_malformed) simp

section \<open>Lemmas: filmography handlers\<close>

text \<open>
  C9. Skip-and-continue fan-out: once GET /search/filmbyactorname/:name has the actor identifier and the list of film identifiers, it requests every film once, in list order, and answers 200 with exactly the documents of the film requests that returned a parsed document, in list order; failed requests (transport or parse) are skipped, not null-padded.
\<close>

theorem listFilmByActor_skips_failed:
  assumes "api (actor_id_by_name_path name) = Parsed v"
    and "first_result_id v = Inr i" and "js_truthy i"
    and "api (movie_by_actor_path i) = Parsed w"
    and "results_array w = Some rs" and "first_ids rs = Inr ids"
  shows "listFilmByActor name api =
    (Done (Reply 200 (JObj [(''resultat'', JObj [
        (''film'', JArr [d. Parsed d \<leftarrow> map (\<lambda>x. api (movie_by_id_path x)) ids]),
        (''idActor'', i)])])),
     actor_id_by_name_path name # movie_by_actor_path i # map movie_by_id_path ids)"
proof -
  have "collect_skip (\<lambda>x. fetch_json (movie_by_id_path x)) ids api =
      (Done [d. Parsed d \<leftarrow> map (\<lambda>x. api (movie_by_id_path x)) ids], map movie_by_id_path ids)"
    using collect_skip_refines [of ids "\<lambda>x. fetch_json (movie_by_id_path x)" api]
    by (simp add: fetch_json_no_crash skip_spec_fetch_json fetch_json_apply concat_map_singleton)
  then show ?thesis
    using assms by (simp add: listFilmByActor_def prog_simps lift_js_apply)
qed

theorem listFilmByActor_skips_failed_witness:
  "listFilmByActor ''ann''
     (\<lambda>p. if p = actor_id_by_name_path ''ann'' then Parsed (JObj [(''results'', JArr [JObj [(''imdb_id'', JStr ''nm1'')]])])
          else if p = movie_by_actor_path (JStr ''nm1'') then
            Parsed (JObj [(''results'', JArr [JArr [JObj [(''imdb_id'', JStr ''tt1'')]],
                                              JArr [JObj [(''imdb_id'', JStr ''tt2'')]]])])
          else if p = movie_by_id_path (JStr ''tt1'') then Parsed (JObj [(''title'', JStr ''A'')])
          else Unreachable)
   = (Done (Reply 200 (JObj [(''resultat'', JObj [(''film'', JArr [JObj [(''title'', JStr ''A'')]]),
                                                  (''idActor'', JStr ''nm1'')])])),
      [actor_id_by_name_path ''ann'', movie_by_actor_path (JStr ''nm1''),
       movie_by_id_path (JStr ''tt1''), movie_by_id_path (JStr ''tt2'')])"
proof -
  have r: "first_result_id (JObj [(''results'', JArr [JObj [(''imdb_id'', JStr ''nm1'')]])]) = Inr (JStr ''nm1'')"
    by (simp add: first_result_id_def js_idx_JArr)
  have ra: "results_array (JObj [(''results'', JArr [JArr [JObj [(''imdb_id'', JStr ''tt1'')]],
                                          JArr [JObj [(''imdb_id'', JStr ''tt2'')]]])])
      = Some [JArr [JObj [(''imdb_id'', JStr ''tt1'')]], JArr [JObj [(''imdb_id'', JStr ''tt2'')]]]"
    by (simp add: results_array_def)
  have ids: "first_ids [JArr [JObj [(''imdb_id'', JStr ''tt1'')]], JArr [JObj [(''imdb_id'', JStr ''tt2'')]]]
      = Inr [JStr ''tt1'', JStr ''tt2'']"
    by (simp add: first_ids_def js_idx_JArr)
  have ne: "movie_by_actor_path (JStr ''nm1'') \<noteq> actor_id_by_name_path ''ann''"
    "movie_by_id_path (JStr ''tt1'') \<noteq> actor_id_by_name_path ''ann''"
    "movie_by_id_path (JStr ''tt2'') \<noteq> actor_id_by_name_path ''ann''"
    "movie_by_id_path (JStr ''tt1'') \<noteq> movie_by_actor_path (JStr ''nm1'')"
    "movie_by_id_path (JStr ''tt2'') \<noteq> movie_by_actor_path (JStr ''nm1'')"
    "movie_by_id_path (JStr ''tt2'') \<noteq> movie_by_id_path (JStr ''tt1'')"
    by (simp_all add: movie_by_actor_path_def actor_id_by_name_path_def movie_by_id_path_def)
  show ?thesis
    using listFilmByActor_skips_failed [OF _ r _ _ ra ids] ne by simp
qed

text \<open>
  C13. Series fan-out does not skip malformed bodies: in GET /search/seriebyactorname/:name, one series request whose body does not parse crashes the process, although the loop catches and skips rejected requests.
\<close>

theorem listSerieByActor_malformed_crash:
  assumes "api (actor_id_by_name_path name) = Parsed v"
    and "first_result_id v = Inr i" and "js_truthy i"
    and "api (series_by_actor_path i) = Parsed w"
    and "results_array w = Some rs" and "first_ids rs = Inr ids"
    and "x \<in> set ids" and "api (series_by_id_path x) = Malformed"
  shows "fst (listSerieByActor name api) = Crashed"
proof -
  have "fst (collect_skip (\<lambda>y. fetch_json_unguarded (series_by_id_path y)) ids api) = Crashed"
    using assms(7,8) by (intro collect_skip_crash [of x]) (simp_all add: no_crash_def fetch_json_unguarded_crash)
  then show ?thesis
    using assms(1-6)
    by (simp add: listSerieByActor_def try_catch_fst pbind_fst lift_js_fst fetch_json_unguarded_apply)
qed

theorem listSerieByActor_malformed_crash_witness:
  "fst (listSerieByActor ''ann''
     (\<lambda>p. if p = actor_id_by_name_path ''ann'' then Parsed (JObj [(''results'', JArr [JObj [(''imdb_id'', JStr ''nm1'')]])])
          else if p = series_by_actor_path (JStr ''nm1'') then
            Parsed (JObj [(''results'', JArr [JArr [JObj [(''imdb_id'', JStr ''tv1'')]]])])
          else Malformed)) = Crashed"
proof -
  have r: "first_result_id (JObj [(''results'', JArr [JObj [(''imdb_id'', JStr ''nm1'')]])]) = Inr (JStr ''nm1'')"
    by (simp add: first_result_id_def js_idx_JArr)
  have ra: "results_array (JObj [(''results'', JArr [JArr [JObj [(''imdb_id'', JStr ''tv1'')]]])])
      = Some [JArr [JObj [(''imdb_id'', JStr ''tv1'')]]]"
    by (simp add: results_array_def)
  have ids: "first_ids [JArr [JObj [(''imdb_id'', JStr ''tv1'')]]] = Inr [JStr ''tv1'']"
    by (simp add: first_ids_def js_idx_JArr)
  have ne: "series_by_actor_path (JStr ''nm1'') \<noteq> actor_id_by_name_path ''ann''"
    "series_by_id_path (JStr ''tv1'') \<noteq> actor_id_by_name_path ''ann''"
    "series_by_id_path (JStr ''tv1'') \<noteq> series_by_actor_path (JStr ''nm1'')"
    by (simp_all add: series_by_actor_path_def actor_id_by_name_path_def series_by_id_path_def)
  show ?thesis
    using listSerieByActor_malformed_crash [OF _ r _ _ ra ids, where x = "JStr ''tv1''"] ne by simp
qed

section \<open>Lemmas: fan-out of castInfoByMovie\<close>

text \<open>
  C5. Bounded fan-out: GET /search/castInfoByMovie/:imdbId issues at most eleven upstream requests, whatever the upstream answers: the cast request and one actor request for each of at most ten extracted performers.
\<close>

theorem castInfoByMovie_request_bound: "length (snd (castInfoByMovie imdbId api)) \<le> 11"
proof -
  let ?p = "movie_cast_path (JStr imdbId)"
  let ?fan = "\<lambda>roles. case roles of None \<Rightarrow> ret [] | Some rs \<Rightarrow> pbind (lift_js (actor_roles rs)) enrich_cast"
  have fan: "length (snd (?fan roles api)) \<le> 10" for roles
    using enrich_cast_bound by (cases roles) (simp_all add: ret_apply)
  have "length (snd (fetch_json_unguarded ?p api)) = 1"
    by (simp add: fetch_json_unguarded_apply)
  then show ?thesis
    using fan
    by (simp add: castInfoByMovie_def try_catch_snd pbind_snd lift_js_fst ret_apply
             split: exec.split sum.split)
qed

text \<open>
  C6. Ordered enrichment: when every extracted performer is enriched successfully, GET /search/castInfoByMovie/:imdbId answers 200 with one {name, image} entry per performer in extraction order, and its requests are the cast request followed by one actor request per performer, in the same order.
\<close>

theorem castInfoByMovie_fanout:
  assumes "api (movie_cast_path (JStr imdbId)) = Parsed rc"
    and "cast_roles rc = Inr (Some rs)" and "actor_roles rs = Inr out"
    and "\<And>r. r \<in> set out \<Longrightarrow> role_actor_id r = Inr (aid r)
            \<and> api (actor_by_id_path (aid r)) = Parsed (doc r)
            \<and> js_get (doc r) ''results'' = Inr (det r) \<and> cast_entry (det r) = Inr (entry r)"
  shows "castInfoByMovie imdbId api =
           (Done (Reply 200 (JObj [(''imdb_id'', JStr imdbId), (''cast'', JArr (map entry out))])),
            movie_cast_path (JStr imdbId) # map (\<lambda>r. actor_by_id_path (aid r)) out)"
proof -
  have each: "enrich_role r api = (Done (entry r), [actor_by_id_path (aid r)])" if "r \<in> set out" for r
    using assms(4) [OF that] by (blast intro: enrich_role_ok)
  have tr: "map (\<lambda>r. snd (enrich_role r api)) out = map (\<lambda>r. [actor_by_id_path (aid r)]) out"
    by (rule map_cong) (simp_all add: each)
  have "enrich_cast out api = (Done (map entry out), map (\<lambda>r. actor_by_id_path (aid r)) out)"
    using map_prog_Done [of out enrich_role api entry] each tr
    by (simp add: enrich_cast_def concat_map_singleton)
  then show ?thesis
    using assms(1-3) by (simp add: castInfoByMovie_def prog_simps lift_js_apply)
qed

theorem castInfoByMovie_fanout_witness:
  "castInfoByMovie ''tt1''
     (\<lambda>p. if p = movie_cast_path (JStr ''tt1'') then
            Parsed (JObj [(''results'', JObj [(''roles'', JArr
              [JObj [(''role'', JStr ''Director''), (''actor'', JObj [(''imdb_id'', JStr ''nm0'')])],
               JObj [(''role'', JStr ''Actor''), (''actor'', JObj [(''imdb_id'', JStr ''nm1'')])]])])])
          else if p = actor_by_id_path (JStr ''nm1'') then
            Parsed (JObj [(''results'', JObj [(''name'', JStr ''Ann''), (''image_url'', JStr ''u'')])])
          else Unreachable)
   = (Done (Reply 200 (JObj [(''imdb_id'', JStr ''tt1''),
        (''cast'', JArr [JObj [(''name'', JStr ''Ann''), (''image'', JStr ''u'')]])])),
      [movie_cast_path (JStr ''tt1''), actor_by_id_path (JStr ''nm1'')])"
proof -
  let ?r1 = "JObj [(''role'', JStr ''Actor''), (''actor'', JObj [(''imdb_id'', JStr ''nm1'')])]"
  let ?rs = "[JObj [(''role'', JStr ''Director''), (''actor'', JObj [(''imdb_id'', JStr ''nm0'')])], ?r1]"
  let ?det = "JObj [(''name'', JStr ''Ann''), (''image_url'', JStr ''u'')]"
  have ne: "movie_cast_path (JStr ''tt1'') \<noteq> actor_by_id_path (JStr ''nm1'')"
    by (simp add: movie_cast_path_def actor_by_id_path_def)
  have roles: "actor_roles ?rs = Inr [?r1]" by (simp add: actor_roles_def performer_role_def)
  have cr: "cast_roles (JObj [(''results'', JObj [(''roles'', JArr ?rs)])]) = Inr (Some ?rs)"
    by (simp add: cast_roles_def)
  show ?thesis
    using castInfoByMovie_fanout [OF _ cr roles, where aid = "\<lambda>_. JStr ''nm1''"
        and doc = "\<lambda>_. JObj [(''results'', ?det)]" and det = "\<lambda>_. ?det"
        and entry = "\<lambda>_. JObj [(''name'', JStr ''Ann''), (''image'', JStr ''u'')]"] ne
    by (simp add: role_actor_id_def cast_entry_def)
qed

text \<open>
  C10. Abort-on-failure fan-out: in GET /search/castInfoByMovie/:imdbId, the first performer whose actor request fails at the transport level fails the whole request with 500, after the actor requests of the performers before it and its own, and no request for the performers after it.
\<close>

theorem castInfoByMovie_abort:
  assumes "api (movie_cast_path (JStr imdbId)) = Parsed rc"
    and "cast_roles rc = Inr (Some rs)" and "actor_roles rs = Inr (pre @ r # post)"
    and "\<And>q. q \<in> set pre \<Longrightarrow> role_actor_id q = Inr (aid q)
            \<and> api (actor_by_id_path (aid q)) = Parsed (doc q)
            \<and> js_get (doc q) ''results'' = Inr (det q) \<and> cast_entry (det q) = Inr (entry q)"
    and "role_actor_id r = Inr a" and "api (actor_by_id_path a) = Unreachable"
  shows "castInfoByMovie imdbId api =
           (Done (Reply 500 (message msg_internal)),
            movie_cast_path (JStr imdbId) # map (\<lambda>q. actor_by_id_path (aid q)) pre
              @ [actor_by_id_path a])"
proof -
  have each: "enrich_role q api = (Done (entry q), [actor_by_id_path (aid q)])" if "q \<in> set pre" for q
    using assms(4) [OF that] by (blast intro: enrich_role_ok)
  have tr: "map (\<lambda>q. snd (enrich_role q api)) pre = map (\<lambda>q. [actor_by_id_path (aid q)]) pre"
    by (rule map_cong) (simp_all add: each)
  have ab: "enrich_role r api = (Threw NetError, [actor_by_id_path a])"
    using assms(5,6) by (rule enrich_role_unreachable)
  have "enrich_cast (pre @ r # post) api =
      (Threw NetError, map (\<lambda>q. actor_by_id_path (aid q)) pre @ [actor_by_id_path a])"
    using map_prog_abort [of pre enrich_role api entry r NetError post] each ab tr
    by (simp add: enrich_cast_def concat_map_singleton)
  then show ?thesis
    using assms(1-3) by (simp add: castInfoByMovie_def prog_simps lift_js_apply)
qed

theorem castInfoByMovie_abort_witness:
  "castInfoByMovie ''tt3''
     (\<lambda>p. if p = movie_cast_path (JStr ''tt3'') then
            Parsed (JObj [(''results'', JObj [(''roles'', JArr
              [JObj [(''role'', JStr ''Actor''), (''actor'', JObj [(''imdb_id'', JStr ''nm1'')])]])])])
          else Unreachable)
   = (Done (Reply 500 (message msg_internal)),
      [movie_cast_path (JStr ''tt3''), actor_by_id_path (JStr ''nm1'')])"
proof -
  let ?r = "JObj [(''role'', JStr ''Actor''), (''actor'', JObj [(''imdb_id'', JStr ''nm1'')])]"
  have cr: "cast_roles (JObj [(''results'', JObj [(''roles'', JArr [?r])])]) = Inr (Some [?r])"
    by (simp add: cast_roles_def)
  have ne: "actor_by_id_path (JStr ''nm1'') \<noteq> movie_cast_path (JStr ''tt3'')"
    by (simp add: actor_by_id_path_def movie_cast_path_def)
  have ra: "role_actor_id ?r = Inr (JStr ''nm1'')" by (simp add: role_actor_id_def)
  have ar: "actor_roles [?r] = Inr ([] @ ?r # [])" by (simp add: actor_roles_def performer_role_def)
  show ?thesis
    using castInfoByMovie_abort [OF _ cr ar _ ra, where aid = "\<lambda>_. JUndef" and doc = "\<lambda>_. JUndef"
        and det = "\<lambda>_. JUndef" and entry = "\<lambda>_. JUndef"] ne
    by simp
qed

text \<open>
  C19. Cast payload without results.roles: GET /search/castInfoByMovie/:imdbId answers 200 with an empty cast list after the single cast request; no enrichment is attempted.
\<close>

theorem castInfoByMovie_no_roles:
  assumes "api (movie_cast_path (JStr imdbId)) = Parsed rc" and "cast_roles rc = Inr None"
  shows "castInfoByMovie imdbId api =
           (Done (Reply 200 (JObj [(''imdb_id'', JStr imdbId), (''cast'', JArr [])])),
            [movie_cast_path (JStr imdbId)])"
  using assms by (simp add: castInfoByMovie_def prog_simps lift_js_apply)

theorem castInfoByMovie_no_roles_witness:
  "cast_roles (JObj [(''results'', JObj [])]) = Inr None
   \<and> castInfoByMovie ''tt2'' (\<lambda>p. Parsed (JObj [(''results'', JObj [])])) =
       (Done (Reply 200 (JObj [(''imdb_id'', JStr ''tt2''), (''cast'', JArr [])])),
        [movie_cast_path (JStr ''tt2'')])"
proof -
  have h: "cast_roles (JObj [(''results'', JObj [])]) = Inr None" by (simp add: cast_roles_def)
  show ?thesis using castInfoByMovie_no_roles [OF _ h, of "\<lambda>p. Parsed (JObj [(''results'', JObj [])])"] h
    by simp
qed

end
