(* ===== verification/UserLists.thy ===== *)
theory UserLists
  imports Accounts
begin

text \<open>
  The favourite and watch-history routes of \<open>src/back/routes/favoris.js\<close> and
  \<open>src/back/routes/historique.js\<close>, on the tables \<open>favori\<close> and \<open>historique\<close>
  (the record \<open>lists\<close>). Both POST handlers check for an identical row with a
  \<open>SELECT\<close> and then \<open>INSERT\<close>; they are modelled as a decision on the state the
  \<open>SELECT\<close> reads and a write (\<open>handled\<close> of \<open>Accounts\<close>).

  Values are bound as \<open>mysql2\<close> binds them: \<open>undefined\<close> and \<open>null\<close> as \<open>NULL\<close>, a
  boolean as 1 or 0, a number or a string as itself, a one-element array as its element;
  other arrays and objects, which \<open>mysql2\<close> expands into SQL lists or assignments that
  the statements cannot use, as a failing statement. Rows store the bound values; the SQL
  comparison \<open>=\<close> is never true when a side is \<open>NULL\<close>, and is otherwise the equality
  of the values (MySQL's conversion between strings and numbers of different kinds is not
  modelled; the schema is not in the repository, and no NOT NULL or UNIQUE constraint of it
  is assumed).
\<close>

section \<open>Messages\<close>

definition msg_db_connection_ase :: string where
  "msg_db_connection_ase = ''Erreur de connexion '' @ [a_grave] @ '' la ase de donn'' @ [e_acute] @ ''es''"

definition msg_internal_server :: string where
  "msg_internal_server = ''Erreur interne du serveur.''"

definition msg_favourite_exists :: string where
  "msg_favourite_exists = ''Le film est d'' @ [e_grave] @ ''ja dans vos favoris.''"

definition msg_favourite_added :: string where
  "msg_favourite_added = ''Film ajout'' @ [e_acute] @ '' aux favoris avec succ'' @ [e_grave] @ ''s !''"

definition msg_no_favourite :: string where
  "msg_no_favourite = ''Aucun film trouv'' @ [e_acute] @ '' trouv'' @ [e_acute] @ '' pour cet utilisateur.''"

definition msg_history_exists :: string where
  "msg_history_exists = ''Le film est d'' @ [e_grave] @ ''ja dans votre historique.''"

definition msg_history_added :: string where
  "msg_history_added = ''Film ajout'' @ [e_acute] @ '' a l'historique avec succ'' @ [e_grave] @ ''s !''"

definition msg_no_history :: string where
  "msg_no_history = ''Aucun film trouv'' @ [e_acute] @ '' pour cet utilisateur.''"

section \<open>SQL values\<close>

text \<open>The value \<open>mysql2\<close> binds for a parameter of \<open>db.query(sql, [...])\<close>.\<close>

fun sql_param :: "jsval \<Rightarrow> jsval js" where
  "sql_param JUndef = Inr JNull"
| "sql_param JNull = Inr JNull"
| "sql_param (JBool b) = Inr (JNum (if b then 1 else 0))"
| "sql_param (JNum n) = Inr (JNum n)"
| "sql_param (JStr s) = Inr (JStr s)"
| "sql_param (JArr [v]) =
     (case v of JArr vs \<Rightarrow> Inl DbError | JObj kvs \<Rightarrow> Inl DbError | _ \<Rightarrow> sql_param v)"
| "sql_param (JArr vs) = Inl DbError"
| "sql_param (JObj kvs) = Inl DbError"

text \<open>\<open>a = b\<close> in a \<open>WHERE\<close>: unknown, hence false, when a side is \<open>NULL\<close>.\<close>

definition sql_eq :: "jsval \<Rightarrow> jsval \<Rightarrow> bool" where
  "sql_eq a b \<longleftrightarrow> a \<noteq> JNull \<and> b \<noteq> JNull \<and> a = b"

section \<open>State\<close>

record fav_row =
  f_user :: jsval
  f_film :: jsval

record hist_row =
  h_user :: jsval
  h_vu :: jsval
  h_film :: jsval
  h_loue :: jsval

record lists =
  favori :: "fav_row list"
  historique :: "hist_row list"

section \<open>Statements\<close>

text \<open>\<open>SELECT * FROM favori WHERE id_user = ? AND id_filmAPI = ?\<close> is non-empty.\<close>

definition fav_match :: "jsval \<Rightarrow> jsval \<Rightarrow> fav_row \<Rightarrow> bool" where
  "fav_match uid fid r \<longleftrightarrow> sql_eq (f_user r) uid \<and> sql_eq (f_film r) fid"

definition insert_favori :: "jsval \<Rightarrow> jsval \<Rightarrow> lists \<Rightarrow> lists" where
  "insert_favori uid fid s = s\<lparr>favori := favori s @ [\<lparr>f_user = uid, f_film = fid\<rparr>]\<rparr>"

definition fav_json :: "fav_row \<Rightarrow> jsval" where
  "fav_json r = JObj [(''id_user'', f_user r), (''id_filmAPI'', f_film r)]"

text \<open>\<open>SELECT * FROM historique WHERE id_user = ? AND filmVu = ? AND id_filmAPI = ? AND
  loueAchat = ?\<close> is non-empty.\<close>

definition hist_match :: "jsval \<Rightarrow> jsval \<Rightarrow> jsval \<Rightarrow> jsval \<Rightarrow> hist_row \<Rightarrow> bool" where
  "hist_match uid vu fid la r \<longleftrightarrow>
     sql_eq (h_user r) uid \<and> sql_eq (h_vu r) vu \<and> sql_eq (h_film r) fid \<and> sql_eq (h_loue r) la"

definition insert_historique :: "jsval \<Rightarrow> jsval \<Rightarrow> jsval \<Rightarrow> jsval \<Rightarrow> lists \<Rightarrow> lists" where
  "insert_historique uid vu fid la s =
     s\<lparr>historique := historique s @ [\<lparr>h_user = uid, h_vu = vu, h_film = fid, h_loue = la\<rparr>]\<rparr>"

definition hist_json :: "hist_row \<Rightarrow> jsval" where
  "hist_json r =
     JObj [(''id_user'', h_user r), (''filmVu'', h_vu r), (''id_filmAPI'', h_film r),
           (''loueAchat'', h_loue r)]"

section \<open>Routes\<close>

text \<open>\<open>POST /favoris/:id\<close> (favoris.js, lines 68-86): the identifier is the raw path string.\<close>

definition add_favori_decide :: "env \<Rightarrow> string \<Rightarrow> jsval \<Rightarrow> lists \<Rightarrow> lists handled" where
  "add_favori_decide e p body s =
     (if \<not> db_up e then Answer (Reply 500 (message msg_db_connection))
      else catch_answer (\<lambda>err. Reply 500 (message msg_internal_server)) (
        sbind (js_get body ''id_filmAPI'') (\<lambda>id_filmAPI.
        sbind (sql_param (JStr p)) (\<lambda>uid.
        sbind (sql_param id_filmAPI) (\<lambda>fid.
        if list_ex (fav_match uid fid) (favori s)
        then Inr (Answer (Reply 400 (message msg_favourite_exists)))
        else Inr (Commit (Reply 201 (message msg_favourite_added)) (insert_favori uid fid)))))))"

definition add_favori :: "env \<Rightarrow> string \<Rightarrow> jsval \<Rightarrow> lists \<Rightarrow> response \<times> lists" where
  "add_favori e p body s = atomically (add_favori_decide e p body s) s"

text \<open>\<open>GET /favorisTout/:id\<close> (favoris.js, lines 145-162).\<close>

definition favoris_tout :: "env \<Rightarrow> string \<Rightarrow> lists \<Rightarrow> response" where
  "favoris_tout e p s =
     (if \<not> db_up e then Reply 500 (message msg_db_connection_ase)
      else case filter (\<lambda>r. sql_eq (f_user r) (JStr p)) (favori s) of
        [] \<Rightarrow> Reply 404 (message msg_no_favourite)
      | rows \<Rightarrow> Reply 200 (JObj [(''favoris'', JArr (map fav_json rows))]))"

text \<open>\<open>POST /historique/:id/\<close> (historique.js, lines 74-104).\<close>

definition add_historique_decide :: "env \<Rightarrow> string \<Rightarrow> jsval \<Rightarrow> lists \<Rightarrow> lists handled" where
  "add_historique_decide e p body s =
     (if \<not> db_up e then Answer (Reply 500 (message msg_db_connection))
      else case parse_user_id p of
        None \<Rightarrow> Answer (Reply 400 (message msg_invalid_id))
      | Some i \<Rightarrow> catch_answer (\<lambda>err. Reply 500 (message msg_internal_server)) (
          sbind (js_get body ''filmVu'') (\<lambda>filmVu.
          sbind (js_get body ''id_filmAPI'') (\<lambda>id_filmAPI.
          sbind (js_get body ''loueAchat'') (\<lambda>loueAchat.
          sbind (sql_param filmVu) (\<lambda>vu.
          sbind (sql_param id_filmAPI) (\<lambda>fid.
          sbind (sql_param loueAchat) (\<lambda>la.
          if list_ex (hist_match (JNum i) vu fid la) (historique s)
          then Inr (Answer (Reply 400 (message msg_history_exists)))
          else Inr (Commit (Reply 201 (message msg_history_added))
                           (insert_historique (JNum i) vu fid la))))))))))"

definition add_historique :: "env \<Rightarrow> string \<Rightarrow> jsval \<Rightarrow> lists \<Rightarrow> response \<times> lists" where
  "add_historique e p body s = atomically (add_historique_decide e p body s) s"

text \<open>\<open>GET /historiqueTout/:id\<close> (historique.js, lines 169-194).\<close>

definition historique_tout :: "env \<Rightarrow> string \<Rightarrow> lists \<Rightarrow> response" where
  "historique_tout e p s =
     (if \<not> db_up e then Reply 500 (message msg_db_connection_ase)
      else case parse_user_id p of
        None \<Rightarrow> Reply 400 (message msg_invalid_id)
      | Some i \<Rightarrow> (case filter (\<lambda>r. sql_eq (h_user r) (JNum i)) (historique s) of
                    [] \<Rightarrow> Reply 404 (message msg_no_history)
                  | rows \<Rightarrow> Reply 200 (JObj [(''historique'', JArr (map hist_json rows))])))"

section \<open>The routers\<close>

datatype lists_request =
    AddFavori string jsval
  | FavorisTout string
  | AddHistorique string jsval
  | HistoriqueTout string

fun lists_route :: "env \<Rightarrow> lists_request \<Rightarrow> lists \<Rightarrow> response \<times> lists" where
  "lists_route e (AddFavori p b) s = add_favori e p b s"
| "lists_route e (FavorisTout p) s = (favoris_tout e p s, s)"
| "lists_route e (AddHistorique p b) s = add_historique e p b s"
| "lists_route e (HistoriqueTout p) s = (historique_tout e p s, s)"

section \<open>No duplicate rows\<close>

text \<open>No two rows of a table match each other in the sense of the handler's \<open>SELECT\<close>.\<close>

fun fav_dup_free :: "fav_row list \<Rightarrow> bool" where
  "fav_dup_free [] = True"
| "fav_dup_free (r # rs) \<longleftrightarrow>
     \<not> list_ex (fav_match (f_user r) (f_film r)) rs \<and> fav_dup_free rs"

fun hist_dup_free :: "hist_row list \<Rightarrow> bool" where
  "hist_dup_free [] = True"
| "hist_dup_free (r # rs) \<longleftrightarrow>
     \<not> list_ex (hist_match (h_user r) (h_vu r) (h_film r) (h_loue r)) rs \<and> hist_dup_free rs"

definition lists_ok :: "lists \<Rightarrow> bool" where
  "lists_ok s \<longleftrightarrow> fav_dup_free (favori s) \<and> hist_dup_free (historique s)"

section \<open>Lemmas: matching rows and the routes\<close>

lemma sql_eq_sym: "sql_eq a b = sql_eq b a"
  by (auto simp: sql_eq_def)

lemma fav_match_sym: "fav_match (f_user r) (f_film r) q = fav_match (f_user q) (f_film q) r"
  by (auto simp: fav_match_def sql_eq_def)

lemma hist_match_sym:
  "hist_match (h_user r) (h_vu r) (h_film r) (h_loue r) q = hist_match (h_user q) (h_vu q) (h_film q) (h_loue q) r"
  by (auto simp: hist_match_def sql_eq_def)

lemma fav_dup_free_append:
  "fav_dup_free (rs @ [x]) \<longleftrightarrow> fav_dup_free rs \<and> \<not> list_ex (fav_match (f_user x) (f_film x)) rs"
  by (induction rs) (auto simp: fav_match_sym)

lemma hist_dup_free_append:
  "hist_dup_free (rs @ [x]) \<longleftrightarrow>
     hist_dup_free rs \<and> \<not> list_ex (hist_match (h_user x) (h_vu x) (h_film x) (h_loue x)) rs"
  by (induction rs) (auto simp: hist_match_sym)

lemma add_favori_step:
  assumes "add_favori e p body s = (r, s')"
  shows "s' = s \<or> (\<exists>uid fid. \<not> list_ex (fav_match uid fid) (favori s) \<and> s' = insert_favori uid fid s)"
  using assms
  by (fastforce simp: add_favori_def add_favori_decide_def atomically_def catch_answer_def sbind_def
           split: if_splits sum.splits)

lemma add_historique_step:
  assumes "add_historique e p body s = (r, s')"
  shows "s' = s \<or> (\<exists>uid vu fid la. \<not> list_ex (hist_match uid vu fid la) (historique s)
                     \<and> s' = insert_historique uid vu fid la s)"
  using assms
  by (fastforce simp: add_historique_def add_historique_decide_def atomically_def catch_answer_def
                     sbind_def
           split: if_splits sum.splits option.splits)

text \<open>A favourite that was added is listed last for its user.\<close>

lemma add_favori_created:
  assumes "add_favori e p body s = (Reply 201 r, s')"
  shows "\<exists>v fid. js_get body ''id_filmAPI'' = Inr v \<and> sql_param v = Inr fid
           \<and> s' = insert_favori (JStr p) fid s"
  using assms
  by (auto simp: add_favori_def add_favori_decide_def atomically_def catch_answer_def sbind_def
           split: if_splits sum.splits)

lemma favoris_tout_insert:
  "db_up e \<Longrightarrow> favoris_tout e p (insert_favori (JStr p) fid s) =
     Reply 200 (JObj [(''favoris'', JArr (map fav_json
        (filter (\<lambda>r. sql_eq (f_user r) (JStr p)) (favori s) @ [\<lparr>f_user = JStr p, f_film = fid\<rparr>])))])"
  by (cases "filter (\<lambda>r. sql_eq (f_user r) (JStr p)) (favori s)")
     (simp_all add: favoris_tout_def insert_favori_def sql_eq_def)

text \<open>A history entry that was added is listed last for its user.\<close>

lemma add_historique_created:
  assumes "add_historique e p body s = (Reply 201 r, s')"
  shows "\<exists>i vu fid la. parse_user_id p = Some i \<and> s' = insert_historique (JNum i) vu fid la s"
  using assms
  by (fastforce simp: add_historique_def add_historique_decide_def atomically_def catch_answer_def sbind_def
           split: if_splits sum.splits option.splits)

lemma historique_tout_insert:
  "db_up e \<Longrightarrow> parse_user_id p = Some i \<Longrightarrow>
     historique_tout e p (insert_historique (JNum i) vu fid la s) =
     Reply 200 (JObj [(''historique'', JArr (map hist_json
        (filter (\<lambda>r. sql_eq (h_user r) (JNum i)) (historique s)
         @ [\<lparr>h_user = JNum i, h_vu = vu, h_film = fid, h_loue = la\<rparr>])))])"
  by (cases "filter (\<lambda>r. sql_eq (h_user r) (JNum i)) (historique s)")
     (simp_all add: historique_tout_def insert_historique_def sql_eq_def)

section \<open>Properties of the favourite and history routes\<close>

text \<open>C24. Run without interleaving, the routes of favoris.js and historique.js keep both tables
  free of duplicates in the sense of their own SELECT: no two favourite rows agree on a
  non-NULL user and film, no two history rows agree on four non-NULL columns.\<close>

theorem lists_route_preserves:
  assumes "lists_ok s"
  shows "lists_ok (snd (lists_route e rq s))"
proof (cases rq)
  case (AddFavori p b)
  obtain r s' where st: "add_favori e p b s = (r, s')" by fastforce
  from add_favori_step [OF st] have "lists_ok s'"
    by (elim disjE exE conjE) (insert assms, auto simp: lists_ok_def insert_favori_def fav_dup_free_append)
  then show ?thesis by (simp add: AddFavori st)
next
  case (AddHistorique p b)
  obtain r s' where st: "add_historique e p b s = (r, s')" by fastforce
  from add_historique_step [OF st] have "lists_ok s'"
    by (elim disjE exE conjE) (insert assms, auto simp: lists_ok_def insert_historique_def hist_dup_free_append)
  then show ?thesis by (simp add: AddHistorique st)
qed (simp_all add: assms)

text \<open>C25. The duplicate check of POST /favoris/:id never fires for a request without
  id_filmAPI: the field binds as NULL, NULL = NULL is not true in SQL, so every such request
  inserts one more (user, NULL) row.\<close>

theorem add_favori_null_film:
  assumes "db_up e" "js_get body ''id_filmAPI'' = Inr v" "v = JUndef \<or> v = JNull"
  shows "add_favori e p body s = (Reply 201 (message msg_favourite_added), insert_favori (JStr p) JNull s)"
proof -
  have "sql_param v = Inr JNull" using assms(3) by auto
  moreover have "\<not> list_ex (fav_match (JStr p) JNull) (favori s)"
    by (simp add: fav_match_def sql_eq_def list_ex_iff)
  ultimately show ?thesis
    using assms(1,2) by (simp add: add_favori_def add_favori_decide_def atomically_def)
qed

lemma lists_route_preserves_witness:
  "lists_ok \<lparr>favori = [], historique = []\<rparr>
   \<and> lists_ok (snd (lists_route (env_at 0) (AddFavori ''1'' (JObj [(''id_filmAPI'', JStr ''tt0111161'')]))
                  \<lparr>favori = [], historique = []\<rparr>))"
  using lists_route_preserves [of "\<lparr>favori = [], historique = []\<rparr>" "env_at 0"
      "AddFavori ''1'' (JObj [(''id_filmAPI'', JStr ''tt0111161'')])"]
  by (simp add: lists_ok_def)

lemma add_favori_null_film_witness:
  "add_favori (env_at 0) ''1'' (JObj []) (insert_favori (JStr ''1'') JNull \<lparr>favori = [], historique = []\<rparr>) =
     (Reply 201 (message msg_favourite_added),
      \<lparr>favori = [\<lparr>f_user = JStr ''1'', f_film = JNull\<rparr>, \<lparr>f_user = JStr ''1'', f_film = JNull\<rparr>],
       historique = []\<rparr>)"
  using add_favori_null_film [of "env_at 0" "JObj []" JUndef "''1''"
      "insert_favori (JStr ''1'') JNull \<lparr>favori = [], historique = []\<rparr>"]
  by (simp add: env_at_def insert_favori_def)

text \<open>C26. POST /favoris/:id takes the user identifier as the raw path string: any string,
  numeric or not, is stored as the user of a new favourite, where the history routes refuse
  an identifier that is not a positive integer with 400.\<close>

theorem add_favori_any_id:
  assumes "db_up e" "js_get body ''id_filmAPI'' = Inr (JStr f)"
    and "\<not> list_ex (fav_match (JStr p) (JStr f)) (favori s)"
  shows "add_favori e p body s = (Reply 201 (message msg_favourite_added), insert_favori (JStr p) (JStr f) s)"
  using assms by (simp add: add_favori_def add_favori_decide_def)

lemma add_favori_any_id_witness:
  "add_favori (env_at 0) ''abc'' (JObj [(''id_filmAPI'', JStr ''tt0111161'')]) \<lparr>favori = [], historique = []\<rparr> =
     (Reply 201 (message msg_favourite_added),
      \<lparr>favori = [\<lparr>f_user = JStr ''abc'', f_film = JStr ''tt0111161''\<rparr>], historique = []\<rparr>)
   \<and> fst (add_historique (env_at 0) ''abc'' (JObj [(''id_filmAPI'', JStr ''tt0111161'')])
           \<lparr>favori = [], historique = []\<rparr>) = Reply 400 (message msg_invalid_id)"
proof -
  have "parse_user_id ''abc'' = None"
    by (simp add: parse_user_id_def js_parseInt_def js_space_def parse_unsigned_def
                  dec_digit_val_def is_digit_def)
  then show ?thesis
    using add_favori_any_id [of "env_at 0" "JObj [(''id_filmAPI'', JStr ''tt0111161'')]" "''tt0111161''"
        "''abc''" "\<lparr>favori = [], historique = []\<rparr>"]
    by (simp add: env_at_def insert_favori_def add_historique_def add_historique_decide_def)
qed

end
