(* ===== verification/Routing.thy ===== *)
theory Routing
  imports SearchRoutes UserLists
begin

text \<open>
  The route table of \<open>src/back/server.js\<close> and the way Express dispatches a request
  through it. \<open>server.js\<close> mounts one router per \<open>app.use(mount, router)\<close> (lines
  42-72), the three user routers on the same mount in the order users, favourites, history;
  each router declares its routes in source order (\<open>router.get('/:name', ...)\<close>). A
  request goes to the first route, in mount order and then declaration order, whose method
  is the request's and whose path matches.

  Path matching is that of Express 4 (path-to-regexp 0.1, non-strict, case-insensitive):
  the path is split at \<open>/\<close>, one trailing slash is optional, a literal segment matches
  ignoring the case of ASCII letters (every literal of the table is ASCII), a parameter
  matches one non-empty segment, which is passed to the handler decoded by
  \<open>decodeURIComponent\<close>; a segment that does not decode makes Express answer 400. Paths
  with empty inner segments (\<open>//\<close>) and query strings are outside the model. A request no
  route matches gets Express's default 404. \<open>/api-doc\<close> (Swagger UI) is not modelled,
  nor is \<open>/api/search/filmbyrating\<close>, whose module is not in the repository.
\<close>

section \<open>Route patterns\<close>

datatype http_method = GET | POST | PUT | DELETE

datatype seg = Lit string | Param string

text \<open>\<open>s.split('/')\<close>.\<close>

fun split_slash :: "string \<Rightarrow> string list" where
  "split_slash [] = [[]]"
| "split_slash (c # cs) =
     (if c = CHR ''/'' then [] # split_slash cs
      else (let ws = split_slash cs in (c # hd ws) # tl ws))"

text \<open>The segments of a route path such as \<open>/idFilm/:id\<close> or \<open>/historique/:id/\<close>.\<close>

definition pattern :: "string \<Rightarrow> seg list" where
  "pattern r =
     map (\<lambda>w. if w \<noteq> [] \<and> hd w = CHR '':'' then Param (tl w) else Lit w)
         (filter (\<lambda>w. w \<noteq> []) (split_slash r))"

text \<open>The segments of a request path; one trailing slash is optional.\<close>

definition path_segs :: "string \<Rightarrow> string list" where
  "path_segs p =
     (let ws = split_slash (drop 1 p) in
      if ws = [[]] then [] else if last ws = [] then butlast ws else ws)"

definition ascii_upper :: "char \<Rightarrow> char" where
  "ascii_upper c =
     (if 97 \<le> (of_char c :: nat) \<and> (of_char c :: nat) \<le> 122 then char_of ((of_char c :: nat) - 32)
      else c)"

definition ci_eq :: "string \<Rightarrow> string \<Rightarrow> bool" where
  "ci_eq a b \<longleftrightarrow> map ascii_upper a = map ascii_upper b"

text \<open>The raw values of the parameters when the path matches.\<close>

fun match_segs :: "seg list \<Rightarrow> string list \<Rightarrow> string list option" where
  "match_segs [] [] = Some []"
| "match_segs (Lit l # ps) (w # ws) = (if ci_eq l w then match_segs ps ws else None)"
| "match_segs (Param n # ps) (w # ws) =
     (if w = [] then None else map_option (Cons w) (match_segs ps ws))"
| "match_segs ps ws = None"

section \<open>The route table\<close>

datatype endpoint =
    EpRegister | EpLogin | EpVerify2fa | EpGetProfile | EpUpdateProfile | EpUpdatePassword
  | EpDeleteAccount | EpTest
  | EpAddFavori | EpFavorisTout | EpAddHistorique | EpHistoriqueTout
  | EpMovieIdByTitle | EpMovieById | EpSeriesIdByTitle | EpSeriesById
  | EpGenres | EpMoviesByGenre | EpSeriesByRating
  | EpListFilmByActor | EpActorById | EpListSerieByActor | EpGetActorInfo
  | EpCastByMovie | EpCastInfoByMovie

text \<open>Method, mount path, route path and handler, in the order Express tries them.\<close>

definition route_table :: "(http_method \<times> string \<times> string \<times> endpoint) list" where
  "route_table =
     [(POST, ''/api/users'', ''/register'', EpRegister),
      (POST, ''/api/users'', ''/login'', EpLogin),
      (POST, ''/api/users'', ''/verify-2fa'', EpVerify2fa),
      (GET, ''/api/users'', ''/profile/:id'', EpGetProfile),
      (PUT, ''/api/users'', ''/profile/:id'', EpUpdateProfile),
      (PUT, ''/api/users'', ''/profile/mdp/:id'', EpUpdatePassword),
      (DELETE, ''/api/users'', ''/profile/supprimerCompte/:id'', EpDeleteAccount),
      (GET, ''/api/users'', ''/test'', EpTest),
      (POST, ''/api/users'', ''/favoris/:id'', EpAddFavori),
      (GET, ''/api/users'', ''/favorisTout/:id'', EpFavorisTout),
      (POST, ''/api/users'', ''/historique/:id/'', EpAddHistorique),
      (GET, ''/api/users'', ''/historiqueTout/:id'', EpHistoriqueTout),
      (GET, ''/api/search/film'', ''/:film'', EpMovieIdByTitle),
      (GET, ''/api/search/film'', ''/idFilm/:id'', EpMovieById),
      (GET, ''/api/search/serie'', ''/:serie'', EpSeriesIdByTitle),
      (GET, ''/api/search/serie'', ''/idSerie/:id'', EpSeriesById),
      (GET, ''/api/search/genre'', ''/'', EpGenres),
      (GET, ''/api/search/genre'', ''/:genre'', EpMoviesByGenre),
      (GET, ''/api/search/seriebyrating'', ''/'', EpSeriesByRating),
      (GET, ''/api/search/filmbyactorname'', ''/:name'', EpListFilmByActor),
      (GET, ''/api/search/filmbyactorname'', ''/id/:id'', EpActorById),
      (GET, ''/api/search/seriebyactorname'', ''/:name'', EpListSerieByActor),
      (GET, ''/api/search/actorDetail'', ''/:name'', EpGetActorInfo),
      (GET, ''/api/search/castByMovie'', ''/:film'', EpCastByMovie),
      (GET, ''/api/search/castInfoByMovie'', ''/:imdbId'', EpCastInfoByMovie)]"

definition route_segs :: "string \<Rightarrow> string \<Rightarrow> seg list" where
  "route_segs mnt r = pattern mnt @ pattern r"

text \<open>The table with each mount and route path read as one pattern.\<close>

definition compiled_routes :: "(http_method \<times> seg list \<times> endpoint) list" where
  "compiled_routes = map (\<lambda>(m, mnt, r, ep). (m, route_segs mnt r, ep)) route_table"

text \<open>The first route of a table that takes the request, with the raw parameter values.\<close>

fun find_route ::
  "(http_method \<times> seg list \<times> endpoint) list \<Rightarrow> http_method \<Rightarrow> string list
     \<Rightarrow> (endpoint \<times> string list) option" where
  "find_route [] m ws = None"
| "find_route ((m', ps, ep) # rs) m ws =
     (if m' = m then (case match_segs ps ws of
                        Some vs \<Rightarrow> Some (ep, vs)
                      | None \<Rightarrow> find_route rs m ws)
      else find_route rs m ws)"

datatype dispatched = NotFound | BadParam | Found endpoint "string list"

text \<open>\<open>decodeURIComponent\<close> of every parameter, as Express does before calling the handler.\<close>

fun decode_params :: "string list \<Rightarrow> string list option" where
  "decode_params [] = Some []"
| "decode_params (v # vs) =
     (case decodeURIComponent v of
        None \<Rightarrow> None
      | Some d \<Rightarrow> map_option (Cons d) (decode_params vs))"

definition dispatch :: "http_method \<Rightarrow> string \<Rightarrow> dispatched" where
  "dispatch m p =
     (case find_route compiled_routes m (path_segs p) of
        None \<Rightarrow> NotFound
      | Some (ep, raw) \<Rightarrow>
          (case decode_params raw of None \<Rightarrow> BadParam | Some vs \<Rightarrow> Found ep vs))"

section \<open>Paths built from segments\<close>

text \<open>The path \<open>/w1/w2/...\<close>, as a client builds it.\<close>

definition join_path :: "string list \<Rightarrow> string" where
  "join_path ws = concat (map (\<lambda>w. CHR ''/'' # w) ws)"

section \<open>Serving a request\<close>

text \<open>
  The process state: the database tables and the \<open>twoFA\<close> map. A request ends with a
  response sent, with no response (a handler's promise rejected and nobody handles the
  rejection; from Node 15 on, the process then exits), or with the process ending on an
  exception thrown in a stream callback.
\<close>

record server =
  srv_accounts :: accounts
  srv_lists :: lists

datatype outcome = Sent response | Unhandled | ProcessExit

definition prog_outcome :: "response prog \<Rightarrow> api \<Rightarrow> outcome" where
  "prog_outcome h api =
     (case fst (h api) of Done r \<Rightarrow> Sent r | Threw err \<Rightarrow> Unhandled | Crashed \<Rightarrow> ProcessExit)"

definition users_step ::
  "(string \<Rightarrow> bool) \<Rightarrow> env \<Rightarrow> users_request \<Rightarrow> server \<Rightarrow> outcome \<times> server" where
  "users_step ie e rq st =
     (case users_route ie e rq (srv_accounts st) of
        (r, a) \<Rightarrow> (case r of Some resp \<Rightarrow> Sent resp | None \<Rightarrow> Unhandled, st\<lparr>srv_accounts := a\<rparr>))"

definition lists_step :: "env \<Rightarrow> lists_request \<Rightarrow> server \<Rightarrow> outcome \<times> server" where
  "lists_step e rq st =
     (case lists_route e rq (srv_lists st) of (r, l) \<Rightarrow> (Sent r, st\<lparr>srv_lists := l\<rparr>))"

text \<open>The value of the route's single parameter.\<close>

fun param1 :: "string list \<Rightarrow> string" where
  "param1 (v # vs) = v"
| "param1 [] = []"

text \<open>The handler of each route, with \<open>req.params\<close> and \<open>req.body\<close>.\<close>

definition run_endpoint ::
  "(string \<Rightarrow> bool) \<Rightarrow> env \<Rightarrow> api \<Rightarrow> endpoint \<Rightarrow> string list \<Rightarrow> jsval \<Rightarrow> server
     \<Rightarrow> outcome \<times> server" where
  "run_endpoint ie e api ep vs body st =
     (case ep of
        EpRegister \<Rightarrow> users_step ie e (Register body) st
      | EpLogin \<Rightarrow> users_step ie e (Login body) st
      | EpVerify2fa \<Rightarrow> users_step ie e (Verify2fa body) st
      | EpGetProfile \<Rightarrow> users_step ie e (GetProfile (param1 vs)) st
      | EpUpdateProfile \<Rightarrow> users_step ie e (UpdateProfile (param1 vs) body) st
      | EpUpdatePassword \<Rightarrow> users_step ie e (UpdatePassword (param1 vs) body) st
      | EpDeleteAccount \<Rightarrow> users_step ie e (DeleteAccount (param1 vs)) st
      | EpTest \<Rightarrow> users_step ie e TestRoute st
      | EpAddFavori \<Rightarrow> lists_step e (AddFavori (param1 vs) body) st
      | EpFavorisTout \<Rightarrow> lists_step e (FavorisTout (param1 vs)) st
      | EpAddHistorique \<Rightarrow> lists_step e (AddHistorique (param1 vs) body) st
      | EpHistoriqueTout \<Rightarrow> lists_step e (HistoriqueTout (param1 vs)) st
      | EpMovieIdByTitle \<Rightarrow> (prog_outcome (movieIdByTitle (param1 vs)) api, st)
      | EpMovieById \<Rightarrow> (prog_outcome (movieById (param1 vs)) api, st)
      | EpSeriesIdByTitle \<Rightarrow> (prog_outcome (seriesIdByTitle (param1 vs)) api, st)
      | EpSeriesById \<Rightarrow> (prog_outcome (seriesById (param1 vs)) api, st)
      | EpGenres \<Rightarrow> (prog_outcome genres api, st)
      | EpMoviesByGenre \<Rightarrow> (prog_outcome (moviesByGenre (param1 vs)) api, st)
      | EpSeriesByRating \<Rightarrow> (prog_outcome seriesByRating api, st)
      | EpListFilmByActor \<Rightarrow> (prog_outcome (listFilmByActor (param1 vs)) api, st)
      | EpActorById \<Rightarrow> (prog_outcome (actorById (param1 vs)) api, st)
      | EpListSerieByActor \<Rightarrow> (prog_outcome (listSerieByActor (param1 vs)) api, st)
      | EpGetActorInfo \<Rightarrow> (prog_outcome (getActorInfo (param1 vs)) api, st)
      | EpCastByMovie \<Rightarrow> (prog_outcome (castByMovie (param1 vs)) api, st)
      | EpCastInfoByMovie \<Rightarrow> (prog_outcome (castInfoByMovie (param1 vs)) api, st))"

text \<open>
  One request through the application; Express's own 404 and 400 pages are represented
  by their status (their HTML bodies are not modelled).
\<close>

definition serve ::
  "(string \<Rightarrow> bool) \<Rightarrow> env \<Rightarrow> api \<Rightarrow> http_method \<Rightarrow> string \<Rightarrow> jsval \<Rightarrow> server
     \<Rightarrow> outcome \<times> server" where
  "serve ie e api m p body st =
     (case dispatch m p of
        NotFound \<Rightarrow> (Sent (Reply 404 JNull), st)
      | BadParam \<Rightarrow> (Sent (Reply 400 JNull), st)
      | Found ep vs \<Rightarrow> run_endpoint ie e api ep vs body st)"

section \<open>Overlap of patterns\<close>

text \<open>Two patterns some path matches both: same length, and literals agree where both have one.\<close>

fun seg_overlap :: "seg list \<Rightarrow> seg list \<Rightarrow> bool" where
  "seg_overlap [] [] = True"
| "seg_overlap (Lit a # ps) (Lit b # qs) = (ci_eq a b \<and> seg_overlap ps qs)"
| "seg_overlap (p # ps) (q # qs) = seg_overlap ps qs"
| "seg_overlap ps qs = False"

text \<open>No two routes of a table with the same method overlap.\<close>

fun table_disjoint :: "(http_method \<times> seg list \<times> endpoint) list \<Rightarrow> bool" where
  "table_disjoint [] = True"
| "table_disjoint ((m, ps, ep) # rs) \<longleftrightarrow>
     list_all (\<lambda>(m', qs, ep'). m' \<noteq> m \<or> \<not> seg_overlap ps qs) rs \<and> table_disjoint rs"

section \<open>Lemmas: matching and the compiled table\<close>

lemma match_segs_Cons:
  assumes "match_segs q (w # ws) = Some b"
  shows "\<exists>x qs b'. q = x # qs \<and> match_segs qs ws = Some b'"
proof (cases q)
  case Nil
  then show ?thesis using assms by simp
next
  case (Cons x qs)
  then show ?thesis using assms by (cases x) (auto split: if_splits)
qed

lemma match_segs_overlap:
  "match_segs p ws = Some a \<Longrightarrow> match_segs q ws = Some b \<Longrightarrow> seg_overlap p q"
proof (induction p ws arbitrary: q a b rule: match_segs.induct)
  case 1
  then show ?case by (cases q) simp_all
next
  case (2 l ps w ws)
  from "2.prems"(1) have lw: "ci_eq l w" and a: "match_segs ps ws \<noteq> None"
    by (simp_all split: if_splits)
  obtain x qs b' where q: "q = x # qs" and b': "match_segs qs ws = Some b'"
    using match_segs_Cons [OF "2.prems"(2)] by blast
  obtain a' where a': "match_segs ps ws = Some a'" using a by blast
  have "seg_overlap ps qs" by (rule "2.IH" [OF lw a' b'])
  then show ?case
    using q lw "2.prems"(2) by (cases x) (simp_all add: ci_eq_def split: if_splits)
next
  case (3 n ps w ws)
  from "3.prems"(1) have w: "w \<noteq> []" and a: "match_segs ps ws \<noteq> None"
    by (auto split: if_splits)
  obtain x qs b' where q: "q = x # qs" and b': "match_segs qs ws = Some b'"
    using match_segs_Cons [OF "3.prems"(2)] by blast
  obtain a' where a': "match_segs ps ws = Some a'" using a by blast
  have "seg_overlap ps qs" by (rule "3.IH" [OF w a' b'])
  then show ?case
    using q by (cases x) simp_all
qed simp_all

text \<open>The table with every pattern computed.\<close>

lemma compiled_routes_eq:
  "compiled_routes =
     [(POST, [Lit ''api'', Lit ''users'', Lit ''register''], EpRegister),
      (POST, [Lit ''api'', Lit ''users'', Lit ''login''], EpLogin),
      (POST, [Lit ''api'', Lit ''users'', Lit ''verify-2fa''], EpVerify2fa),
      (GET, [Lit ''api'', Lit ''users'', Lit ''profile'', Param ''id''], EpGetProfile),
      (PUT, [Lit ''api'', Lit ''users'', Lit ''profile'', Param ''id''], EpUpdateProfile),
      (PUT, [Lit ''api'', Lit ''users'', Lit ''profile'', Lit ''mdp'', Param ''id''], EpUpdatePassword),
      (DELETE, [Lit ''api'', Lit ''users'', Lit ''profile'', Lit ''supprimerCompte'', Param ''id''], EpDeleteAccount),
      (GET, [Lit ''api'', Lit ''users'', Lit ''test''], EpTest),
      (POST, [Lit ''api'', Lit ''users'', Lit ''favoris'', Param ''id''], EpAddFavori),
      (GET, [Lit ''api'', Lit ''users'', Lit ''favorisTout'', Param ''id''], EpFavorisTout),
      (POST, [Lit ''api'', Lit ''users'', Lit ''historique'', Param ''id''], EpAddHistorique),
      (GET, [Lit ''api'', Lit ''users'', Lit ''historiqueTout'', Param ''id''], EpHistoriqueTout),
      (GET, [Lit ''api'', Lit ''search'', Lit ''film'', Param ''film''], EpMovieIdByTitle),
      (GET, [Lit ''api'', Lit ''search'', Lit ''film'', Lit ''idFilm'', Param ''id''], EpMovieById),
      (GET, [Lit ''api'', Lit ''search'', Lit ''serie'', Param ''serie''], EpSeriesIdByTitle),
      (GET, [Lit ''api'', Lit ''search'', Lit ''serie'', Lit ''idSerie'', Param ''id''], EpSeriesById),
      (GET, [Lit ''api'', Lit ''search'', Lit ''genre''], EpGenres),
      (GET, [Lit ''api'', Lit ''search'', Lit ''genre'', Param ''genre''], EpMoviesByGenre),
      (GET, [Lit ''api'', Lit ''search'', Lit ''seriebyrating''], EpSeriesByRating),
      (GET, [Lit ''api'', Lit ''search'', Lit ''filmbyactorname'', Param ''name''], EpListFilmByActor),
      (GET, [Lit ''api'', Lit ''search'', Lit ''filmbyactorname'', Lit ''id'', Param ''id''], EpActorById),
      (GET, [Lit ''api'', Lit ''search'', Lit ''seriebyactorname'', Param ''name''], EpListSerieByActor),
      (GET, [Lit ''api'', Lit ''search'', Lit ''actorDetail'', Param ''name''], EpGetActorInfo),
      (GET, [Lit ''api'', Lit ''search'', Lit ''castByMovie'', Param ''film''], EpCastByMovie),
      (GET, [Lit ''api'', Lit ''search'', Lit ''castInfoByMovie'', Param ''imdbId''], EpCastInfoByMovie)]"
  by (simp add: compiled_routes_def route_table_def route_segs_def pattern_def)

lemma route_table_disjoint: "table_disjoint compiled_routes"
  unfolding compiled_routes_eq by (simp add: ci_eq_def ascii_upper_def)

text \<open>In a table without overlapping routes the first match is the only one.\<close>

lemma find_route_member:
  "find_route rs m ws = Some (ep, vs) \<Longrightarrow> \<exists>ps. (m, ps, ep) \<in> set rs \<and> match_segs ps ws = Some vs"
  by (induction rs m ws rule: find_route.induct) (auto split: if_splits option.splits)

lemma find_route_unique:
  "table_disjoint rs \<Longrightarrow> (m, ps, ep) \<in> set rs \<Longrightarrow> match_segs ps ws = Some vs
     \<Longrightarrow> find_route rs m ws = Some (ep, vs)"
proof (induction rs)
  case Nil
  then show ?case by simp
next
  case (Cons r rs)
  obtain m' ps' ep' where r: "r = (m', ps', ep')" by (cases r) auto
  show ?case
  proof (cases "r = (m, ps, ep)")
    case True
    then show ?thesis using Cons.prems(3) r by simp
  next
    case False
    then have mem: "(m, ps, ep) \<in> set rs" using Cons.prems(2) by simp
    have head: "m' \<noteq> m \<or> match_segs ps' ws = None"
    proof (rule ccontr)
      assume "\<not> (m' \<noteq> m \<or> match_segs ps' ws = None)"
      then obtain vs' where "m' = m" "match_segs ps' ws = Some vs'" by auto
      then have "seg_overlap ps' ps"
        using match_segs_overlap Cons.prems(3) by blast
      then show False
        using Cons.prems(1) r mem \<open>m' = m\<close> by (auto simp: list_all_iff)
    qed
    have "find_route rs m ws = Some (ep, vs)"
      using Cons.IH Cons.prems(1) r mem Cons.prems(3) by simp
    then show ?thesis using head r by auto
  qed
qed

section \<open>Lemmas: paths a client builds\<close>

lemma split_slash_no_slash: "CHR ''/'' \<notin> set w \<Longrightarrow> split_slash w = [w]"
  by (induction w) auto

lemma split_slash_append_slash:
  "CHR ''/'' \<notin> set w \<Longrightarrow> split_slash (w @ CHR ''/'' # r) = w # split_slash r"
  by (induction w) auto

lemma split_slash_join:
  "ws \<noteq> [] \<Longrightarrow> list_all (\<lambda>w. CHR ''/'' \<notin> set w) ws \<Longrightarrow>
     split_slash (drop 1 (join_path ws)) = ws"
proof (induction ws)
  case Nil
  then show ?case by simp
next
  case (Cons w ws)
  show ?case
  proof (cases ws)
    case Nil
    then show ?thesis using Cons.prems by (simp add: join_path_def split_slash_no_slash)
  next
    case (Cons w' ws')
    then have "split_slash (drop 1 (join_path ws)) = ws"
      using Cons.IH Cons.prems by simp
    moreover obtain r where r: "join_path ws = CHR ''/'' # r"
      using Cons by (simp add: join_path_def)
    ultimately have "split_slash r = ws" by simp
    moreover have "drop 1 (join_path (w # ws)) = w @ CHR ''/'' # r"
      using r by (simp add: join_path_def)
    ultimately show ?thesis
      using Cons.prems by (simp add: split_slash_append_slash)
  qed
qed

lemma path_segs_join:
  "ws \<noteq> [] \<Longrightarrow> list_all (\<lambda>w. w \<noteq> [] \<and> CHR ''/'' \<notin> set w) ws \<Longrightarrow> path_segs (join_path ws) = ws"
proof -
  assume ne: "ws \<noteq> []" and ok: "list_all (\<lambda>w. w \<noteq> [] \<and> CHR ''/'' \<notin> set w) ws"
  then have "split_slash (drop 1 (join_path ws)) = ws"
    by (intro split_slash_join) (auto simp: list_all_iff)
  moreover have "last ws \<noteq> []" using ne ok by (auto simp: list_all_iff)
  moreover have "ws \<noteq> [[]]" using ok by auto
  ultimately show ?thesis by (simp add: path_segs_def)
qed

lemma encode_char_ne: "encode_char c \<noteq> []"
  by (simp add: encode_char_def Let_def pct_byte_def)

lemma encodeURIComponent_ne: "s \<noteq> [] \<Longrightarrow> encodeURIComponent s \<noteq> []"
  by (cases s) (simp_all add: encodeURIComponent_def encode_char_ne)

lemma path_segs_series:
  "path_segs ''/api/search/serie/idSerie/tt1'' = [''api'', ''search'', ''serie'', ''idSerie'', ''tt1'']"
  by (simp add: path_segs_def)

section \<open>Lemmas: requests to single routes\<close>

lemma match_lits_param:
  "list_all (\<lambda>w. w \<noteq> []) ls \<Longrightarrow> x \<noteq> [] \<Longrightarrow> match_segs (map Lit ls @ [Param n]) (ls @ [x]) = Some [x]"
  by (induction ls) (simp_all add: ci_eq_def)

lemma dispatch_encoded_param:
  assumes "(m, map Lit ls @ [Param n], ep) \<in> set compiled_routes"
    and "list_all (\<lambda>w. w \<noteq> [] \<and> CHR ''/'' \<notin> set w) ls" and "x \<noteq> []"
  shows "dispatch m (join_path (ls @ [encodeURIComponent x])) = Found ep [x]"
proof -
  let ?ws = "ls @ [encodeURIComponent x]"
  have ok: "list_all (\<lambda>w. w \<noteq> [] \<and> CHR ''/'' \<notin> set w) ?ws"
    using assms(2,3) by (simp add: encodeURIComponent_ne slash_not_encoded)
  then have segs: "path_segs (join_path ?ws) = ?ws"
    by (intro path_segs_join) simp_all
  have "match_segs (map Lit ls @ [Param n]) ?ws = Some [encodeURIComponent x]"
    using ok by (intro match_lits_param) (auto simp: list_all_iff)
  then have "find_route compiled_routes m ?ws = Some (ep, [encodeURIComponent x])"
    using find_route_unique [OF route_table_disjoint assms(1)] by blast
  then show ?thesis by (simp add: dispatch_def segs decode_encode)
qed

lemma join_path_api: "join_path [a, b, c, x] = ''/'' @ a @ ''/'' @ b @ ''/'' @ c @ ''/'' @ x"
  by (simp add: join_path_def)

lemma dispatch_actor_detail:
  "name \<noteq> [] \<Longrightarrow>
     dispatch GET (''/api/search/actorDetail/'' @ encodeURIComponent name) = Found EpGetActorInfo [name]"
  using dispatch_encoded_param [of GET "[''api'', ''search'', ''actorDetail'']" "''name''" EpGetActorInfo name]
  by (simp add: compiled_routes_eq join_path_api)

lemma dispatch_favoris:
  "uid \<noteq> [] \<Longrightarrow>
     dispatch POST (''/api/users/favoris/'' @ encodeURIComponent uid) = Found EpAddFavori [uid]"
  using dispatch_encoded_param [of POST "[''api'', ''users'', ''favoris'']" "''id''" EpAddFavori uid]
  by (simp add: compiled_routes_eq join_path_api)

lemma dispatch_favoris_tout:
  "uid \<noteq> [] \<Longrightarrow>
     dispatch GET (''/api/users/favorisTout/'' @ encodeURIComponent uid) = Found EpFavorisTout [uid]"
  using dispatch_encoded_param [of GET "[''api'', ''users'', ''favorisTout'']" "''id''" EpFavorisTout uid]
  by (simp add: compiled_routes_eq join_path_api)

lemma dispatch_historique:
  "p \<noteq> [] \<Longrightarrow>
     dispatch POST (''/api/users/historique/'' @ encodeURIComponent p) = Found EpAddHistorique [p]"
  using dispatch_encoded_param [of POST "[''api'', ''users'', ''historique'']" "''id''" EpAddHistorique p]
  by (simp add: compiled_routes_eq join_path_api)

lemma dispatch_historique_tout:
  "p \<noteq> [] \<Longrightarrow>
     dispatch GET (''/api/users/historiqueTout/'' @ encodeURIComponent p) = Found EpHistoriqueTout [p]"
  using dispatch_encoded_param [of GET "[''api'', ''users'', ''historiqueTout'']" "''id''" EpHistoriqueTout p]
  by (simp add: compiled_routes_eq join_path_api)

lemma join_path_api4:
  "join_path [a, b, c, d, x] = ''/'' @ a @ ''/'' @ b @ ''/'' @ c @ ''/'' @ d @ ''/'' @ x"
  by (simp add: join_path_def)

lemma dispatch_profile:
  "p \<noteq> [] \<Longrightarrow>
     dispatch GET (''/api/users/profile/'' @ encodeURIComponent p) = Found EpGetProfile [p]"
  using dispatch_encoded_param [of GET "[''api'', ''users'', ''profile'']" "''id''" EpGetProfile p]
  by (simp add: compiled_routes_eq join_path_api)

lemma dispatch_delete:
  "p \<noteq> [] \<Longrightarrow>
     dispatch DELETE (''/api/users/profile/supprimerCompte/'' @ encodeURIComponent p)
       = Found EpDeleteAccount [p]"
  using dispatch_encoded_param
          [of DELETE "[''api'', ''users'', ''profile'', ''supprimerCompte'']" "''id''" EpDeleteAccount p]
  by (simp add: compiled_routes_eq join_path_api4)

lemma dispatch_series_by_id:
  "p \<noteq> [] \<Longrightarrow>
     dispatch GET (''/api/search/serie/idSerie/'' @ encodeURIComponent p) = Found EpSeriesById [p]"
  using dispatch_encoded_param [of GET "[''api'', ''search'', ''serie'', ''idSerie'']" "''id''" EpSeriesById p]
  by (simp add: compiled_routes_eq join_path_api4)

lemma dispatch_movie_by_id:
  "p \<noteq> [] \<Longrightarrow>
     dispatch GET (''/api/search/film/idFilm/'' @ encodeURIComponent p) = Found EpMovieById [p]"
  using dispatch_encoded_param [of GET "[''api'', ''search'', ''film'', ''idFilm'']" "''id''" EpMovieById p]
  by (simp add: compiled_routes_eq join_path_api4)

lemma dispatch_register: "dispatch POST ''/api/users/register'' = Found EpRegister []"
  by (simp add: dispatch_def compiled_routes_eq path_segs_def ci_eq_def)

lemma dispatch_login: "dispatch POST ''/api/users/login'' = Found EpLogin []"
  by (simp add: dispatch_def compiled_routes_eq path_segs_def ci_eq_def)

lemma dispatch_verify_2fa: "dispatch POST ''/api/users/verify-2fa'' = Found EpVerify2fa []"
  by (simp add: dispatch_def compiled_routes_eq path_segs_def ci_eq_def)

section \<open>Lemmas: routes that change nothing\<close>

lemma read_only_endpoints:
  "(GET, ps, ep) \<in> set compiled_routes \<Longrightarrow>
     ep \<notin> {EpRegister, EpLogin, EpVerify2fa, EpUpdateProfile, EpUpdatePassword, EpDeleteAccount,
           EpAddFavori, EpAddHistorique}"
  by (auto simp: compiled_routes_eq)

lemma run_endpoint_read_only:
  "ep \<notin> {EpRegister, EpLogin, EpVerify2fa, EpUpdateProfile, EpUpdatePassword, EpDeleteAccount,
          EpAddFavori, EpAddHistorique} \<Longrightarrow> snd (run_endpoint ie e api ep vs body st) = st"
  by (cases ep)
     (simp_all add: run_endpoint_def users_step_def lists_step_def split: prod.splits option.splits)

section \<open>Properties of the route table\<close>

text \<open>C27. The route table of server.js is unambiguous: no two routes with the same method
  match a common path, so a request whose path a route's pattern matches is dispatched to
  that route, with the parameters that route reads, whatever the declaration order.\<close>

theorem dispatch_unambiguous:
  assumes "(m, ps, ep) \<in> set compiled_routes" "match_segs ps (path_segs p) = Some raw"
  shows "find_route compiled_routes m (path_segs p) = Some (ep, raw)"
  using find_route_unique [OF route_table_disjoint assms] .

lemma dispatch_unambiguous_witness:
  "find_route compiled_routes GET (path_segs ''/api/search/serie/idSerie/tt1'') = Some (EpSeriesById, [''tt1''])"
  by (rule dispatch_unambiguous
        [where ps = "[Lit ''api'', Lit ''search'', Lit ''serie'', Lit ''idSerie'', Param ''id'']"])
     (simp_all add: compiled_routes_eq path_segs_series ci_eq_def)

text \<open>C29. A client's request \<open>GET /api/search/actorDetail/\<close> followed by
  \<open>encodeURIComponent(name)\<close> reaches \<open>getActorInfo\<close> with the name itself, for
  every non-empty name (slashes, spaces and non-ASCII letters included), and leaves the
  server state unchanged.\<close>

theorem actor_detail_roundtrip:
  assumes "name \<noteq> []"
  shows "serve ie e api GET (''/api/search/actorDetail/'' @ encodeURIComponent name) body st =
           (prog_outcome (getActorInfo name) api, st)"
  by (simp only: serve_def dispatch_actor_detail [OF assms]) (simp add: run_endpoint_def)

lemma actor_detail_roundtrip_witness:
  "serve (\<lambda>em. True) (env_at 0) (\<lambda>q. Unreachable) GET
      (''/api/search/actorDetail/'' @ encodeURIComponent ''Tom Hanks'') JNull
      \<lparr>srv_accounts = accounts0, srv_lists = \<lparr>favori = [], historique = []\<rparr>\<rparr> =
   (prog_outcome (getActorInfo ''Tom Hanks'') (\<lambda>q. Unreachable),
    \<lparr>srv_accounts = accounts0, srv_lists = \<lparr>favori = [], historique = []\<rparr>\<rparr>)"
  by (rule actor_detail_roundtrip) simp

text \<open>C30. No GET request changes the server's state: the user table, the pending 2FA
  codes, the favourites and the history are the same after it.\<close>

theorem serve_get_read_only: "snd (serve ie e api GET p body st) = st"
proof (cases "dispatch GET p")
  case (Found ep vs)
  then obtain raw where "find_route compiled_routes GET (path_segs p) = Some (ep, raw)"
    by (auto simp: dispatch_def split: option.splits)
  then obtain ps where "(GET, ps, ep) \<in> set compiled_routes"
    using find_route_member by blast
  then show ?thesis
    using Found read_only_endpoints run_endpoint_read_only by (simp add: serve_def)
qed (simp_all add: serve_def)

text \<open>C21. The series-by-id route relays the movie resource: for every identifier a client
  sends encoded, GET /api/search/serie/idSerie/{id} requests /movie/id/{trim id}/ and answers
  exactly what GET /api/search/film/idFilm/{id} answers; it never requests the series resource
  /series/id/{id}/.\<close>

theorem seriesById_relays_movie:
  assumes "p \<noteq> []"
  shows "serve ie e api GET (''/api/search/serie/idSerie/'' @ encodeURIComponent p) body st
           = (prog_outcome (relay None (''/movie/id/'' @ js_trim p @ ''/'')) api, st)
       \<and> serve ie e api GET (''/api/search/film/idFilm/'' @ encodeURIComponent p) body st
           = (prog_outcome (relay None (''/movie/id/'' @ js_trim p @ ''/'')) api, st)"
proof
  show "serve ie e api GET (''/api/search/serie/idSerie/'' @ encodeURIComponent p) body st
           = (prog_outcome (relay None (''/movie/id/'' @ js_trim p @ ''/'')) api, st)"
    by (simp only: serve_def dispatch_series_by_id [OF assms]) (simp add: run_endpoint_def seriesById_def)
  show "serve ie e api GET (''/api/search/film/idFilm/'' @ encodeURIComponent p) body st
           = (prog_outcome (relay None (''/movie/id/'' @ js_trim p @ ''/'')) api, st)"
    by (simp only: serve_def dispatch_movie_by_id [OF assms]) (simp add: run_endpoint_def movieById_def)
qed

lemma seriesById_relays_movie_witness:
  "serve (\<lambda>em. True) (env_at 0) (\<lambda>q. Unreachable) GET
      (''/api/search/serie/idSerie/'' @ encodeURIComponent ''tt0111161'') JNull \<lparr>srv_accounts = accounts0, srv_lists = \<lparr>favori = [], historique = []\<rparr>\<rparr>
     = (prog_outcome (relay None (''/movie/id/'' @ js_trim ''tt0111161'' @ ''/'')) (\<lambda>q. Unreachable), \<lparr>srv_accounts = accounts0, srv_lists = \<lparr>favori = [], historique = []\<rparr>\<rparr>)
   \<and> serve (\<lambda>em. True) (env_at 0) (\<lambda>q. Unreachable) GET
      (''/api/search/film/idFilm/'' @ encodeURIComponent ''tt0111161'') JNull \<lparr>srv_accounts = accounts0, srv_lists = \<lparr>favori = [], historique = []\<rparr>\<rparr>
     = (prog_outcome (relay None (''/movie/id/'' @ js_trim ''tt0111161'' @ ''/'')) (\<lambda>q. Unreachable), \<lparr>srv_accounts = accounts0, srv_lists = \<lparr>favori = [], historique = []\<rparr>\<rparr>)"
  by (rule seriesById_relays_movie) simp

end
