(* ===== verification/ApiDoc.thy ===== *)
theory ApiDoc
  imports Routing
begin

text \<open>
  The API documentation of the back end: the \<open>@swagger\<close> blocks of the route modules,
  which \<open>server.js\<close> collects with \<open>swagger-jsdoc\<close> (lines 18-35) and serves under
  \<open>/api-doc\<close>. Each block documents one route of a router: its method, its path
  relative to the router's mount, and the response statuses a client may receive. The
  handlers are checked against the statuses: which of them only send documented statuses,
  and which send a status their block does not list.
\<close>

section \<open>The documented contract\<close>

type_synonym api_doc = "http_method \<times> string \<times> nat list"

text \<open>\<open>users.js\<close>.\<close>

definition doc_register :: api_doc where
  "doc_register = (POST, ''/register'', [201, 400, 500])"

definition doc_login :: api_doc where
  "doc_login = (POST, ''/login'', [200, 401, 500])"

definition doc_verify_2fa :: api_doc where
  "doc_verify_2fa = (POST, ''/verify-2fa'', [200, 401, 500])"

definition doc_get_profile :: api_doc where
  "doc_get_profile = (GET, ''/profile'', [200, 401, 403])"

definition doc_update_profile :: api_doc where
  "doc_update_profile = (PUT, ''/profile/{id}'', [200, 400, 500])"

definition doc_update_password :: api_doc where
  "doc_update_password = (PUT, ''/profile/mdp/{id}'', [200, 400, 404, 500])"

definition doc_delete_account :: api_doc where
  "doc_delete_account = (DELETE, ''/profile/supprimerCompte/{id}'', [200, 404, 500])"

text \<open>\<open>favoris.js\<close> and \<open>historique.js\<close>.\<close>

definition doc_add_favori :: api_doc where
  "doc_add_favori = (POST, ''/favoris/{id}'', [201, 400, 500])"

definition doc_favoris_tout :: api_doc where
  "doc_favoris_tout = (GET, ''/favorisTout/{id}'', [200, 404, 500])"

definition doc_add_historique :: api_doc where
  "doc_add_historique = (POST, ''/historique/{id}'', [201, 400, 500])"

definition doc_historique_tout :: api_doc where
  "doc_historique_tout = (GET, ''/historiqueTout/{id}'', [200, 404, 500])"

text \<open>\<open>src/back/apiRequest\<close>.\<close>

definition doc_movie_id_by_title :: api_doc where
  "doc_movie_id_by_title = (GET, ''/{film}'', [200, 500])"

definition doc_movie_by_id :: api_doc where
  "doc_movie_by_id = (GET, ''/idFilm/{id}'', [200, 500])"

definition doc_series_id_by_title :: api_doc where
  "doc_series_id_by_title = (GET, ''/{serie}'', [200, 500])"

definition doc_series_by_id :: api_doc where
  "doc_series_by_id = (GET, ''/idSerie/{id}'', [200, 500])"

definition doc_genres :: api_doc where
  "doc_genres = (GET, ''/'', [200, 500])"

definition doc_series_by_rating :: api_doc where
  "doc_series_by_rating = (GET, ''/'', [200, 500])"

definition doc_list_film_by_actor :: api_doc where
  "doc_list_film_by_actor = (GET, ''/{name}'', [200, 404, 500])"

definition doc_list_serie_by_actor :: api_doc where
  "doc_list_serie_by_actor = (GET, ''/{nom}'', [200, 404, 500])"

text \<open>
  The block documenting each endpoint. \<open>GET /genre/:genre\<close>, \<open>GET
  /filmbyactorname/id/:id\<close>, \<open>GET /test\<close> and the routes of \<open>getActorInfo.js\<close>,
  \<open>movie.js\<close> and \<open>getActorImage.js\<close> have none.
\<close>

definition swagger_doc :: "endpoint \<Rightarrow> api_doc option" where
  "swagger_doc ep =
     (case ep of
        EpRegister \<Rightarrow> Some doc_register
      | EpLogin \<Rightarrow> Some doc_login
      | EpVerify2fa \<Rightarrow> Some doc_verify_2fa
      | EpGetProfile \<Rightarrow> Some doc_get_profile
      | EpUpdateProfile \<Rightarrow> Some doc_update_profile
      | EpUpdatePassword \<Rightarrow> Some doc_update_password
      | EpDeleteAccount \<Rightarrow> Some doc_delete_account
      | EpAddFavori \<Rightarrow> Some doc_add_favori
      | EpFavorisTout \<Rightarrow> Some doc_favoris_tout
      | EpAddHistorique \<Rightarrow> Some doc_add_historique
      | EpHistoriqueTout \<Rightarrow> Some doc_historique_tout
      | EpMovieIdByTitle \<Rightarrow> Some doc_movie_id_by_title
      | EpMovieById \<Rightarrow> Some doc_movie_by_id
      | EpSeriesIdByTitle \<Rightarrow> Some doc_series_id_by_title
      | EpSeriesById \<Rightarrow> Some doc_series_by_id
      | EpGenres \<Rightarrow> Some doc_genres
      | EpSeriesByRating \<Rightarrow> Some doc_series_by_rating
      | EpListFilmByActor \<Rightarrow> Some doc_list_film_by_actor
      | EpListSerieByActor \<Rightarrow> Some doc_list_serie_by_actor
      | _ \<Rightarrow> None)"

text \<open>The status of a sent response.\<close>

fun status_of :: "outcome \<Rightarrow> nat option" where
  "status_of (Sent (Reply n b)) = Some n"
| "status_of out = None"

text \<open>An outcome a client of the documentation expects: no status, or a documented one.\<close>

definition documented :: "endpoint \<Rightarrow> outcome \<Rightarrow> bool" where
  "documented ep out =
     (case (swagger_doc ep, status_of out) of
        (Some (m, p, cs), Some n) \<Rightarrow> n \<in> set cs
      | _ \<Rightarrow> True)"

text \<open>The status of a response.\<close>

fun resp_status :: "response \<Rightarrow> nat" where
  "resp_status (Reply n b) = n"

text \<open>Every response a handler's run ends with has a status in \<open>S\<close>.\<close>

definition done_in :: "nat set \<Rightarrow> response prog \<Rightarrow> bool" where
  "done_in S h \<longleftrightarrow> (\<forall>api r. fst (h api) = Done r \<longrightarrow> resp_status r \<in> S)"

section \<open>Lemmas: the statuses each handler sends\<close>

lemma register_status: "resp_status (fst (register ie e b s)) \<in> {201, 400, 500}"
  by (auto simp: register_def register_decide_def atomically_def catch_answer_def sbind_def
           split: sum.splits option.splits if_splits)

lemma verify_2fa_status: "fst (verify_2fa e b s) = Some r \<Longrightarrow> resp_status r \<in> {200, 401}"
  by (auto simp: verify_2fa_def sbind_def split: sum.splits prop_val.splits if_splits list.splits)

lemma update_profile_status: "resp_status (fst (update_profile e p b s)) \<in> {200, 400, 500}"
  by (auto simp: update_profile_def update_profile_decide_def atomically_def catch_answer_def sbind_def
           split: sum.splits option.splits if_splits)

lemma update_password_status: "resp_status (fst (update_password e p b s)) \<in> {200, 400, 404, 500}"
  by (auto simp: update_password_def catch_with_def sbind_def
           split: sum.splits option.splits if_splits list.splits)

lemma add_favori_status: "resp_status (fst (add_favori e p b s)) \<in> {201, 400, 500}"
  by (auto simp: add_favori_def add_favori_decide_def atomically_def catch_answer_def sbind_def
           split: sum.splits option.splits if_splits)

lemma add_historique_status: "resp_status (fst (add_historique e p b s)) \<in> {201, 400, 500}"
  by (auto simp: add_historique_def add_historique_decide_def atomically_def catch_answer_def sbind_def
           split: sum.splits option.splits if_splits)

lemma favoris_tout_status: "resp_status (favoris_tout e p s) \<in> {200, 404, 500}"
  by (auto simp: favoris_tout_def split: list.splits)

lemma done_in_ret: "n \<in> S \<Longrightarrow> done_in S (ret (Reply n b))"
  by (simp add: done_in_def ret_def)

lemma done_in_pbind:
  assumes "\<And>a. done_in S (f a)"
  shows "done_in S (pbind m f)"
  unfolding done_in_def
proof (intro allI impI)
  fix api r
  assume "fst (pbind m f api) = Done r"
  then obtain a t1 where "m api = (Done a, t1)" "fst (f a api) = Done r"
    by (auto simp: pbind_def split: prod.splits exec.splits)
  then show "resp_status r \<in> S"
    using assms by (simp add: done_in_def)
qed

lemma done_in_try_catch:
  assumes "done_in S m" and "\<And>e. done_in S (h e)"
  shows "done_in S (try_catch m h)"
  unfolding done_in_def
proof (intro allI impI)
  fix api r
  assume "fst (try_catch m h api) = Done r"
  then have "fst (m api) = Done r \<or> (\<exists>e t1. m api = (Threw e, t1) \<and> fst (h e api) = Done r)"
    by (auto simp: try_catch_def split: prod.splits exec.splits)
  then show "resp_status r \<in> S"
    using assms by (auto simp: done_in_def)
qed

lemma done_in_if: "done_in S p \<Longrightarrow> done_in S q \<Longrightarrow> done_in S (if c then p else q)"
  by simp

lemma done_in_case_option:
  "done_in S p \<Longrightarrow> (\<And>a. done_in S (q a)) \<Longrightarrow> done_in S (case x of None \<Rightarrow> p | Some a \<Rightarrow> q a)"
  by (cases x) simp_all

lemma done_in_relay: "200 \<in> S \<Longrightarrow> 500 \<in> S \<Longrightarrow> done_in S (relay pe path)"
  by (auto simp: done_in_def relay_def split: reply.splits option.splits)

lemmas done_in_intros = done_in_try_catch done_in_pbind done_in_if done_in_case_option done_in_ret

lemma listFilmByActor_status: "done_in {200, 404, 500} (listFilmByActor name)"
  unfolding listFilmByActor_def by (intro done_in_intros) simp_all

lemma listSerieByActor_status: "done_in {200, 404, 500} (listSerieByActor name)"
  unfolding listSerieByActor_def by (intro done_in_intros) simp_all

lemma status_of_Sent [simp]: "status_of (Sent r) = Some (resp_status r)"
  by (cases r) simp

lemma documented_prog:
  "swagger_doc ep = Some (m, p, cs) \<Longrightarrow> done_in (set cs) h \<Longrightarrow> documented ep (prog_outcome h api)"
  by (auto simp: documented_def prog_outcome_def done_in_def split: exec.splits)

section \<open>Lemmas: conformance of the handlers\<close>

lemmas api_doc_defs = doc_register_def doc_login_def doc_verify_2fa_def doc_get_profile_def
  doc_update_profile_def doc_update_password_def doc_delete_account_def doc_add_favori_def
  doc_favoris_tout_def doc_add_historique_def doc_historique_tout_def doc_movie_id_by_title_def
  doc_movie_by_id_def doc_series_id_by_title_def doc_series_by_id_def doc_genres_def
  doc_series_by_rating_def doc_list_film_by_actor_def doc_list_serie_by_actor_def

lemma documented_users_step:
  assumes "swagger_doc ep = Some (m, p, cs)"
    and "\<And>r. fst (users_route ie e rq (srv_accounts st)) = Some r \<Longrightarrow> resp_status r \<in> set cs"
  shows "documented ep (fst (users_step ie e rq st))"
  using assms by (auto simp: documented_def users_step_def split: prod.splits option.splits)

lemma documented_lists_step:
  assumes "swagger_doc ep = Some (m, p, cs)"
    and "resp_status (fst (lists_route e rq (srv_lists st))) \<in> set cs"
  shows "documented ep (fst (lists_step e rq st))"
  using assms by (auto simp: documented_def lists_step_def split: prod.splits)

lemma run_endpoint_documented:
  assumes "ep \<notin> {EpLogin, EpGetProfile, EpDeleteAccount, EpHistoriqueTout}"
  shows "documented ep (fst (run_endpoint ie e api ep vs body st))"
proof (cases ep)
  case EpRegister
  then show ?thesis
    using register_status [of ie e body "srv_accounts st"]
    by (simp add: run_endpoint_def) (rule documented_users_step, simp add: swagger_doc_def api_doc_defs, simp)
next
  case EpUpdateProfile
  then show ?thesis
    using update_profile_status [of e "param1 vs" body "srv_accounts st"]
    by (simp add: run_endpoint_def) (rule documented_users_step, simp add: swagger_doc_def api_doc_defs, simp)
next
  case EpUpdatePassword
  then show ?thesis
    using update_password_status [of e "param1 vs" body "srv_accounts st"]
    by (simp add: run_endpoint_def) (rule documented_users_step, simp add: swagger_doc_def api_doc_defs, simp)
next
  case EpVerify2fa
  then show ?thesis
    by (simp add: run_endpoint_def)
       (rule documented_users_step, simp add: swagger_doc_def api_doc_defs, auto dest: verify_2fa_status)
next
  case EpAddFavori
  then show ?thesis
    using add_favori_status [of e "param1 vs" body "srv_lists st"]
    by (simp add: run_endpoint_def) (rule documented_lists_step, simp add: swagger_doc_def api_doc_defs, simp)
next
  case EpFavorisTout
  then show ?thesis
    using favoris_tout_status [of e "param1 vs" "srv_lists st"]
    by (simp add: run_endpoint_def) (rule documented_lists_step, simp add: swagger_doc_def api_doc_defs, simp)
next
  case EpAddHistorique
  then show ?thesis
    using add_historique_status [of e "param1 vs" body "srv_lists st"]
    by (simp add: run_endpoint_def) (rule documented_lists_step, simp add: swagger_doc_def api_doc_defs, simp)
next
  case EpMovieIdByTitle
  then show ?thesis
    by (simp add: run_endpoint_def)
       (rule documented_prog, simp add: swagger_doc_def api_doc_defs, simp add: movieIdByTitle_def done_in_relay)
next
  case EpMovieById
  then show ?thesis
    by (simp add: run_endpoint_def)
       (rule documented_prog, simp add: swagger_doc_def api_doc_defs, simp add: movieById_def done_in_relay)
next
  case EpSeriesIdByTitle
  then show ?thesis
    by (simp add: run_endpoint_def)
       (rule documented_prog, simp add: swagger_doc_def api_doc_defs, simp add: seriesIdByTitle_def done_in_relay)
next
  case EpSeriesById
  then show ?thesis
    by (simp add: run_endpoint_def)
       (rule documented_prog, simp add: swagger_doc_def api_doc_defs, simp add: seriesById_def done_in_relay)
next
  case EpGenres
  then show ?thesis
    by (simp add: run_endpoint_def)
       (rule documented_prog, simp add: swagger_doc_def api_doc_defs, simp add: genres_def done_in_relay)
next
  case EpSeriesByRating
  then show ?thesis
    by (simp add: run_endpoint_def)
       (rule documented_prog, simp add: swagger_doc_def api_doc_defs, simp add: seriesByRating_def done_in_relay)
next
  case EpListFilmByActor
  then show ?thesis
    using listFilmByActor_status
    by (simp add: run_endpoint_def) (rule documented_prog, simp add: swagger_doc_def api_doc_defs, simp)
next
  case EpListSerieByActor
  then show ?thesis
    using listSerieByActor_status
    by (simp add: run_endpoint_def) (rule documented_prog, simp add: swagger_doc_def api_doc_defs, simp)
qed (insert assms, simp_all add: run_endpoint_def documented_def swagger_doc_def)

section \<open>Lemmas: identifiers\<close>

lemma parse_user_id_abc: "parse_user_id ''abc'' = None"
  by (simp add: parse_user_id_def js_parseInt_def js_space_def parse_unsigned_def dec_digit_val_def
                is_digit_def hex_digit_val_def)

section \<open>Properties of the documentation\<close>

text \<open>C32. Every route the Swagger blocks document, except login, profile read, account
  deletion and full history, only sends statuses its block lists: whatever the request,
  the state and the upstream, a response sent by such a route has a documented status.\<close>

theorem serve_documented_statuses:
  assumes "dispatch m p = Found ep vs"
    and "ep \<notin> {EpLogin, EpGetProfile, EpDeleteAccount, EpHistoriqueTout}"
  shows "documented ep (fst (serve ie e api m p body st))"
  using run_endpoint_documented [OF assms(2)] by (simp add: serve_def assms(1))

lemma serve_documented_statuses_witness:
  "documented EpRegister
     (fst (serve (\<lambda>em. True) (env_at 0) (\<lambda>q. Unreachable) POST ''/api/users/register'' JNull
            \<lparr>srv_accounts = accounts0, srv_lists = \<lparr>favori = [], historique = []\<rparr>\<rparr>))"
  by (rule serve_documented_statuses [OF dispatch_register]) simp

text \<open>C33. POST /login answers 400 with \<open>msg_username_length\<close> ("La longueur du
  username doit etre egale ou superieure a 3", accents dropped here) to every request whose
  user name is a string of one or two characters (with a non-empty password and the database
  up), a status its Swagger block (200, 401, 500) does not list.\<close>

theorem login_status_undocumented:
  assumes "db_up e" and "un \<noteq> []" and "length un < 3" and "pw \<noteq> []"
  shows "fst (serve ie e api POST ''/api/users/login''
                (JObj [(''username'', JStr un), (''mdp'', JStr pw)]) st)
           = Sent (Reply 400 (message msg_username_length))
       \<and> \<not> documented EpLogin (Sent (Reply 400 (message msg_username_length)))"
  using assms
  by (simp add: serve_def dispatch_login run_endpoint_def users_step_def login_def sbind_def
                js_lt_int_def documented_def swagger_doc_def doc_login_def)

lemma login_status_undocumented_witness:
  "fst (serve (\<lambda>em. True) (env_at 0) (\<lambda>q. Unreachable) POST ''/api/users/login''
         (JObj [(''username'', JStr ''al''), (''mdp'', JStr ''Secret-Pass1'')]) \<lparr>srv_accounts = accounts0, srv_lists = \<lparr>favori = [], historique = []\<rparr>\<rparr>)
     = Sent (Reply 400 (message msg_username_length))
   \<and> \<not> documented EpLogin (Sent (Reply 400 (message msg_username_length)))"
  by (rule login_status_undocumented) (simp_all add: env_at_def)

text \<open>C34. GET /profile/:id, DELETE /profile/supprimerCompte/:id and GET /historiqueTout/:id
  answer 400 to every identifier that parseInt does not read as a positive integer (no
  leading digits, or a value that is not positive), a status none of their Swagger blocks
  lists.\<close>

theorem invalid_id_status_undocumented:
  assumes "db_up e" and "p \<noteq> []" and "parse_user_id p = None"
  shows "fst (serve ie e api GET (''/api/users/profile/'' @ encodeURIComponent p) body st)
           = Sent (Reply 400 (message msg_invalid_id))
       \<and> fst (serve ie e api DELETE (''/api/users/profile/supprimerCompte/'' @ encodeURIComponent p) body st)
           = Sent (Reply 400 (message msg_invalid_id))
       \<and> fst (serve ie e api GET (''/api/users/historiqueTout/'' @ encodeURIComponent p) body st)
           = Sent (Reply 400 (message msg_invalid_id))
       \<and> \<not> documented EpGetProfile (Sent (Reply 400 (message msg_invalid_id)))
       \<and> \<not> documented EpDeleteAccount (Sent (Reply 400 (message msg_invalid_id)))
       \<and> \<not> documented EpHistoriqueTout (Sent (Reply 400 (message msg_invalid_id)))"
proof -
  have "fst (serve ie e api GET (''/api/users/profile/'' @ encodeURIComponent p) body st)
          = Sent (Reply 400 (message msg_invalid_id))"
    using assms
    by (simp only: serve_def dispatch_profile [OF assms(2)])
       (simp add: run_endpoint_def users_step_def get_profile_def)
  moreover have "fst (serve ie e api DELETE (''/api/users/profile/supprimerCompte/'' @ encodeURIComponent p) body st)
          = Sent (Reply 400 (message msg_invalid_id))"
    using assms
    by (simp only: serve_def dispatch_delete [OF assms(2)])
       (simp add: run_endpoint_def users_step_def delete_account_def)
  moreover have "fst (serve ie e api GET (''/api/users/historiqueTout/'' @ encodeURIComponent p) body st)
          = Sent (Reply 400 (message msg_invalid_id))"
    using assms
    by (simp only: serve_def dispatch_historique_tout [OF assms(2)])
       (simp add: run_endpoint_def lists_step_def historique_tout_def)
  ultimately show ?thesis
    by (simp add: documented_def swagger_doc_def api_doc_defs)
qed

lemma invalid_id_status_undocumented_witness:
  "fst (serve (\<lambda>em. True) (env_at 0) (\<lambda>q. Unreachable) GET (''/api/users/profile/'' @ encodeURIComponent ''abc'') JNull \<lparr>srv_accounts = accounts0, srv_lists = \<lparr>favori = [], historique = []\<rparr>\<rparr>)
     = Sent (Reply 400 (message msg_invalid_id))
   \<and> fst (serve (\<lambda>em. True) (env_at 0) (\<lambda>q. Unreachable) DELETE (''/api/users/profile/supprimerCompte/'' @ encodeURIComponent ''abc'') JNull
          \<lparr>srv_accounts = accounts0, srv_lists = \<lparr>favori = [], historique = []\<rparr>\<rparr>)
     = Sent (Reply 400 (message msg_invalid_id))
   \<and> fst (serve (\<lambda>em. True) (env_at 0) (\<lambda>q. Unreachable) GET (''/api/users/historiqueTout/'' @ encodeURIComponent ''abc'') JNull \<lparr>srv_accounts = accounts0, srv_lists = \<lparr>favori = [], historique = []\<rparr>\<rparr>)
     = Sent (Reply 400 (message msg_invalid_id))
   \<and> \<not> documented EpGetProfile (Sent (Reply 400 (message msg_invalid_id)))
   \<and> \<not> documented EpDeleteAccount (Sent (Reply 400 (message msg_invalid_id)))
   \<and> \<not> documented EpHistoriqueTout (Sent (Reply 400 (message msg_invalid_id)))"
  by (rule invalid_id_status_undocumented) (simp_all add: env_at_def parse_user_id_abc)

end
