(* ===== verification/Concurrency.thy ===== *)
theory Concurrency
  imports Accounts
begin

text \<open>
  Requests whose handlers interleave. The handlers of \<open>/register\<close>, \<open>PUT /profile/:id\<close>,
  \<open>POST /favoris/:id\<close> and \<open>POST /historique/:id/\<close> run their SELECT statements, await
  (bcrypt, the database), and write last; other requests run while they wait. A thread is a
  handler not yet started (\<open>Ready\<close>, the decision it takes on the state it reads), one that
  has decided to write and awaits (\<open>Waiting\<close>, its answer and pending write), or one that
  has answered. \<open>conc_step\<close> lets any thread take its next step: a decision reads the
  current state, a write changes it. A run of \<open>conc_step\<close> is a schedule of the event loop
  in which each handler's reads happen together and its write later.
\<close>

section \<open>Interleaved handlers\<close>

datatype 's thread = Ready "'s \<Rightarrow> 's handled" | Waiting response "'s \<Rightarrow> 's" | Answered response

inductive conc_step :: "'s \<times> 's thread list \<Rightarrow> 's \<times> 's thread list \<Rightarrow> bool" where
  decide_answer: "\<lbrakk>i < length ts; ts ! i = Ready d; d s = Answer r\<rbrakk>
    \<Longrightarrow> conc_step (s, ts) (s, ts[i := Answered r])"
| decide_commit: "\<lbrakk>i < length ts; ts ! i = Ready d; d s = Commit r w\<rbrakk>
    \<Longrightarrow> conc_step (s, ts) (s, ts[i := Waiting r w])"
| commit_write: "\<lbrakk>i < length ts; ts ! i = Waiting r w\<rbrakk>
    \<Longrightarrow> conc_step (s, ts) (w s, ts[i := Answered r])"

section \<open>Lemmas: a registration decided on a table that has the name\<close>

lemma register_decide_refused:
  assumes "register_decide ie e body s = Commit r w"
    and "users_where u_username un s' \<noteq> []" and "js_get body ''username'' = Inr un"
  shows "\<exists>m. register_decide ie e body s' = Answer (Reply 400 (message m))"
  using assms
  by (auto simp: register_decide_def catch_answer_def sbind_def
           split: if_splits sum.splits option.splits)

lemma users_where_insert:
  "users_where u_username un (insert_user un pr nm ag em h s) \<noteq> []"
  by (simp add: users_where_def insert_user_def)

section \<open>Two registrations with one user name\<close>

text \<open>C23. The uniqueness check of POST /register is not atomic with its INSERT. From a
  well-formed table in which two registrations with the same user name would each be
  accepted, the schedule in which both read the table before either writes answers 201 to
  both and leaves two accounts with that name (the table is no longer well formed), while the
  schedule in which the first writes before the second reads refuses the second with 400 and
  keeps the table well formed.\<close>

theorem register_race:
  assumes "accounts_ok s"
    and "register_decide ie e ba s = Commit ra wa" and "register_decide ie e bb s = Commit rb wb"
    and "js_get ba ''username'' = js_get bb ''username''"
  shows "(\<exists>s'. conc_step\<^sup>*\<^sup>* (s, [Ready (register_decide ie e ba), Ready (register_decide ie e bb)])
                  (s', [Answered (Reply 201 (message msg_user_created)),
                        Answered (Reply 201 (message msg_user_created))])
              \<and> \<not> accounts_ok s')
       \<and> (\<exists>s'' m. conc_step\<^sup>*\<^sup>* (s, [Ready (register_decide ie e ba), Ready (register_decide ie e bb)])
                  (s'', [Answered (Reply 201 (message msg_user_created)),
                         Answered (Reply 400 (message m))])
              \<and> accounts_ok s'')"
proof -
  obtain un nm1 pr1 ag1 em1 pw1 where c1: "js_get ba ''username'' = Inr un"
      "ra = Reply 201 (message msg_user_created)"
      "wa = insert_user un pr1 nm1 ag1 (JStr em1) (bcrypt_hash pw1)"
    using register_decide_commit [OF assms(2)] by blast
  obtain nm2 pr2 ag2 em2 pw2 where c2: "js_get bb ''username'' = Inr un"
      "rb = Reply 201 (message msg_user_created)"
      "wb = insert_user un pr2 nm2 ag2 (JStr em2) (bcrypt_hash pw2)"
    using register_decide_commit [OF assms(3)] assms(4) c1(1) by fastforce
  let ?t = "[Ready (register_decide ie e ba), Ready (register_decide ie e bb)]"
  have race: "conc_step\<^sup>*\<^sup>* (s, ?t) (wb (wa s), [Answered ra, Answered rb])"
  proof -
    have "conc_step (s, ?t) (s, [Waiting ra wa, Ready (register_decide ie e bb)])"
      using conc_step.decide_commit [of 0 ?t _ s ra wa] assms(2) by simp
    moreover have "conc_step (s, [Waiting ra wa, Ready (register_decide ie e bb)])
                             (s, [Waiting ra wa, Waiting rb wb])"
      using conc_step.decide_commit [of 1 "[Waiting ra wa, Ready (register_decide ie e bb)]" _ s rb wb]
        assms(3) by simp
    moreover have "conc_step (s, [Waiting ra wa, Waiting rb wb]) (wa s, [Answered ra, Waiting rb wb])"
      using conc_step.commit_write [of 0 "[Waiting ra wa, Waiting rb wb]" ra wa s] by simp
    moreover have "conc_step (wa s, [Answered ra, Waiting rb wb]) (wb (wa s), [Answered ra, Answered rb])"
      using conc_step.commit_write [of 1 "[Answered ra, Waiting rb wb]" rb wb "wa s"] by simp
    ultimately show ?thesis by (meson rtranclp.rtrancl_into_rtrancl rtranclp.rtrancl_refl)
  qed
  have "\<not> distinct (map u_username (users (wb (wa s))))"
    using c1(3) c2(3) by (simp add: insert_user_def)
  then have bad: "\<not> accounts_ok (wb (wa s))" by (simp add: accounts_ok_def)
  obtain m where m: "register_decide ie e bb (wa s) = Answer (Reply 400 (message m))"
    using register_decide_refused [OF assms(3) _ c2(1)] c1(3) users_where_insert by blast
  have seq: "conc_step\<^sup>*\<^sup>* (s, ?t) (wa s, [Answered ra, Answered (Reply 400 (message m))])"
  proof -
    have "conc_step (s, ?t) (s, [Waiting ra wa, Ready (register_decide ie e bb)])"
      using conc_step.decide_commit [of 0 ?t _ s ra wa] assms(2) by simp
    moreover have "conc_step (s, [Waiting ra wa, Ready (register_decide ie e bb)])
                             (wa s, [Answered ra, Ready (register_decide ie e bb)])"
      using conc_step.commit_write [of 0 "[Waiting ra wa, Ready (register_decide ie e bb)]" ra wa s] by simp
    moreover have "conc_step (wa s, [Answered ra, Ready (register_decide ie e bb)])
                             (wa s, [Answered ra, Answered (Reply 400 (message m))])"
      using conc_step.decide_answer [of 1 "[Answered ra, Ready (register_decide ie e bb)]" _ "wa s"] m
      by simp
    ultimately show ?thesis by (meson rtranclp.rtrancl_into_rtrancl rtranclp.rtrancl_refl)
  qed
  have "register ie e ba s = (ra, wa s)"
    by (simp add: register_def assms(2) atomically_def)
  from register_step [OF this] have "accounts_ok (wa s)"
    by (elim disjE exE conjE) (simp_all add: assms(1) accounts_ok_insert)
  then show ?thesis using race bad seq c1(2) c2(2) by blast
qed

lemma register_race_witness:
  "(\<exists>s'. conc_step\<^sup>*\<^sup>* (accounts0, [Ready (register_decide (\<lambda>em. CHR ''@'' \<in> set em) (env_at 5) bob_body), Ready (register_decide (\<lambda>em. CHR ''@'' \<in> set em) (env_at 5) (JObj [(''username'', JStr ''bob''), (''nom'', JStr ''Durand''), (''prenom'', JStr ''Bob''), (''age'', JNum 41), (''email'', JStr ''bob2@example.com''), (''mdp'', JStr ''Another#Pass9'')]))])
           (s', [Answered (Reply 201 (message msg_user_created)), Answered (Reply 201 (message msg_user_created))]) \<and> \<not> accounts_ok s')
   \<and> (\<exists>s'' m. conc_step\<^sup>*\<^sup>* (accounts0, [Ready (register_decide (\<lambda>em. CHR ''@'' \<in> set em) (env_at 5) bob_body), Ready (register_decide (\<lambda>em. CHR ''@'' \<in> set em) (env_at 5) (JObj [(''username'', JStr ''bob''), (''nom'', JStr ''Durand''), (''prenom'', JStr ''Bob''), (''age'', JNum 41), (''email'', JStr ''bob2@example.com''), (''mdp'', JStr ''Another#Pass9'')]))])
           (s'', [Answered (Reply 201 (message msg_user_created)), Answered (Reply 400 (message m))]) \<and> accounts_ok s'')"
proof (rule register_race [where ra = "Reply 201 (message msg_user_created)" and rb = "Reply 201 (message msg_user_created)" and wa = "insert_user (JStr ''bob'') (JStr ''Bob'') (JStr ''Durand'') (JNum 41) (JStr ''bob@example.com'') (bcrypt_hash ''Another#Pass9'')" and wb = "insert_user (JStr ''bob'') (JStr ''Bob'') (JStr ''Durand'') (JNum 41) (JStr ''bob2@example.com'') (bcrypt_hash ''Another#Pass9'')"])
  show "accounts_ok accounts0"
    by (simp add: accounts_ok_def accounts0_def alice_row_def)
  show "register_decide (\<lambda>em. CHR ''@'' \<in> set em) (env_at 5) bob_body accounts0 = Commit (Reply 201 (message msg_user_created)) (insert_user (JStr ''bob'') (JStr ''Bob'') (JStr ''Durand'') (JNum 41) (JStr ''bob@example.com'') (bcrypt_hash ''Another#Pass9''))"
    by (simp add: register_decide_def catch_answer_def bob_body_def env_at_def first_missing_def
                  js_lt_int_def js_string_to_int_def users_where_def accounts0_def alice_row_def
                  password_policy_def password_classes_def is_upper_def is_lower_def is_digit_def
                  is_word_char_def is_alnum_def js_space_def bcrypt_hash_js_def)
  show "register_decide (\<lambda>em. CHR ''@'' \<in> set em) (env_at 5) (JObj [(''username'', JStr ''bob''), (''nom'', JStr ''Durand''), (''prenom'', JStr ''Bob''), (''age'', JNum 41), (''email'', JStr ''bob2@example.com''), (''mdp'', JStr ''Another#Pass9'')]) accounts0 = Commit (Reply 201 (message msg_user_created)) (insert_user (JStr ''bob'') (JStr ''Bob'') (JStr ''Durand'') (JNum 41) (JStr ''bob2@example.com'') (bcrypt_hash ''Another#Pass9''))"
    by (simp add: register_decide_def catch_answer_def env_at_def first_missing_def
                  js_lt_int_def js_string_to_int_def users_where_def accounts0_def alice_row_def
                  password_policy_def password_classes_def is_upper_def is_lower_def is_digit_def
                  is_word_char_def is_alnum_def js_space_def bcrypt_hash_js_def)
qed (simp add: bob_body_def)

end
