(* ===== verification/Spec2Isabelle.thy ===== *)
theory Spec2Isabelle
  imports TwoFactor ApiDoc Concurrency
begin

text \<open>
  \<^bold>\<open>A verification model of the CICDvite back end (src/back).\<close>

  \<^bold>\<open>The program.\<close> An Express server (\<open>server.js\<close>) mounts two families of
  routes. Under \<open>/api/search\<close>, the files of \<open>src/back/apiRequest\<close> proxy a
  third-party movie metadata API (\<open>moviesminidatabase.p.rapidapi.com\<close>): relays forward
  one request and send the parsed document back; aggregators resolve a name or title to an
  identifier ("first candidate wins") and fan out to dependent requests (actor details,
  filmographies, cast with per-actor enrichment). Under \<open>/api/users\<close>, the files of
  \<open>src/back/routes\<close> implement accounts (registration, login with an e-mailed 2FA code,
  profile, password) and favourites and watch history on a MySQL database.

  \<^bold>\<open>Theories and what they model.\<close>
  \<^item> \<open>Prelude\<close>: the named collections \<open>js_simps\<close> and \<open>prog_simps\<close>, results that
    may throw (\<open>'e + 'a\<close> with \<open>sbind\<close>), array methods whose callback may throw
    (\<open>filter_sum\<close>, \<open>map_sum\<close>) and shared list lemmas.
  \<^item> \<open>JsValue\<close>: JavaScript values (\<open>jsval\<close>) and the operations the handlers use:
    truthiness, property and index access (a \<open>TypeError\<close> on \<open>undefined\<close>/\<open>null\<close>),
    \<open>String(v)\<close>, \<open>v > 0\<close>, \<open>v < k\<close>, \<open>trim\<close>, \<open>encodeURIComponent\<close> with its
    decoder, \<open>parseInt\<close>, the string check of the \<open>validator\<close> library and UTF-8 bytes. These are the language's runtime, not code of the repository; they are
    modelled from the language definition on Latin-1 code units and integer numbers.
    Lemmas: \<open>String(i)\<close> is a canonical array index and \<open>parseInt(String(i)) = i\<close>;
    decoding inverts encoding and an encoded segment has no \<open>/\<close>.
  \<^item> \<open>Upstream\<close>: the upstream as a function \<open>api\<close> from request path to
    \<open>reply\<close> (\<open>Unreachable\<close>: the request's \<open>error\<close> event; \<open>Malformed\<close>: a
    body \<open>JSON.parse\<close> refuses; \<open>Parsed v\<close>). A handler is a \<open>'a prog\<close>: it returns
    an outcome (\<open>Done\<close>, \<open>Threw\<close> for a thrown exception or rejected promise,
    \<open>Crashed\<close> for an exception thrown inside a stream event listener, which kills the
    process) and the list of upstream paths it requested, in order. The two promise
    wrappers of the sources are \<open>fetch_json\<close> (parse inside \<open>try\<close>, rejects) and
    \<open>fetch_json_unguarded\<close> (parse in the \<open>'end'\<close> callback, crashes); the two loop
    shapes are \<open>map_prog\<close> (abort on the first rejection) and \<open>collect_skip\<close>
    (\<open>try\<close>/\<open>catch\<close> per element), with the monad laws, evaluation rules, and the
    refinement of \<open>collect_skip\<close> to its list specification \<open>skip_spec\<close>.
  \<^item> \<open>Aggregation\<close>: the pieces the aggregators repeat inline: upstream paths, the
    resolver \<open>first_result_id\<close>, the cast extractor (\<open>cast_roles\<close>,
    \<open>performer_role\<close>, \<open>actor_roles\<close>: filter \<open>Director\<close>/\<open>Writer\<close>, keep ten),
    the per-actor enrichment (\<open>enrich_role\<close>, \<open>enrich_cast\<close>) and the filmography
    identifier lists (\<open>results_array\<close>, \<open>first_ids\<close>).
  \<^item> \<open>SearchRoutes\<close>: one definition per \<open>router.get\<close> of \<open>src/back/apiRequest\<close>:
    the relays (\<open>movieIdByTitle\<close>, \<open>movieById\<close>, \<open>seriesIdByTitle\<close>,
    \<open>seriesById\<close>, \<open>genres\<close>, \<open>moviesByGenre\<close>, \<open>seriesByRating\<close>,
    \<open>actorById\<close>) and the aggregators (\<open>getActorInfo\<close>, \<open>listFilmByActor\<close>,
    \<open>listSerieByActor\<close>, \<open>castByMovie\<close>, \<open>castInfoByMovie\<close>), with the messages
    they send.

  \<^item> \<open>Accounts\<close>: \<open>src/back/routes/users.js\<close>. The state \<open>accounts\<close> is the
    \<open>users\<close> table (rows \<open>user_row\<close>, the \<open>AUTO_INCREMENT\<close> counter) and the
    object \<open>twoFA\<close> of line 12, with JavaScript property semantics: its own properties
    (\<open>twoFA\<close>) and its prototype (\<open>twoFA_proto\<close>, which the assignment
    \<open>twoFA['__proto__'] = {...}\<close> of line 250 replaces); \<open>twoFA_get\<close> reads a key
    as line 337 does (own property, else the prototype chain, where the keys of
    \<open>Object.prototype\<close> are truthy objects), \<open>twoFA_assign\<close> and \<open>twoFA_delete\<close>
    write it as lines 250 and 368 do. Each route is a function from the environment of
    the call (\<open>env\<close>: \<open>connectToDb()\<close> succeeded, \<open>Date.now()\<close>, the value of
    \<open>crypto.randomInt\<close>, \<open>sendMail\<close> succeeded), the request and the state to the
    response and the new state: \<open>register\<close>, \<open>login\<close>, \<open>verify_2fa\<close>,
    \<open>get_profile\<close>, \<open>update_profile\<close>, \<open>update_password\<close>,
    \<open>delete_account\<close>, \<open>test_route\<close>, dispatched by \<open>users_route\<close>. SQL statements
    are list operations on the table (\<open>users_where\<close>, \<open>used_by_other\<close>,
    \<open>insert_user\<close>, \<open>update_row\<close>, \<open>sql_delete_users\<close>); the password policy is
    \<open>password_policy\<close>. A step lemma per route says the state is unchanged or receives
    exactly the route's update after all its checks; \<open>accounts_ok\<close> is the
    well-formedness invariant of the table. The request bodies of \<open>test/user.test.js\<close>
    (\<open>user_test_register\<close>, \<open>user_test_login\<close>) are modelled to compare the tests'
    expectations with the handlers.
    The statement \<open>DELETE FROM users WHERE id_user = ?\<close> is modelled against the column
    list \<open>users_columns\<close>, written from the columns the other statements of
    \<open>users.js\<close> use, since the schema is not in the repository; no claim rests on it.
  \<^item> \<open>TwoFactor\<close>: runs of requests (\<open>users_run\<close>), the code a verification of a
    name would compare with (\<open>pending\<close>: the own property, or the prototype for
    \<open>__proto__\<close>), the predicate \<open>untouched\<close> and the origin of a pending code
    (\<open>pending_origin\<close>).
  \<^item> \<open>Concurrency\<close>: the event loop's interleaving of handlers that await between their
    reads and their write: a thread is \<open>Ready\<close> (its decision to take), \<open>Waiting\<close>
    (its write pending) or \<open>Answered\<close>, and \<open>conc_step\<close> lets any thread take
    its next step on the shared state.
  \<^item> \<open>UserLists\<close>: \<open>src/back/routes/favoris.js\<close> and \<open>historique.js\<close> on the tables
    \<open>favori\<close> and \<open>historique\<close> (record \<open>lists\<close>): \<open>add_favori\<close>,
    \<open>favoris_tout\<close>, \<open>add_historique\<close>, \<open>historique_tout\<close>, dispatched by
    \<open>lists_route\<close>; parameters are bound as \<open>mysql2\<close> binds them (\<open>sql_param\<close>) and
    compared with SQL's \<open>NULL\<close> rule (\<open>sql_eq\<close>). Tables are lists in insertion order: a \<open>SELECT\<close>
    without \<open>ORDER BY\<close> is modelled as returning the rows in that order, an assumption
    about MySQL (InnoDB returns a table scan in primary-key order, here the insertion order)
    on which C35 and C37 rely for the order of the listed rows.
  \<^item> \<open>Routing\<close>: \<open>src/back/server.js\<close>. \<open>route_table\<close> lists, in the order Express
    tries them, the method, mount path (lines 42-72) and route path (the
    \<open>router.METHOD(path)\<close> declarations of each mounted module) of every route, with its
    handler (\<open>endpoint\<close>). Express 4's matching is \<open>match_segs\<close> on the segments of
    the path (\<open>path_segs\<close>, \<open>pattern\<close>: case-insensitive literals, non-empty
    parameters, optional trailing slash), \<open>find_route\<close> takes the first match and
    \<open>dispatch\<close> decodes the parameters. \<open>serve\<close> runs the dispatched handler on the
    state the routers share (record \<open>server\<close>: the \<open>accounts\<close> of \<open>users.js\<close> and
    the \<open>lists\<close> of the list routers) and answers 404 or 400 as Express does when no
    route matches or a parameter does not decode; a search handler's outcome becomes
    \<open>Sent\<close>, \<open>Unhandled\<close> (rejected promise) or \<open>ProcessExit\<close> (crash).
  \<^item> \<open>ApiDoc\<close>: the \<open>@swagger\<close> blocks of the route modules, which \<open>server.js\<close>
    collects for \<open>/api-doc\<close> (lines 18-35): one definition per block
    (\<open>doc_register\<close>, ..., \<open>doc_list_serie_by_actor\<close>: method, path, documented
    statuses), \<open>swagger_doc\<close> assigning them to endpoints, and \<open>documented\<close>, which
    says an outcome's status is one its block lists. The lemmas bound the statuses each
    handler sends (\<open>done_in\<close> for the search handlers, closed under the monad).

  \<^bold>\<open>Interleaving.\<close> The handlers \<open>register\<close>, \<open>update_profile\<close>, \<open>add_favori\<close>
  and \<open>add_historique\<close> read the database, await, and write last. Each is modelled as a
  decision on the state its queries read (\<open>..._decide\<close>, a value of \<open>handled\<close>: an
  answer, or an answer and the pending write) and the handler run without interruption is
  \<open>atomically\<close> of it. The invariants (C2, C24) are stated for requests that do not
  interleave; C23 runs two registrations under \<open>conc_step\<close> and shows what happens
  when they do.

  \<^bold>\<open>What the lemmas show.\<close>
  Accounts and two-factor authentication: from a server start, an accepted 2FA verification
  uses the code of the latest login for that name that passed the password check, at most
  ten minutes earlier, untouched since, and deletes it, except for the name
  \<open>__proto__\<close> (C1); for every other name a code is accepted once (C7), while the code of
  an account named \<open>__proto__\<close> becomes twoFA's prototype, is never deleted and is
  accepted again (C14); wrong guesses change nothing, so attempts are unlimited (C16).
  Every route preserves distinct identifiers and unique e-mails and user names (C2);
  registration answers 201 only after every check and then appends exactly the request's
  row (C8); the requests of \<open>user.test.js\<close> are answered 400, not 201/200/401 as the
  tests expect (C28); profiles are served to any caller, no token is read (C15); the
  profile update skips the user-name and e-mail checks of registration (C17); the
  identifier check accepts exactly the positive numerals (C22); under the interleaving
  semantics two registrations with one user name can both succeed and duplicate it, while
  run one after the other the second is refused (C23).
  Favourites and history: without interleaving no two rows match each other's duplicate
  check (C24); a favourite without \<open>id_filmAPI\<close> is inserted every time, NULL never
  being equal to NULL (C25); the favourite routes take any path string as the user id (C26).
  Search: cast extraction keeps at most ten performers in order and never a director or
  writer (C3). A name that resolves to nothing gives 404 with no further request (C4); a
  transport failure gives 500 with a generic message (C11). The cast fan-out is bounded by
  eleven requests (C5), enriches in order (C6), and aborts at the first failing actor (C10);
  a payload without roles gives an empty cast (C19). The filmography loop of
  \<open>listFilmByActor\<close> refines "the parsed documents, in order" (C9), while
  \<open>listSerieByActor\<close> crashes on one malformed series body (C13), as \<open>castByMovie\<close>
  does on a malformed lookup body (C12); the successful movie scenario (C18). Names are
  encoded losslessly into one path segment (C20). Over HTTP, the series-by-id route
  requests the movie resource and answers what the movie-by-id route answers (C21).
  Routing: no two routes with one method overlap, so the first match is the only one and
  the mount order does not matter (C27); a client that percent-encodes a name reaches
  \<open>getActorInfo\<close> with that name (C29); GET requests change no state (C30). Two-factor
  liveness: after a login that mailed a code, a timely verification with that code succeeds
  (C31). Documentation: every documented route but four sends only documented statuses
  (C32); login answers an undocumented 400 to every one- or two-character user name (C33),
  as do the profile, deletion and history routes to every invalid identifier (C34).
  Across components (this theory): a favourite added over HTTP with an encoded identifier
  is listed last by the listing route (C35), and so is a history entry (C37); the login
  and 2FA verification routes complete the protocol over HTTP, and the only change is the
  deletion of the name's own property of \<open>twoFA\<close> (C36).

  \<^bold>\<open>Bounds and fuel.\<close> Every loop of the modelled code iterates over a finite list it
  already holds, so every definition is structurally recursive: no fuel is needed, and
  every handler returns an outcome for every upstream (termination of the model is by
  construction; a request the upstream never answers is outside the model, see below).
  The 2FA lifetime is the source's \<open>10 * 60 * 1000\<close> ms (\<open>two_fa_ttl\<close>); the code is
  whatever \<open>env\<close> says \<open>randomInt\<close> drew, so the properties hold for every draw.

  \<^bold>\<open>Not modelled.\<close> Timing: an upstream that never answers leaves a handler waiting
  for ever; the model's \<open>api\<close> always answers. Logging (\<open>console.log\<close>). The
  floating-point side of numbers and strings outside Latin-1. The Swagger setup and the
  express middleware. Libraries the sources only call are modelled by what the code
  observes of them: bcrypt by the first 72 UTF-8 bytes of the password (no salt), a JWT by
  its payload, \<open>validator.isEmail\<close> as a parameter, mail delivery and the connection
  as booleans of \<open>env\<close>. MySQL comparison is equality of the bound and the stored
  values (a binary collation); a statement that fails for a reason other than an unknown
  column is not modelled. Outside Concurrency, a request is one atomic step; Concurrency
  splits a handler at its last await only (reads, then the write).
  \<open>listgetFilmsOrderByRatings.js\<close> and \<open>db.js\<close>,
  required by \<open>server.js\<close>, are not in the repository; without the schema, column types,
  NOT NULL and UNIQUE constraints are not modelled, and MySQL's conversions between strings
  and numbers are not either. In the route table: \<open>/api-doc\<close> (Swagger UI), the CORS
  and body-parser middleware (a body is a parsed \<open>jsval\<close>), query strings and paths with
  empty inner segments.

  \<^bold>\<open>Plan.\<close> (1) Search aggregators and relays: done. (2) Accounts of \<open>users.js\<close>
  and the two-factor protocol: done. (3) Favourites and history: done. (4) The route table of
  \<open>server.js\<close> as a dispatch function over the shared server state: done. (5) Interleaving of the check-then-write handlers: done for registration. (6) Finer
  interleavings: each await of a handler as a step of its own.
\<close>

section \<open>Properties across components\<close>

text \<open>C35. A favourite added over HTTP is listed: after \<open>POST /api/users/favoris/\<close> with
  the client-encoded identifier answers 201, \<open>GET /api/users/favorisTout/\<close> with the same
  identifier answers 200 with the user's earlier favourites followed by the new one, whatever
  other state the server holds.\<close>

theorem favourite_add_then_list:
  assumes "uid \<noteq> []"
    and "serve ie e api POST (''/api/users/favoris/'' @ encodeURIComponent uid) body st
           = (Sent (Reply 201 r), st')"
    and "db_up e'"
  shows "\<exists>v fid. js_get body ''id_filmAPI'' = Inr v \<and> sql_param v = Inr fid
           \<and> fst (serve ie e' api GET (''/api/users/favorisTout/'' @ encodeURIComponent uid) body' st')
               = Sent (Reply 200 (JObj [(''favoris'', JArr (map fav_json
                   (filter (\<lambda>r. sql_eq (f_user r) (JStr uid)) (favori (srv_lists st))
                    @ [\<lparr>f_user = JStr uid, f_film = fid\<rparr>])))]))"
proof -
  obtain r' l' where add: "add_favori e uid body (srv_lists st) = (r', l')" by fastforce
  have "serve ie e api POST (''/api/users/favoris/'' @ encodeURIComponent uid) body st
          = (Sent r', st\<lparr>srv_lists := l'\<rparr>)"
    by (simp only: serve_def dispatch_favoris [OF assms(1)]) (simp add: run_endpoint_def lists_step_def add)
  with assms(2) have "r' = Reply 201 r" "st' = st\<lparr>srv_lists := l'\<rparr>"
    by simp_all
  with add obtain v fid where "js_get body ''id_filmAPI'' = Inr v" "sql_param v = Inr fid"
      "l' = insert_favori (JStr uid) fid (srv_lists st)"
    using add_favori_created by blast
  moreover have "fst (serve ie e' api GET (''/api/users/favorisTout/'' @ encodeURIComponent uid) body' st')
      = Sent (favoris_tout e' uid (srv_lists st'))"
    by (simp only: serve_def dispatch_favoris_tout [OF assms(1)]) (simp add: run_endpoint_def lists_step_def)
  ultimately show ?thesis
    using \<open>st' = _\<close> assms(3) by (simp add: favoris_tout_insert)
qed

lemma favourite_add_then_list_witness:
  "\<exists>v fid. js_get (JObj [(''id_filmAPI'', JStr ''tt0111161'')]) ''id_filmAPI'' = Inr v
     \<and> sql_param v = Inr fid
     \<and> fst (serve (\<lambda>em. True) (env_at 0) (\<lambda>q. Unreachable) GET
              (''/api/users/favorisTout/'' @ encodeURIComponent ''7'') JNull
              \<lparr>srv_accounts = accounts0,
               srv_lists = \<lparr>favori = [\<lparr>f_user = JStr ''7'', f_film = JStr ''tt0111161''\<rparr>],
                            historique = []\<rparr>\<rparr>)
         = Sent (Reply 200 (JObj [(''favoris'', JArr (map fav_json
             (filter (\<lambda>r. sql_eq (f_user r) (JStr ''7'')) (favori (srv_lists \<lparr>srv_accounts = accounts0, srv_lists = \<lparr>favori = [], historique = []\<rparr>\<rparr>))
              @ [\<lparr>f_user = JStr ''7'', f_film = fid\<rparr>])))]))"
proof (rule favourite_add_then_list [where e = "env_at 0" and body = "JObj [(''id_filmAPI'', JStr ''tt0111161'')]"
                                      and r = "message msg_favourite_added"])
  show "serve (\<lambda>em. True) (env_at 0) (\<lambda>q. Unreachable) POST (''/api/users/favoris/'' @ encodeURIComponent ''7'')
          (JObj [(''id_filmAPI'', JStr ''tt0111161'')]) \<lparr>srv_accounts = accounts0, srv_lists = \<lparr>favori = [], historique = []\<rparr>\<rparr> =
        (Sent (Reply 201 (message msg_favourite_added)),
         \<lparr>srv_accounts = accounts0,
          srv_lists = \<lparr>favori = [\<lparr>f_user = JStr ''7'', f_film = JStr ''tt0111161''\<rparr>], historique = []\<rparr>\<rparr>)"
  proof -
    have "dispatch POST (''/api/users/favoris/'' @ encodeURIComponent ''7'') = Found EpAddFavori [''7'']"
      by (rule dispatch_favoris) simp
    then show ?thesis
      by (simp only: serve_def)
         (simp_all add: run_endpoint_def lists_step_def add_favori_def add_favori_decide_def env_at_def
                        insert_favori_def)
  qed
qed (simp_all add: env_at_def)

text \<open>C36. The two-factor login completes over HTTP: after \<open>POST /api/users/login\<close> answers
  200, \<open>POST /api/users/verify-2fa\<close> with the same user name and the drawn code, at most ten
  minutes later and with the database up, answers 200 with a token for that account; the
  only change to the server state is the deletion of the own property of that name from
  \<open>twoFA\<close> (which for the name \<open>__proto__\<close> deletes nothing).\<close>

theorem http_login_then_verify:
  assumes "serve ie e api POST ''/api/users/login'' b st = (Sent (Reply 200 r), st1)"
    and "js_get b ''username'' = Inr un"
    and "js_get b2 ''username'' = Inr un" and "js_get b2 ''code'' = Inr code"
    and "js_parseInt code = Some (rand_code e)"
    and "now e2 \<le> now e + two_fa_ttl" and "db_up e2"
  shows "\<exists>user. u_username user = un \<and>
           serve ie e2 api' POST ''/api/users/verify-2fa'' b2 st1 =
             (Sent (Reply 200 (JObj [(''message'', JStr msg_auth_ok), (''token'', jwt_token user),
                                     (''userId'', JNum (u_id user))])),
              st1\<lparr>srv_accounts := twoFA_delete (js_to_string un) (srv_accounts st1)\<rparr>)"
proof -
  let ?s = "srv_accounts st"
  obtain resp s1 where lg: "login e b ?s = (resp, s1)" by fastforce
  with assms(1) have "resp = Reply 200 r" "st1 = st\<lparr>srv_accounts := s1\<rparr>"
    by (simp_all add: serve_def dispatch_login run_endpoint_def users_step_def)
  with lg obtain user rest where u: "users_where u_username un ?s = user # rest" "u_username user = un"
      "s1 = twoFA_assign (js_to_string un) \<lparr>ai_code = rand_code e, ai_expires = now e + two_fa_ttl\<rparr> ?s"
    using login_sent_user [OF _ assms(2)] by blast
  have "users_where u_username un s1 = user # rest"
    using u(1,3) by simp
  then have "verify_2fa e2 b2 s1 =
           (Some (Reply 200 (JObj [(''message'', JStr msg_auth_ok), (''token'', jwt_token user),
                                   (''userId'', JNum (u_id user))])),
            twoFA_delete (js_to_string un) s1)"
    using assms(3-7) u(3)
    by (intro verify_2fa_accept [where ai = "\<lparr>ai_code = rand_code e, ai_expires = now e + two_fa_ttl\<rparr>"])
       simp_all
  then have "serve ie e2 api' POST ''/api/users/verify-2fa'' b2 st1 =
             (Sent (Reply 200 (JObj [(''message'', JStr msg_auth_ok), (''token'', jwt_token user),
                                     (''userId'', JNum (u_id user))])),
              st1\<lparr>srv_accounts := twoFA_delete (js_to_string un) (srv_accounts st1)\<rparr>)"
    using \<open>st1 = _\<close> by (simp add: serve_def dispatch_verify_2fa run_endpoint_def users_step_def)
  then show ?thesis
    using u(2) by blast
qed

lemma http_login_then_verify_witness:
  "\<exists>user. u_username user = JStr ''alice'' \<and>
     serve (\<lambda>em. True) (env_at 1100) (\<lambda>q. Unreachable) POST ''/api/users/verify-2fa''
       (verify_alice (JStr ''123456'')) \<lparr>srv_accounts = accounts0\<lparr>twoFA := [''alice'' \<mapsto> \<lparr>ai_code = 123456, ai_expires = 1000 + two_fa_ttl\<rparr>]\<rparr>,
        srv_lists = \<lparr>favori = [], historique = []\<rparr>\<rparr> =
     (Sent (Reply 200 (JObj [(''message'', JStr msg_auth_ok), (''token'', jwt_token user),
                                     (''userId'', JNum (u_id user))])),
      \<lparr>srv_accounts = accounts0\<lparr>twoFA := [''alice'' \<mapsto> \<lparr>ai_code = 123456, ai_expires = 1000 + two_fa_ttl\<rparr>]\<rparr>,
        srv_lists = \<lparr>favori = [], historique = []\<rparr>\<rparr>\<lparr>srv_accounts := twoFA_delete (js_to_string (JStr ''alice'')) (srv_accounts \<lparr>srv_accounts = accounts0\<lparr>twoFA := [''alice'' \<mapsto> \<lparr>ai_code = 123456, ai_expires = 1000 + two_fa_ttl\<rparr>]\<rparr>,
        srv_lists = \<lparr>favori = [], historique = []\<rparr>\<rparr>)\<rparr>)"
proof (rule http_login_then_verify [where e = "env_at 1000" and b = login_alice and api = "\<lambda>q. Unreachable"
                                     and r = "message msg_code_sent" and code = "JStr ''123456''"
                                     and st = "\<lparr>srv_accounts = accounts0, srv_lists = \<lparr>favori = [], historique = []\<rparr>\<rparr>"])
  show "serve (\<lambda>em. True) (env_at 1000) (\<lambda>q. Unreachable) POST ''/api/users/login'' login_alice \<lparr>srv_accounts = accounts0, srv_lists = \<lparr>favori = [], historique = []\<rparr>\<rparr> =
        (Sent (Reply 200 (message msg_code_sent)), \<lparr>srv_accounts = accounts0\<lparr>twoFA := [''alice'' \<mapsto> \<lparr>ai_code = 123456, ai_expires = 1000 + two_fa_ttl\<rparr>]\<rparr>,
        srv_lists = \<lparr>favori = [], historique = []\<rparr>\<rparr>)"
    by (simp add: serve_def dispatch_login run_endpoint_def users_step_def login_alice_run)
  show "js_parseInt (JStr ''123456'') = Some (rand_code (env_at 1000))"
    using parseInt_code by (simp add: env_at_def)
qed (simp_all add: login_alice_def verify_alice_def env_at_def two_fa_ttl_def)

text \<open>C37. A history entry added over HTTP is listed: after \<open>POST /api/users/historique/\<close>
  with the decimal identifier \<open>i\<close> answers 201, \<open>GET /api/users/historiqueTout/\<close> with
  the same identifier answers 200 with the user's earlier entries followed by the new one.\<close>

theorem history_add_then_list:
  assumes "serve ie e api POST (''/api/users/historique/'' @ encodeURIComponent (dec_int i)) body st
           = (Sent (Reply 201 r), st')"
    and "db_up e'"
  shows "\<exists>vu fid la. fst (serve ie e' api GET (''/api/users/historiqueTout/'' @ encodeURIComponent (dec_int i))
                               body' st')
               = Sent (Reply 200 (JObj [(''historique'', JArr (map hist_json
                   (filter (\<lambda>r. sql_eq (h_user r) (JNum i)) (historique (srv_lists st))
                    @ [\<lparr>h_user = JNum i, h_vu = vu, h_film = fid, h_loue = la\<rparr>])))]))"
proof -
  obtain r' l' where add: "add_historique e (dec_int i) body (srv_lists st) = (r', l')" by fastforce
  have "serve ie e api POST (''/api/users/historique/'' @ encodeURIComponent (dec_int i)) body st
          = (Sent r', st\<lparr>srv_lists := l'\<rparr>)"
    by (simp only: serve_def dispatch_historique [OF dec_int_ne]) (simp add: run_endpoint_def lists_step_def add)
  with assms(1) have "r' = Reply 201 r" "st' = st\<lparr>srv_lists := l'\<rparr>"
    by simp_all
  with add obtain j vu fid la where j: "parse_user_id (dec_int i) = Some j"
      "l' = insert_historique (JNum j) vu fid la (srv_lists st)"
    using add_historique_created by blast
  have "0 < i"
    using j(1) by (auto simp: parse_user_id_def parseInt_dec_int split: if_splits)
  then have "j = i" using j(1) by (simp add: parse_user_id_dec_int)
  moreover have "fst (serve ie e' api GET (''/api/users/historiqueTout/'' @ encodeURIComponent (dec_int i)) body' st')
      = Sent (historique_tout e' (dec_int i) (srv_lists st'))"
    by (simp only: serve_def dispatch_historique_tout [OF dec_int_ne]) (simp add: run_endpoint_def lists_step_def)
  ultimately show ?thesis
    using \<open>st' = _\<close> j assms(2) by (auto simp: historique_tout_insert)
qed

lemma history_add_then_list_witness:
  "\<exists>vu fid la. fst (serve (\<lambda>em. True) (env_at 0) (\<lambda>q. Unreachable) GET
                     (''/api/users/historiqueTout/'' @ encodeURIComponent (dec_int 7)) JNull
              \<lparr>srv_accounts = accounts0,
               srv_lists = \<lparr>favori = [], historique = [\<lparr>h_user = JNum 7, h_vu = JStr ''Heat'',
                 h_film = JStr ''tt0113277'', h_loue = JStr ''achat''\<rparr>]\<rparr>\<rparr>)
       = Sent (Reply 200 (JObj [(''historique'', JArr (map hist_json
           (filter (\<lambda>r. sql_eq (h_user r) (JNum 7)) (historique (srv_lists \<lparr>srv_accounts = accounts0, srv_lists = \<lparr>favori = [], historique = []\<rparr>\<rparr>))
            @ [\<lparr>h_user = JNum 7, h_vu = vu, h_film = fid, h_loue = la\<rparr>])))]))"
proof (rule history_add_then_list [where e = "env_at 0" and body = "JObj [(''filmVu'', JStr ''Heat''), (''id_filmAPI'', JStr ''tt0113277''), (''loueAchat'', JStr ''achat'')]" and r = "message msg_history_added"])
  have d: "dispatch POST (''/api/users/historique/'' @ encodeURIComponent (dec_int 7)) =
             Found EpAddHistorique [dec_int 7]"
    by (rule dispatch_historique) (rule dec_int_ne)
  show "serve (\<lambda>em. True) (env_at 0) (\<lambda>q. Unreachable) POST
          (''/api/users/historique/'' @ encodeURIComponent (dec_int 7)) (JObj [(''filmVu'', JStr ''Heat''), (''id_filmAPI'', JStr ''tt0113277''), (''loueAchat'', JStr ''achat'')]) \<lparr>srv_accounts = accounts0, srv_lists = \<lparr>favori = [], historique = []\<rparr>\<rparr> =
        (Sent (Reply 201 (message msg_history_added)), \<lparr>srv_accounts = accounts0,
               srv_lists = \<lparr>favori = [], historique = [\<lparr>h_user = JNum 7, h_vu = JStr ''Heat'',
                 h_film = JStr ''tt0113277'', h_loue = JStr ''achat''\<rparr>]\<rparr>\<rparr>)"
    by (simp only: serve_def d)
       (simp add: run_endpoint_def lists_step_def add_historique_def add_historique_decide_def env_at_def
                  insert_historique_def parse_user_id_dec_int)
qed (simp add: env_at_def)

end
